theory Spec2Isabelle
  imports
    Main
    "HOL-Library.Word"
    "HOL-Library.Char_ord"
    "HOL-Library.List_Lexorder"
    "HOL-Library.Product_Lexorder"
begin

section \<open>The ClickHouse store of bro-pdns (store\_clickhouse.go)\<close>

text \<open>
  The Go file implements the \<open>Store\<close> interface on top of a ClickHouse server. The Go
  code itself is glue: it sends SQL text and JSON rows to the server and inspects the
  errors that come back. The model therefore has two layers.

  \<^item> The \<^emph>\<open>world\<close>: the server's tables, the faults the network is going to inject, the
    clock, and the log of every call that crossed the process boundary.
  \<^item> The Go methods of \<open>CHStore\<close>, written over the world by explicit state passing,
    with the same statements, the same SQL text and the same order of calls as the source.

  A Go \<open>error\<close> is a value of the datatype \<open>error\<close>, \<open>nil\<close> is \<open>None\<close>; a Go panic
  is the outcome \<open>Panic\<close>; a call that never returns is \<open>None\<close> of a
  \<open>partial_function\<close>.
\<close>

subsection \<open>Errors and outcomes\<close>

text \<open>
  \<open>ErrNoRows\<close> is the sentinel \<open>sql.ErrNoRows\<close>, \<open>Errorf\<close> is \<open>fmt.Errorf\<close> with the
  format already expanded, \<open>Wrap\<close> is \<open>errors.Wrap(err, msg)\<close>, and \<open>Foreign\<close> is an
  error produced outside this file (transport, driver or server), carrying its message.
\<close>

datatype error = ErrNoRows | Errorf string | Wrap error string | Foreign string

datatype 'a outcome = Panic | Returns 'a

subsection \<open>Column types and rows\<close>

type_synonym UInt16 = "16 word"
type_synonym UInt64 = "64 word"
type_synonym DateTime = "32 word"

text \<open>The column \<open>which Enum8('Q'=0, 'A'=1)\<close>.\<close>

datatype which = Q | A

text \<open>
  Rows of the staging tables \<open>tuples_temp\<close> and \<open>individual_temp\<close> (engine \<open>Log\<close>):
  raw values. The field names are the column names, with the table's initials in
  front because the tables share column names.
\<close>

record tuples_temp_row =
  tt_query :: string
  tt_type :: string
  tt_answer :: string
  tt_ttl :: UInt16
  tt_first :: DateTime
  tt_last :: DateTime
  tt_count :: UInt64

record individual_temp_row =
  it_which :: which
  it_value :: string
  it_first :: DateTime
  it_last :: DateTime
  it_count :: UInt64

text \<open>
  Rows of the permanent tables \<open>tuples\<close> and \<open>individual\<close> (engine
  \<open>AggregatingMergeTree\<close>). The columns \<open>ttl\<close>, \<open>first\<close>, \<open>last\<close> and \<open>count\<close> hold
  states of the aggregate functions \<open>anyLast\<close>, \<open>min\<close>, \<open>max\<close> and \<open>sum\<close>. Every state
  in these tables is built from at least one value, so a state is represented by the
  value it would finalise to. An insert adds rows; rows with equal keys stay apart
  until a query merges them. The column \<open>whatever\<close> is the constant default date and is
  left out.
\<close>

record tuples_row =
  t_query :: string
  t_type :: string
  t_answer :: string
  t_ttl :: UInt16
  t_first :: DateTime
  t_last :: DateTime
  t_count :: UInt64

record individual_row =
  i_which :: which
  i_value :: string
  i_first :: DateTime
  i_last :: DateTime
  i_count :: UInt64

text \<open>The ledger table \<open>filenames\<close>; only the column \<open>filename\<close> is read by this file.\<close>

record filenames_row =
  filename :: string

text \<open>
  Modelled from the spec: the Go structs \<open>tupleResult\<close> and \<open>individualResult\<close> are
  declared outside this file. They receive the columns the lookups select (section 4.5
  of the specification: query, type, answer, first, last, count; which, value, first,
  last, count).
\<close>

record tupleResult =
  Query :: string
  Type :: string
  Answer :: string
  First :: DateTime
  Last :: DateTime
  Count :: UInt64

record individualResult =
  Which :: which
  Value :: string
  IFirst :: DateTime
  ILast :: DateTime
  ICount :: UInt64

text \<open>
  One line of a \<open>JSONEachRow\<close> stream, after decoding: it has the shape of a row of one
  of the two staging tables.
\<close>

datatype json_row = TupleJSON tuples_temp_row | IndividualJSON individual_temp_row

subsection \<open>The server\<close>

text \<open>A table that does not exist is \<open>None\<close>.\<close>

record clickhouse =
  tuples :: "tuples_row list option"
  individual :: "individual_row list option"
  filenames :: "filenames_row list option"
  tuples_temp :: "tuples_temp_row list option"
  individual_temp :: "individual_temp_row list option"

subsection \<open>SQL operators of the server\<close>

text \<open>
  \<open>s LIKE p\<close>: \<open>%\<close> stands for any run of characters, \<open>_\<close> for one character, a
  backslash takes the next character of the pattern literally. The first argument is
  the pattern.
\<close>

fun sql_like :: "string \<Rightarrow> string \<Rightarrow> bool" where
  "sql_like [] s = (s = [])"
| "sql_like (p # ps) s =
     (if p = CHR ''%'' then
        sql_like ps s \<or> (case s of [] \<Rightarrow> False | _ # s' \<Rightarrow> sql_like (p # ps) s')
      else if p = CHR ''_'' then
        (case s of [] \<Rightarrow> False | _ # s' \<Rightarrow> sql_like ps s')
      else if p = CHR 0x5C then
        (case ps of
           [] \<Rightarrow> s = [p]
         | e # ps' \<Rightarrow> (case s of [] \<Rightarrow> False | c # s' \<Rightarrow> c = e \<and> sql_like ps' s'))
      else
        (case s of [] \<Rightarrow> False | c # s' \<Rightarrow> c = p \<and> sql_like ps s'))"

text \<open>
  \<open>GROUP BY\<close> with aggregate functions, as hash aggregation: the rows are read in
  order; the first row of a key opens its state with \<open>init\<close>, every later row of the
  key is folded into the state with \<open>add\<close>. The groups come out in the order in which
  their keys were first seen.
\<close>

definition group_step ::
  "('r \<Rightarrow> 'k) \<Rightarrow> ('r \<Rightarrow> 's) \<Rightarrow> ('s \<Rightarrow> 'r \<Rightarrow> 's) \<Rightarrow> 'r \<Rightarrow> ('k \<times> 's) list \<Rightarrow> ('k \<times> 's) list"
where
  "group_step key init add r acc =
     (case map_of acc (key r) of
        None \<Rightarrow> acc @ [(key r, init r)]
      | Some _ \<Rightarrow> map (\<lambda>(k, s). if k = key r then (k, add s r) else (k, s)) acc)"

definition GROUP_BY ::
  "('r \<Rightarrow> 'k) \<Rightarrow> ('r \<Rightarrow> 's) \<Rightarrow> ('s \<Rightarrow> 'r \<Rightarrow> 's) \<Rightarrow> 'r list \<Rightarrow> 's list"
where
  "GROUP_BY key init add rows = map snd (fold (group_step key init add) rows [])"

subsection \<open>The statements this file sends, as the server executes them\<close>

text \<open>
  The staging DDL, verbatim (\<open>tuples_temp_stmt\<close> and \<open>individual_temp_stmt\<close> of the
  source).
\<close>

definition tuples_temp_stmt :: string where
  "tuples_temp_stmt =
     ''\<newline>CREATE TABLE tuples_temp (\<newline>    query String,\<newline>    type String,\<newline>    answer String,\<newline>    ttl UInt16,\<newline>    first DateTime,\<newline>    last DateTime,\<newline>    count UInt64\<newline>) ENGINE = Log''"

definition individual_temp_stmt :: string where
  "individual_temp_stmt =
     ''\<newline>CREATE TABLE individual_temp (\<newline>    which Enum8('Q'=0, 'A'=1),\<newline>    value String,\<newline>    first DateTime,\<newline>    last DateTime,\<newline>    count UInt64\<newline>) ENGINE = Log''"

subsection \<open>Statements of the form INSERT ... SELECT ... GROUP BY\<close>

text \<open>
  The two merge statements of \<open>Update\<close> are not given a meaning of their own. The server
  reads the text: it splits it into words, parentheses and commas, and accepts the form
  \<open>INSERT INTO t (c, ...) SELECT item, ... FROM t' GROUP BY c, ...\<close>, where an item is a
  column or a function applied to a column. Keywords are matched without regard to case;
  the names of tables, columns and functions are taken as written.
\<close>

datatype token = Word string | LParen | RParen | Comma

definition flush :: "string \<Rightarrow> token list" where
  "flush w = (if w = [] then [] else [Word w])"

fun tokens :: "string \<Rightarrow> string \<Rightarrow> token list" where
  "tokens w [] = flush w"
| "tokens w (c # cs) =
     (if c = CHR '' '' \<or> c = CHR 0x0A \<or> c = CHR 0x09 then flush w @ tokens [] cs
      else if c = CHR ''('' then flush w @ LParen # tokens [] cs
      else if c = CHR '')'' then flush w @ RParen # tokens [] cs
      else if c = CHR '','' then flush w @ Comma # tokens [] cs
      else tokens (w @ [c]) cs)"

definition upper_char :: "char \<Rightarrow> char" where
  "upper_char c =
     (case map_of (zip ''abcdefghijklmnopqrstuvwxyz'' ''ABCDEFGHIJKLMNOPQRSTUVWXYZ'') c of
        Some u \<Rightarrow> u
      | None \<Rightarrow> c)"

definition keyword :: "string \<Rightarrow> string \<Rightarrow> bool" where
  "keyword k w = (map upper_char w = k)"

text \<open>A select item, and the parts of a statement of this form.\<close>

datatype item = Column string | Apply string string

record insert_select =
  target :: string
  columns :: "string list"
  items :: "item list"
  source :: string
  group_by :: "string list"

fun parse_names :: "token list \<Rightarrow> (string list \<times> token list) option" where
  "parse_names (Word c # Comma # ts) = map_option (\<lambda>(cs, r). (c # cs, r)) (parse_names ts)"
| "parse_names (Word c # ts) = Some ([c], ts)"
| "parse_names _ = None"

fun parse_items :: "token list \<Rightarrow> (item list \<times> token list) option" where
  "parse_items [] = None"
| "parse_items (t # ts) =
     (case t of
        Word x \<Rightarrow>
          (case ts of
             LParen # Word c # RParen # Comma # r \<Rightarrow>
               map_option (\<lambda>(its, r'). (Apply x c # its, r')) (parse_items r)
           | LParen # Word c # RParen # r \<Rightarrow> Some ([Apply x c], r)
           | Comma # r \<Rightarrow> map_option (\<lambda>(its, r'). (Column x # its, r')) (parse_items r)
           | r \<Rightarrow> Some ([Column x], r))
      | _ \<Rightarrow> None)"

definition parse_insert_select :: "token list \<Rightarrow> insert_select option" where
  "parse_insert_select ts =
     (case ts of
        Word k1 # Word k2 # Word tgt # LParen # r1 \<Rightarrow>
          if keyword ''INSERT'' k1 \<and> keyword ''INTO'' k2 then
            (case parse_names r1 of
               Some (cols, RParen # Word k3 # r2) \<Rightarrow>
                 if keyword ''SELECT'' k3 then
                   (case parse_items r2 of
                      Some (its, Word k4 # Word src # Word k5 # Word k6 # r3) \<Rightarrow>
                        if keyword ''FROM'' k4 \<and> keyword ''GROUP'' k5 \<and> keyword ''BY'' k6 then
                          (case parse_names r3 of
                             Some (keys, []) \<Rightarrow>
                               Some \<lparr>target = tgt, columns = cols, items = its,
                                     source = src, group_by = keys\<rparr>
                           | _ \<Rightarrow> None)
                        else None
                    | _ \<Rightarrow> None)
                 else None
             | _ \<Rightarrow> None)
          else None
      | _ \<Rightarrow> None)"

text \<open>
  The values of a column, and the four aggregate functions this file uses. \<open>VState g v\<close>
  is a state of the function \<open>g\<close>; as in the permanent tables, the state of a group is
  held as the value \<open>v\<close> it would finalise to. \<open>anyLast\<close> keeps the last value it has
  seen, \<open>min\<close> and \<open>max\<close> the least and the greatest, \<open>sum\<close> adds in \<open>UInt64\<close>. A row is
  a list of named values; a column the row does not have reads as \<open>VNull\<close>.
\<close>

datatype aggregate = Agg_anyLast | Agg_min | Agg_max | Agg_sum

datatype sql_value =
    VString string
  | VUInt16 UInt16
  | VDateTime DateTime
  | VUInt64 UInt64
  | VEnum8 which
  | VState aggregate sql_value
  | VNull

type_synonym sql_row = "(string \<times> sql_value) list"

definition col :: "sql_row \<Rightarrow> string \<Rightarrow> sql_value" where
  "col r c = (case map_of r c of Some v \<Rightarrow> v | None \<Rightarrow> VNull)"

definition state_function :: "string \<Rightarrow> aggregate option" where
  "state_function f =
     (if f = ''anyLastState'' then Some Agg_anyLast
      else if f = ''minState'' then Some Agg_min
      else if f = ''maxState'' then Some Agg_max
      else if f = ''sumState'' then Some Agg_sum
      else None)"

fun vmin :: "sql_value \<Rightarrow> sql_value \<Rightarrow> sql_value" where
  "vmin (VString a) (VString b) = VString (min a b)"
| "vmin (VUInt16 a) (VUInt16 b) = VUInt16 (min a b)"
| "vmin (VDateTime a) (VDateTime b) = VDateTime (min a b)"
| "vmin (VUInt64 a) (VUInt64 b) = VUInt64 (min a b)"
| "vmin a _ = a"

fun vmax :: "sql_value \<Rightarrow> sql_value \<Rightarrow> sql_value" where
  "vmax (VString a) (VString b) = VString (max a b)"
| "vmax (VUInt16 a) (VUInt16 b) = VUInt16 (max a b)"
| "vmax (VDateTime a) (VDateTime b) = VDateTime (max a b)"
| "vmax (VUInt64 a) (VUInt64 b) = VUInt64 (max a b)"
| "vmax a _ = a"

fun vsum :: "sql_value \<Rightarrow> sql_value" where
  "vsum (VUInt16 a) = VUInt64 (ucast a)"
| "vsum v = v"

fun vadd :: "sql_value \<Rightarrow> sql_value \<Rightarrow> sql_value" where
  "vadd (VUInt64 a) (VUInt64 b) = VUInt64 (a + b)"
| "vadd (VUInt64 a) (VUInt16 b) = VUInt64 (a + ucast b)"
| "vadd a _ = a"

fun agg_init :: "aggregate \<Rightarrow> sql_value \<Rightarrow> sql_value" where
  "agg_init Agg_sum v = vsum v"
| "agg_init _ v = v"

fun agg_add :: "aggregate \<Rightarrow> sql_value \<Rightarrow> sql_value \<Rightarrow> sql_value" where
  "agg_add Agg_anyLast s v = v"
| "agg_add Agg_min s v = vmin s v"
| "agg_add Agg_max s v = vmax s v"
| "agg_add Agg_sum s v = vadd s v"

text \<open>
  \<open>SELECT items FROM rows GROUP BY keys\<close>: a plain column must be one of the keys and
  yields its value in the group's first row; \<open>fState(c)\<close> yields the state of \<open>f\<close> over the
  values of \<open>c\<close> in the rows of the group, taken in the order of the table.
\<close>

fun item_ok :: "string list \<Rightarrow> string list \<Rightarrow> item \<Rightarrow> bool" where
  "item_ok cols keys (Column c) = (c \<in> set keys)"
| "item_ok cols keys (Apply f c) = (state_function f \<noteq> None \<and> c \<in> set cols)"

fun item_init :: "item \<Rightarrow> sql_row \<Rightarrow> sql_value" where
  "item_init (Column c) r = col r c"
| "item_init (Apply f c) r =
     (case state_function f of Some g \<Rightarrow> VState g (agg_init g (col r c)) | None \<Rightarrow> VNull)"

fun item_add :: "item \<Rightarrow> sql_value \<Rightarrow> sql_row \<Rightarrow> sql_value" where
  "item_add (Apply f c) (VState g s) r = VState g (agg_add g s (col r c))"
| "item_add _ s r = s"

definition select_group_by :: "item list \<Rightarrow> string list \<Rightarrow> sql_row list \<Rightarrow> sql_value list list" where
  "select_group_by its keys rows =
     GROUP_BY (\<lambda>r. map (col r) keys)
       (\<lambda>r. map (\<lambda>it. item_init it r) its)
       (\<lambda>st r. map2 (\<lambda>it s. item_add it s r) its st)
       rows"

text \<open>
  The tables by name. A staging row is read as the named values of its \<open>CREATE TABLE\<close>
  statement. A row for a permanent table must bring, for every column, a value of the
  type the schema of the source (\<open>chschema\<close>) declares: strings for the key columns,
  and states of \<open>anyLast\<close> over \<open>UInt16\<close>, of \<open>min\<close> and of \<open>max\<close> over \<open>DateTime\<close> and of
  \<open>sum\<close> over \<open>UInt64\<close> for \<open>ttl\<close>, \<open>first\<close>, \<open>last\<close> and \<open>count\<close>. A state of another
  function in such a column is a type mismatch. Only the staging tables can be read and
  only the two aggregate tables can be written through a statement of this form.
\<close>

definition tuples_temp_columns :: "string list" where
  "tuples_temp_columns = [''query'', ''type'', ''answer'', ''ttl'', ''first'', ''last'', ''count'']"

definition individual_temp_columns :: "string list" where
  "individual_temp_columns = [''which'', ''value'', ''first'', ''last'', ''count'']"

definition tuples_temp_sql :: "tuples_temp_row \<Rightarrow> sql_row" where
  "tuples_temp_sql r =
     [(''query'', VString (tt_query r)), (''type'', VString (tt_type r)),
      (''answer'', VString (tt_answer r)), (''ttl'', VUInt16 (tt_ttl r)),
      (''first'', VDateTime (tt_first r)), (''last'', VDateTime (tt_last r)),
      (''count'', VUInt64 (tt_count r))]"

definition individual_temp_sql :: "individual_temp_row \<Rightarrow> sql_row" where
  "individual_temp_sql r =
     [(''which'', VEnum8 (it_which r)), (''value'', VString (it_value r)),
      (''first'', VDateTime (it_first r)), (''last'', VDateTime (it_last r)),
      (''count'', VUInt64 (it_count r))]"

fun the_string :: "sql_value option \<Rightarrow> string option" where
  "the_string (Some (VString x)) = Some x"
| "the_string _ = None"

fun the_enum8 :: "sql_value option \<Rightarrow> which option" where
  "the_enum8 (Some (VEnum8 x)) = Some x"
| "the_enum8 _ = None"

fun the_uint16 :: "sql_value option \<Rightarrow> UInt16 option" where
  "the_uint16 (Some (VUInt16 x)) = Some x"
| "the_uint16 _ = None"

fun the_datetime :: "sql_value option \<Rightarrow> DateTime option" where
  "the_datetime (Some (VDateTime x)) = Some x"
| "the_datetime _ = None"

fun the_uint64 :: "sql_value option \<Rightarrow> UInt64 option" where
  "the_uint64 (Some (VUInt64 x)) = Some x"
| "the_uint64 _ = None"

fun the_state :: "aggregate \<Rightarrow> sql_value option \<Rightarrow> sql_value option" where
  "the_state g (Some (VState h v)) = (if g = h then Some v else None)"
| "the_state g _ = None"

definition tuples_of_sql :: "sql_row \<Rightarrow> tuples_row option" where
  "tuples_of_sql r =
     Option.bind (the_string (map_of r ''query'')) (\<lambda>q.
     Option.bind (the_string (map_of r ''type'')) (\<lambda>t.
     Option.bind (the_string (map_of r ''answer'')) (\<lambda>a.
     Option.bind (the_uint16 (the_state Agg_anyLast (map_of r ''ttl''))) (\<lambda>l.
     Option.bind (the_datetime (the_state Agg_min (map_of r ''first''))) (\<lambda>f.
     Option.bind (the_datetime (the_state Agg_max (map_of r ''last''))) (\<lambda>m.
     Option.bind (the_uint64 (the_state Agg_sum (map_of r ''count''))) (\<lambda>n.
       Some \<lparr>t_query = q, t_type = t, t_answer = a,
             t_ttl = l, t_first = f, t_last = m, t_count = n\<rparr>)))))))"

definition individual_of_sql :: "sql_row \<Rightarrow> individual_row option" where
  "individual_of_sql r =
     Option.bind (the_enum8 (map_of r ''which'')) (\<lambda>w.
     Option.bind (the_string (map_of r ''value'')) (\<lambda>v.
     Option.bind (the_datetime (the_state Agg_min (map_of r ''first''))) (\<lambda>f.
     Option.bind (the_datetime (the_state Agg_max (map_of r ''last''))) (\<lambda>m.
     Option.bind (the_uint64 (the_state Agg_sum (map_of r ''count''))) (\<lambda>n.
       Some \<lparr>i_which = w, i_value = v, i_first = f, i_last = m, i_count = n\<rparr>)))))"

definition source_table :: "string \<Rightarrow> clickhouse \<Rightarrow> string + (string list \<times> sql_row list)" where
  "source_table name db =
     (if name = ''tuples_temp'' then
        (case tuples_temp db of
           None \<Rightarrow> Inl ''Table default.tuples_temp doesn't exist''
         | Some rows \<Rightarrow> Inr (tuples_temp_columns, map tuples_temp_sql rows))
      else if name = ''individual_temp'' then
        (case individual_temp db of
           None \<Rightarrow> Inl ''Table default.individual_temp doesn't exist''
         | Some rows \<Rightarrow> Inr (individual_temp_columns, map individual_temp_sql rows))
      else Inl ''Not supported'')"

definition insert_rows :: "string \<Rightarrow> sql_row list \<Rightarrow> clickhouse \<Rightarrow> string + clickhouse" where
  "insert_rows name rows db =
     (if name = ''tuples'' then
        (case tuples db of
           None \<Rightarrow> Inl ''Table default.tuples doesn't exist''
         | Some old \<Rightarrow>
             (case those (map tuples_of_sql rows) of
                None \<Rightarrow> Inl ''Type mismatch''
              | Some new \<Rightarrow> Inr (db\<lparr>tuples := Some (old @ new)\<rparr>)))
      else if name = ''individual'' then
        (case individual db of
           None \<Rightarrow> Inl ''Table default.individual doesn't exist''
         | Some old \<Rightarrow>
             (case those (map individual_of_sql rows) of
                None \<Rightarrow> Inl ''Type mismatch''
              | Some new \<Rightarrow> Inr (db\<lparr>individual := Some (old @ new)\<rparr>)))
      else Inl ''Not supported'')"

definition insert_select_exec :: "insert_select \<Rightarrow> clickhouse \<Rightarrow> string + clickhouse" where
  "insert_select_exec stmt db =
     (case source_table (source stmt) db of
        Inl m \<Rightarrow> Inl m
      | Inr (cols, rows) \<Rightarrow>
          if \<not> set (group_by stmt) \<subseteq> set cols then Inl ''Missing columns''
          else if \<not> list_all (item_ok cols (group_by stmt)) (items stmt) then Inl ''Illegal aggregation''
          else if length (columns stmt) \<noteq> length (items stmt) \<or> \<not> distinct (columns stmt)
            then Inl ''Number of columns doesn't match''
          else insert_rows (target stmt)
                 (map (zip (columns stmt)) (select_group_by (items stmt) (group_by stmt) rows)) db)"

text \<open>
  Statements without a result set, sent through \<open>Exec\<close>. \<open>Inl\<close> carries the message of
  the server's exception. \<open>DROP TABLE\<close> has no \<open>IF EXISTS\<close> and \<open>CREATE TABLE\<close> no
  \<open>IF NOT EXISTS\<close>, so the first fails on a missing table and the second on an
  existing one. Any other text is read as an \<open>INSERT ... SELECT ... GROUP BY\<close>.
\<close>

definition ch_exec :: "string \<Rightarrow> clickhouse \<Rightarrow> string + clickhouse" where
  "ch_exec sql db =
     (if sql = ''DROP TABLE tuples_temp'' then
        (case tuples_temp db of
           None \<Rightarrow> Inl ''Table default.tuples_temp doesn't exist''
         | Some _ \<Rightarrow> Inr (db\<lparr>tuples_temp := None\<rparr>))
      else if sql = ''DROP TABLE individual_temp'' then
        (case individual_temp db of
           None \<Rightarrow> Inl ''Table default.individual_temp doesn't exist''
         | Some _ \<Rightarrow> Inr (db\<lparr>individual_temp := None\<rparr>))
      else if sql = tuples_temp_stmt then
        (case tuples_temp db of
           Some _ \<Rightarrow> Inl ''Table default.tuples_temp already exists''
         | None \<Rightarrow> Inr (db\<lparr>tuples_temp := Some []\<rparr>))
      else if sql = individual_temp_stmt then
        (case individual_temp db of
           Some _ \<Rightarrow> Inl ''Table default.individual_temp already exists''
         | None \<Rightarrow> Inr (db\<lparr>individual_temp := Some []\<rparr>))
      else
        (case parse_insert_select (tokens [] sql) of
           None \<Rightarrow> Inl ''Syntax error''
         | Some stmt \<Rightarrow> insert_select_exec stmt db))"

text \<open>
  \<open>INSERT INTO t FORMAT JSONEachRow\<close> with a stream of rows: every row must have the
  shape of the table; the rows are appended in the order of the stream.
\<close>

fun tuple_rows :: "json_row list \<Rightarrow> tuples_temp_row list option" where
  "tuple_rows [] = Some []"
| "tuple_rows (TupleJSON r # js) = map_option ((#) r) (tuple_rows js)"
| "tuple_rows (IndividualJSON _ # js) = None"

fun individual_rows :: "json_row list \<Rightarrow> individual_temp_row list option" where
  "individual_rows [] = Some []"
| "individual_rows (IndividualJSON r # js) = map_option ((#) r) (individual_rows js)"
| "individual_rows (TupleJSON _ # js) = None"

definition ch_insert_json :: "string \<Rightarrow> json_row list \<Rightarrow> clickhouse \<Rightarrow> string + clickhouse" where
  "ch_insert_json sql js db =
     (if sql = ''INSERT INTO tuples_temp FORMAT JSONEachRow'' then
        (case tuples_temp db of
           None \<Rightarrow> Inl ''Table default.tuples_temp doesn't exist''
         | Some staged \<Rightarrow>
             (case tuple_rows js of
                None \<Rightarrow> Inl ''Cannot parse input''
              | Some rs \<Rightarrow> Inr (db\<lparr>tuples_temp := Some (staged @ rs)\<rparr>)))
      else if sql = ''INSERT INTO individual_temp FORMAT JSONEachRow'' then
        (case individual_temp db of
           None \<Rightarrow> Inl ''Table default.individual_temp doesn't exist''
         | Some staged \<Rightarrow>
             (case individual_rows js of
                None \<Rightarrow> Inl ''Cannot parse input''
              | Some rs \<Rightarrow> Inr (db\<lparr>individual_temp := Some (staged @ rs)\<rparr>)))
      else Inl ''Syntax error'')"

text \<open>
  \<open>SELECT query, type, answer, minMerge(first) as first, maxMerge(last) as last,
  sumMerge(count) as count from tuples WHERE \<dots> group by query, type, answer ORDER BY
  query, answer\<close>, for a given \<open>WHERE\<close> condition. Strings are ordered bytewise.
\<close>

definition tuples_key :: "tuples_row \<Rightarrow> string \<times> string \<times> string" where
  "tuples_key r = (t_query r, t_type r, t_answer r)"

definition tuples_merge_init :: "tuples_row \<Rightarrow> tupleResult" where
  "tuples_merge_init r =
     \<lparr>Query = t_query r, Type = t_type r, Answer = t_answer r,
      First = t_first r, Last = t_last r, Count = t_count r\<rparr>"

definition tuples_merge_add :: "tupleResult \<Rightarrow> tuples_row \<Rightarrow> tupleResult" where
  "tuples_merge_add s r =
     s\<lparr>First := min (First s) (t_first r),
       Last := max (Last s) (t_last r),
       Count := Count s + t_count r\<rparr>"

definition select_tuples_merged :: "(tuples_row \<Rightarrow> bool) \<Rightarrow> tuples_row list \<Rightarrow> tupleResult list" where
  "select_tuples_merged cond rows =
     sort_key (\<lambda>r. (Query r, Answer r))
       (GROUP_BY tuples_key tuples_merge_init tuples_merge_add (filter cond rows))"

text \<open>
  The three tuple queries of this file. The bind parameters replace the \<open>?\<close> marks from
  left to right. \<open>SELECT *\<close> has no \<open>group by\<close> and no \<open>ORDER BY\<close>: it returns the stored
  rows as they are, in the order of the table, and its state columns are read as the
  values they would finalise to (whether the driver can scan a raw state into the Go
  struct depends on declarations outside this file).
\<close>

definition ch_select_tuples :: "string \<Rightarrow> string list \<Rightarrow> clickhouse \<Rightarrow> string + tupleResult list" where
  "ch_select_tuples sql args db =
     (case tuples db of
        None \<Rightarrow> Inl ''Table default.tuples doesn't exist''
      | Some rows \<Rightarrow>
          if sql = ''SELECT * FROM tuples WHERE query = ?'' then
            (case args of
               [a] \<Rightarrow> Inr (map tuples_merge_init (filter (\<lambda>r. t_query r = a) rows))
             | _ \<Rightarrow> Inl ''Wrong number of bind parameters'')
          else if sql = ''SELECT query, type, answer, minMerge(first) as first, maxMerge(last) as last, sumMerge(count) as count from tuples WHERE query = ? OR answer = ? group by query, type, answer ORDER BY query, answer'' then
            (case args of
               [a, b] \<Rightarrow> Inr (select_tuples_merged (\<lambda>r. t_query r = a \<or> t_answer r = b) rows)
             | _ \<Rightarrow> Inl ''Wrong number of bind parameters'')
          else if sql = ''SELECT query, type, answer, minMerge(first) as first, maxMerge(last) as last, sumMerge(count) as count from tuples WHERE query like ? OR answer like ? group by query, type, answer ORDER BY query, answer'' then
            (case args of
               [a, b] \<Rightarrow>
                 Inr (select_tuples_merged (\<lambda>r. sql_like a (t_query r) \<or> sql_like b (t_answer r)) rows)
             | _ \<Rightarrow> Inl ''Wrong number of bind parameters'')
          else Inl ''Syntax error'')"

text \<open>
  \<open>SELECT which, value, minMerge(first) as first, maxMerge(last) as last,
  sumMerge(count) as count from individual WHERE \<dots> group by which, value ORDER BY
  value\<close>, and the two individual queries of this file.
\<close>

definition individual_key :: "individual_row \<Rightarrow> which \<times> string" where
  "individual_key r = (i_which r, i_value r)"

definition individual_merge_init :: "individual_row \<Rightarrow> individualResult" where
  "individual_merge_init r =
     \<lparr>Which = i_which r, Value = i_value r,
      IFirst = i_first r, ILast = i_last r, ICount = i_count r\<rparr>"

definition individual_merge_add :: "individualResult \<Rightarrow> individual_row \<Rightarrow> individualResult" where
  "individual_merge_add s r =
     s\<lparr>IFirst := min (IFirst s) (i_first r),
       ILast := max (ILast s) (i_last r),
       ICount := ICount s + i_count r\<rparr>"

definition select_individual_merged ::
  "(individual_row \<Rightarrow> bool) \<Rightarrow> individual_row list \<Rightarrow> individualResult list"
where
  "select_individual_merged cond rows =
     sort_key Value
       (GROUP_BY individual_key individual_merge_init individual_merge_add (filter cond rows))"

definition ch_select_individual ::
  "string \<Rightarrow> string list \<Rightarrow> clickhouse \<Rightarrow> string + individualResult list"
where
  "ch_select_individual sql args db =
     (case individual db of
        None \<Rightarrow> Inl ''Table default.individual doesn't exist''
      | Some rows \<Rightarrow>
          if sql = ''SELECT which, value, minMerge(first) as first, maxMerge(last) as last, sumMerge(count) as count from individual WHERE (which='A' AND value = ?) OR (which='Q' AND value = ?) group by which, value ORDER BY value'' then
            (case args of
               [a, b] \<Rightarrow>
                 Inr (select_individual_merged
                        (\<lambda>r. (i_which r = A \<and> i_value r = a) \<or> (i_which r = Q \<and> i_value r = b)) rows)
             | _ \<Rightarrow> Inl ''Wrong number of bind parameters'')
          else if sql = ''SELECT which, value, minMerge(first) as first, maxMerge(last) as last, sumMerge(count) as count from individual WHERE (which='A' AND value like ?) OR (which='Q' AND value like ?) group by which, value ORDER BY value'' then
            (case args of
               [a, b] \<Rightarrow>
                 Inr (select_individual_merged
                        (\<lambda>r. (i_which r = A \<and> sql_like a (i_value r)) \<or>
                             (i_which r = Q \<and> sql_like b (i_value r))) rows)
             | _ \<Rightarrow> Inl ''Wrong number of bind parameters'')
          else Inl ''Syntax error'')"

text \<open>The ledger query: the \<open>filename\<close> column of the rows with exactly that filename.\<close>

definition ch_select_filenames :: "string \<Rightarrow> string list \<Rightarrow> clickhouse \<Rightarrow> string + string list" where
  "ch_select_filenames sql args db =
     (case filenames db of
        None \<Rightarrow> Inl ''Table default.filenames doesn't exist''
      | Some rows \<Rightarrow>
          if sql = ''SELECT filename FROM filenames WHERE filename=?'' then
            (case args of
               [a] \<Rightarrow> Inr (map filename (filter (\<lambda>r. filename r = a) rows))
             | _ \<Rightarrow> Inl ''Wrong number of bind parameters'')
          else Inl ''Syntax error'')"

subsection \<open>The world outside the process\<close>

text \<open>
  An HTTP response as \<open>SendJSON\<close> reads it: the status code, the bytes of the body, and
  the error that reading the body to its end returns, if any.
\<close>

record response =
  StatusCode :: int
  Body :: string
  BodyErr :: "string option"

text \<open>
  What the network does to one \<open>POST\<close>: it delivers it to the server, or the request
  fails without a response (\<open>PostFail\<close>), or a response comes back that the server's
  tables had no part in (\<open>PostReply\<close>, with the error \<open>Post\<close> returns beside it).
\<close>

datatype post_event = PostDeliver | PostFail string | PostReply response "string option"

text \<open>The log: every call that left the process, with its arguments and what it returned.\<close>

datatype call =
    HttpExec string "error option"
  | HttpPost string string "json_row list" "response option" "error option"
  | ConnQuery string "string list" "error option"

text \<open>
  \<open>faults\<close> is consumed by the calls that return only an error (\<open>Query.Exec\<close> and the
  \<open>sqlx\<close> connection): \<open>Some m\<close> makes the next call fail with message \<open>m\<close> before it
  reaches the server. \<open>posts\<close> is consumed by \<open>http.Client.Post\<close>. An exhausted list
  means the call is delivered. \<open>clock\<close> holds the readings \<open>time.Now\<close> is going to
  return, in nanoseconds.
\<close>

record world =
  server :: clickhouse
  faults :: "string option list"
  posts :: "post_event list"
  clock :: "int list"
  calls :: "call list"

definition next_fault :: "world \<Rightarrow> string option \<times> world" where
  "next_fault w = (case faults w of [] \<Rightarrow> (None, w) | f # fs \<Rightarrow> (f, w\<lparr>faults := fs\<rparr>))"

definition next_post :: "world \<Rightarrow> post_event \<times> world" where
  "next_post w = (case posts w of [] \<Rightarrow> (PostDeliver, w) | p # ps \<Rightarrow> (p, w\<lparr>posts := ps\<rparr>))"

definition time_Now :: "world \<Rightarrow> int \<times> world" where
  "time_Now w = (case clock w of [] \<Rightarrow> (0, w) | t # ts \<Rightarrow> (t, w\<lparr>clock := ts\<rparr>))"

text \<open>\<open>q.Exec(s.http)\<close> of the HTTP client library, for the statement text \<open>q\<close>.\<close>

definition Query_Exec :: "string \<Rightarrow> world \<Rightarrow> error option \<times> world" where
  "Query_Exec q w =
     (let (f, w1) = next_fault w;
          (err, db) =
            (case f of
               Some m \<Rightarrow> (Some (Foreign m), server w1)
             | None \<Rightarrow>
                 (case ch_exec q (server w1) of
                    Inl m \<Rightarrow> (Some (Foreign m), server w1)
                  | Inr db' \<Rightarrow> (None, db')))
      in (err, w1\<lparr>server := db, calls := calls w1 @ [HttpExec q err]\<rparr>))"

text \<open>
  \<open>client.Post(u, "application/json", r)\<close>, where \<open>u\<close> names the host and carries the
  statement as its \<open>query\<close> parameter. A delivered request is answered with status 200
  and an empty body, or with status 500 and the exception's message.
\<close>

definition Client_Post ::
  "string \<Rightarrow> string \<Rightarrow> json_row list \<Rightarrow> world \<Rightarrow> (response option \<times> error option) \<times> world"
where
  "Client_Post h query r w =
     (let (p, w1) = next_post w;
          (resp, err, db) =
            (case p of
               PostFail m \<Rightarrow> (None, Some (Foreign m), server w1)
             | PostReply rsp e \<Rightarrow> (Some rsp, map_option Foreign e, server w1)
             | PostDeliver \<Rightarrow>
                 (case ch_insert_json query r (server w1) of
                    Inl m \<Rightarrow>
                      (Some \<lparr>StatusCode = 500, Body = m, BodyErr = None\<rparr>, None, server w1)
                  | Inr db' \<Rightarrow>
                      (Some \<lparr>StatusCode = 200, Body = [], BodyErr = None\<rparr>, None, db')))
      in ((resp, err), w1\<lparr>server := db, calls := calls w1 @ [HttpPost h query r resp err]\<rparr>))"

definition ioutil_ReadAll :: "response \<Rightarrow> string \<times> error option" where
  "ioutil_ReadAll rsp = (Body rsp, map_option Foreign (BodyErr rsp))"

text \<open>
  \<open>s.conn.Select(&tr, sql, args...)\<close> into a slice of \<open>tupleResult\<close> or of
  \<open>individualResult\<close>, and \<open>s.conn.QueryRow(sql, args...).Scan(&fn)\<close>, which returns
  \<open>sql.ErrNoRows\<close> when the query ran and produced no row.
\<close>

definition DB_Select_tuples ::
  "string \<Rightarrow> string list \<Rightarrow> world \<Rightarrow> (tupleResult list \<times> error option) \<times> world"
where
  "DB_Select_tuples sql args w =
     (let (f, w1) = next_fault w;
          (tr, err) =
            (case f of
               Some m \<Rightarrow> ([], Some (Foreign m))
             | None \<Rightarrow>
                 (case ch_select_tuples sql args (server w1) of
                    Inl m \<Rightarrow> ([], Some (Foreign m))
                  | Inr rows \<Rightarrow> (rows, None)))
      in ((tr, err), w1\<lparr>calls := calls w1 @ [ConnQuery sql args err]\<rparr>))"

definition DB_Select_individual ::
  "string \<Rightarrow> string list \<Rightarrow> world \<Rightarrow> (individualResult list \<times> error option) \<times> world"
where
  "DB_Select_individual sql args w =
     (let (f, w1) = next_fault w;
          (tr, err) =
            (case f of
               Some m \<Rightarrow> ([], Some (Foreign m))
             | None \<Rightarrow>
                 (case ch_select_individual sql args (server w1) of
                    Inl m \<Rightarrow> ([], Some (Foreign m))
                  | Inr rows \<Rightarrow> (rows, None)))
      in ((tr, err), w1\<lparr>calls := calls w1 @ [ConnQuery sql args err]\<rparr>))"

definition DB_QueryRow_Scan :: "string \<Rightarrow> string list \<Rightarrow> world \<Rightarrow> (string \<times> error option) \<times> world" where
  "DB_QueryRow_Scan sql args w =
     (let (f, w1) = next_fault w;
          (fn, err) =
            (case f of
               Some m \<Rightarrow> ([], Some (Foreign m))
             | None \<Rightarrow>
                 (case ch_select_filenames sql args (server w1) of
                    Inl m \<Rightarrow> ([], Some (Foreign m))
                  | Inr [] \<Rightarrow> ([], Some ErrNoRows)
                  | Inr (x # _) \<Rightarrow> (x, None)))
      in ((fn, err), w1\<lparr>calls := calls w1 @ [ConnQuery sql args err]\<rparr>))"

subsection \<open>Declarations this file takes from the rest of the package\<close>

text \<open>
  Modelled from the spec: \<open>Reverse\<close> is defined outside this file. Section 4.2:
  it "reverses the character sequence of a string".
\<close>

definition Reverse :: "string \<Rightarrow> string" where
  "Reverse s = rev s"

text \<open>
  Modelled from the spec: \<open>reverseQuery\<close> and \<open>reverseValue\<close> are defined outside this
  file. Sections 4.2 and 4.5: a lookup "re-reverses output query fields before
  returning"; in the individual table "query-name values are stored reversed, answer
  values are stored in natural order". The Go functions update the slice in place; here
  the updated slice is the result.
\<close>

definition reverseQuery :: "tupleResult list \<Rightarrow> tupleResult list" where
  "reverseQuery tr = map (\<lambda>rec. rec\<lparr>Query := Reverse (Query rec)\<rparr>) tr"

definition reverseValue :: "individualResult list \<Rightarrow> individualResult list" where
  "reverseValue tr =
     map (\<lambda>rec. if Which rec = Q then rec\<lparr>Value := Reverse (Value rec)\<rparr> else rec) tr"

text \<open>
  Modelled from the spec: the types \<open>UpdateResult\<close> and \<open>aggregationResult\<close> are
  declared outside this file. Section 3 names the merge duration and the row-count
  deltas (inserted, updated) of a batch. Of an aggregation result \<open>Update\<close> uses only the
  two methods that produce the row streams (section 4.1); they are fields here, so every
  statement about \<open>Update\<close> holds for whatever they produce.
\<close>

record UpdateResult =
  Inserted :: int
  Updated :: int
  Duration :: int

record aggregationResult =
  TupleJSONReader :: "bool \<Rightarrow> json_row list"
  IndividualJSONReader :: "bool \<Rightarrow> json_row list"

subsection \<open>The methods of \<open>CHStore\<close>\<close>

text \<open>
  The fields \<open>conn\<close> and \<open>http\<close> of the struct are the two connections to the server;
  their far end is the \<open>server\<close> of the world. \<open>host\<close> is the host name put into the URL
  of a bulk load.
\<close>

record CHStore =
  host :: string

text \<open>
  \<open>func (s *CHStore) Close() error { return s.Close() }\<close>: a call that may not return,
  so its result is an option and \<open>None\<close> stands for no return. (The Go runtime ends the
  recursion with a fatal stack overflow; no caller gets a value back either way.)
\<close>

partial_function (option) Close :: "CHStore \<Rightarrow> error option option" where
  "Close s = Close s"

definition Exec :: "CHStore \<Rightarrow> string \<Rightarrow> world \<Rightarrow> error option \<times> world" where
  "Exec s query w =
     (let q = query;
          (err, w') = Query_Exec q w
      in (err, w'))"

text \<open>\<open>days\<close> and the count are \<open>int64\<close>.\<close>

definition DeleteOld :: "CHStore \<Rightarrow> 64 word \<Rightarrow> world \<Rightarrow> (64 word \<times> error option) \<times> world" where
  "DeleteOld s days w = ((0, Some (Errorf ''clickhouse doesn't support delete'')), w)"

text \<open>
  \<open>SendJSON\<close>. The value of \<open>err\<close> that \<open>Post\<close> returns is never read: the next statement,
  \<open>defer resp.Body.Close()\<close>, evaluates \<open>resp.Body\<close> at once, which panics on a nil
  \<open>resp\<close>, and \<open>ReadAll\<close> then assigns \<open>err\<close> again. The 60 second timeout of the client
  shows as a \<open>PostFail\<close> of the world.
\<close>

definition SendJSON :: "CHStore \<Rightarrow> string \<Rightarrow> json_row list \<Rightarrow> world \<Rightarrow> error option outcome \<times> world" where
  "SendJSON s table r w =
     (let query = ''INSERT INTO '' @ table @ '' FORMAT JSONEachRow'';
          ((resp, err), w') = Client_Post (host s) query r w
      in case resp of
           None \<Rightarrow> (Panic, w')
         | Some rsp \<Rightarrow>
             (let (body, err) = ioutil_ReadAll rsp
              in if StatusCode rsp \<ge> 400
                 then (Returns (Some (Errorf (''Clickhouse error: '' @ body))), w')
                 else (Returns err, w')))"

text \<open>\<open>time.Since(start)\<close>: a \<open>Duration\<close> is an \<open>int64\<close> of nanoseconds and saturates.\<close>

definition time_Since :: "int \<Rightarrow> world \<Rightarrow> int \<times> world" where
  "time_Since start w =
     (let (now, w') = time_Now w
      in (max (- (2 ^ 63)) (min (2 ^ 63 - 1) (now - start)), w'))"

definition Update ::
  "CHStore \<Rightarrow> aggregationResult \<Rightarrow> world \<Rightarrow> (UpdateResult \<times> error option) outcome \<times> world"
where
  "Update s ar w0 =
     (let result = \<lparr>Inserted = 0, Updated = 0, Duration = 0\<rparr>;
          (start, w1) = time_Now w0;
          (_, w2) = Exec s ''DROP TABLE tuples_temp'' w1;
          (_, w3) = Exec s ''DROP TABLE individual_temp'' w2;
          (err, w4) = Exec s tuples_temp_stmt w3
      in case err of
           Some e \<Rightarrow>
             (Returns (result, Some (Wrap e ''CHStore.Update failed to create temporary tuples table'')), w4)
         | None \<Rightarrow>
      (let (err, w5) = Exec s individual_temp_stmt w4
       in case err of
            Some e \<Rightarrow>
              (Returns (result, Some (Wrap e ''CHStore.Update failed to create temporary individual table'')), w5)
          | None \<Rightarrow>
      (let (sent, w6) = SendJSON s ''tuples_temp'' (TupleJSONReader ar True) w5
       in case sent of
            Panic \<Rightarrow> (Panic, w6)
          | Returns (Some e) \<Rightarrow>
              (Returns (result, Some (Wrap e ''CHStore.Update tuples failed'')), w6)
          | Returns None \<Rightarrow>
      (let (err, w7) = Exec s ''INSERT INTO tuples (query, type, answer, ttl, first, last, count) SELECT query, type, answer, anyLastState(ttl), minState(first), maxState(last), sumState(count) from tuples_temp group by query, type, answer'' w6
       in case err of
            Some e \<Rightarrow>
              (Returns (result, Some (Wrap e ''CHStore.Update failed to insert into tuples'')), w7)
          | None \<Rightarrow>
      (let (sent, w8) = SendJSON s ''individual_temp'' (IndividualJSONReader ar True) w7
       in case sent of
            Panic \<Rightarrow> (Panic, w8)
          | Returns (Some e) \<Rightarrow>
              (Returns (result, Some (Wrap e ''CHStore.Update individual failed'')), w8)
          | Returns None \<Rightarrow>
      (let (err, w9) = Exec s ''INSERT INTO individual (which, value, first, last, count) SELECT which, value, minState(first), maxState(last), sumState(count) from individual_temp group by which, value'' w8
       in case err of
            Some e \<Rightarrow>
              (Returns (result, Some (Wrap e ''CHStore.Update failed to insert into individual'')), w9)
          | None \<Rightarrow>
      (let (d, w10) = time_Since start w9
       in (Returns (result\<lparr>Duration := d\<rparr>, None), w10))))))))"

definition IsLogIndexed :: "CHStore \<Rightarrow> string \<Rightarrow> world \<Rightarrow> (bool \<times> error option) \<times> world" where
  "IsLogIndexed s fname w =
     (let ((fn, err), w') =
            DB_QueryRow_Scan ''SELECT filename FROM filenames WHERE filename=?'' [fname] w
      in if err = Some ErrNoRows then ((False, None), w')
         else if err \<noteq> None then ((False, err), w')
         else ((True, None), w'))"

definition FindQueryTuples :: "CHStore \<Rightarrow> string \<Rightarrow> world \<Rightarrow> (tupleResult list \<times> error option) \<times> world" where
  "FindQueryTuples s query w =
     (let query = Reverse query;
          ((tr, err), w') = DB_Select_tuples ''SELECT * FROM tuples WHERE query = ?'' [query] w;
          tr = reverseQuery tr
      in ((tr, err), w'))"

definition FindTuples :: "CHStore \<Rightarrow> string \<Rightarrow> world \<Rightarrow> (tupleResult list \<times> error option) \<times> world" where
  "FindTuples s query w =
     (let rquery = Reverse query;
          ((tr, err), w') = DB_Select_tuples ''SELECT query, type, answer, minMerge(first) as first, maxMerge(last) as last, sumMerge(count) as count from tuples WHERE query = ? OR answer = ? group by query, type, answer ORDER BY query, answer'' [rquery, query] w;
          tr = reverseQuery tr
      in ((tr, err), w'))"

definition LikeTuples :: "CHStore \<Rightarrow> string \<Rightarrow> world \<Rightarrow> (tupleResult list \<times> error option) \<times> world" where
  "LikeTuples s query w =
     (let rquery = Reverse query;
          ((tr, err), w') = DB_Select_tuples ''SELECT query, type, answer, minMerge(first) as first, maxMerge(last) as last, sumMerge(count) as count from tuples WHERE query like ? OR answer like ? group by query, type, answer ORDER BY query, answer'' [rquery @ ''%'', query @ ''%''] w;
          tr = reverseQuery tr
      in ((tr, err), w'))"

definition FindIndividual ::
  "CHStore \<Rightarrow> string \<Rightarrow> world \<Rightarrow> (individualResult list \<times> error option) \<times> world"
where
  "FindIndividual s v w =
     (let rvalue = Reverse v;
          ((tr, err), w') = DB_Select_individual ''SELECT which, value, minMerge(first) as first, maxMerge(last) as last, sumMerge(count) as count from individual WHERE (which='A' AND value = ?) OR (which='Q' AND value = ?) group by which, value ORDER BY value'' [v, rvalue] w;
          tr = reverseValue tr
      in ((tr, err), w'))"

definition LikeIndividual ::
  "CHStore \<Rightarrow> string \<Rightarrow> world \<Rightarrow> (individualResult list \<times> error option) \<times> world"
where
  "LikeIndividual s v w =
     (let rvalue = Reverse v;
          ((tr, err), w') = DB_Select_individual ''SELECT which, value, minMerge(first) as first, maxMerge(last) as last, sumMerge(count) as count from individual WHERE (which='A' AND value like ?) OR (which='Q' AND value like ?) group by which, value ORDER BY value'' [v @ ''%'', rvalue @ ''%''] w;
          tr = reverseValue tr
      in ((tr, err), w'))"

subsection \<open>Notions used to state the properties\<close>

text \<open>
  The state of a group, said directly: the state opened by the group's first row with
  every later row of the group folded in. A group is never empty.
\<close>

fun group_state :: "('r \<Rightarrow> 's) \<Rightarrow> ('s \<Rightarrow> 'r \<Rightarrow> 's) \<Rightarrow> 'r list \<Rightarrow> 's option" where
  "group_state init add [] = None"
| "group_state init add (r # rs) = Some (fold (\<lambda>x s. add s x) rs (init r))"

text \<open>The two merge statements of \<open>Update\<close>, by name.\<close>

definition tuples_insert_stmt :: string where
  "tuples_insert_stmt = ''INSERT INTO tuples (query, type, answer, ttl, first, last, count) SELECT query, type, answer, anyLastState(ttl), minState(first), maxState(last), sumState(count) from tuples_temp group by query, type, answer''"

definition individual_insert_stmt :: string where
  "individual_insert_stmt = ''INSERT INTO individual (which, value, first, last, count) SELECT which, value, minState(first), maxState(last), sumState(count) from individual_temp group by which, value''"

text \<open>
  The calls a run added to the log, and three kinds of call: a merge insert into a
  permanent table, a \<open>DROP TABLE\<close> of a staging table, and a call whose caller in this
  file (\<open>Exec\<close> or \<open>SendJSON\<close>) goes on without an error.
\<close>

definition new_calls :: "world \<Rightarrow> world \<Rightarrow> call list" where
  "new_calls w w' = drop (length (calls w)) (calls w')"

fun is_merge_insert :: "call \<Rightarrow> bool" where
  "is_merge_insert (HttpExec q _) = (q = tuples_insert_stmt \<or> q = individual_insert_stmt)"
| "is_merge_insert _ = False"

fun is_drop :: "call \<Rightarrow> bool" where
  "is_drop (HttpExec q _) = (q = ''DROP TABLE tuples_temp'' \<or> q = ''DROP TABLE individual_temp'')"
| "is_drop _ = False"

text \<open>The error \<open>SendJSON\<close> returns when \<open>Post\<close> has handed it the response \<open>rsp\<close>.\<close>

definition response_error :: "response \<Rightarrow> error option" where
  "response_error rsp =
     (if StatusCode rsp \<ge> 400 then Some (Errorf (''Clickhouse error: '' @ Body rsp))
      else map_option Foreign (BodyErr rsp))"

fun call_ok :: "call \<Rightarrow> bool" where
  "call_ok (HttpExec _ e) = (e = None)"
| "call_ok (HttpPost _ _ _ resp _) = (case resp of None \<Rightarrow> False | Some rsp \<Rightarrow> response_error rsp = None)"
| "call_ok (ConnQuery _ _ e) = (e = None)"

text \<open>
  The invariant of hash aggregation: after the rows \<open>rows\<close>, the table \<open>acc\<close> has one
  entry per key, and the entry of a key is the state of the rows with that key.
\<close>

definition group_inv ::
  "('r \<Rightarrow> 'k) \<Rightarrow> ('r \<Rightarrow> 's) \<Rightarrow> ('s \<Rightarrow> 'r \<Rightarrow> 's) \<Rightarrow> 'r list \<Rightarrow> ('k \<times> 's) list \<Rightarrow> bool"
where
  "group_inv key init add rows acc \<longleftrightarrow>
     distinct (map fst acc) \<and>
     (\<forall>k. map_of acc k = group_state init add (filter (\<lambda>r. key r = k) rows))"

text \<open>
  The same aggregation written directly over the rows of the two staging tables: the key
  of a staged row, the state its first row opens, and the state after one more row. The
  merge statements of \<open>Update\<close> are shown below to compute exactly this.
\<close>

definition tuples_temp_key :: "tuples_temp_row \<Rightarrow> string \<times> string \<times> string" where
  "tuples_temp_key r = (tt_query r, tt_type r, tt_answer r)"

definition tuples_state_init :: "tuples_temp_row \<Rightarrow> tuples_row" where
  "tuples_state_init r =
     \<lparr>t_query = tt_query r, t_type = tt_type r, t_answer = tt_answer r,
      t_ttl = tt_ttl r, t_first = tt_first r, t_last = tt_last r, t_count = tt_count r\<rparr>"

definition tuples_state_add :: "tuples_row \<Rightarrow> tuples_temp_row \<Rightarrow> tuples_row" where
  "tuples_state_add s r =
     s\<lparr>t_ttl := tt_ttl r,
       t_first := min (t_first s) (tt_first r),
       t_last := max (t_last s) (tt_last r),
       t_count := t_count s + tt_count r\<rparr>"

definition select_tuples_states :: "tuples_temp_row list \<Rightarrow> tuples_row list" where
  "select_tuples_states staged =
     GROUP_BY tuples_temp_key tuples_state_init tuples_state_add staged"

definition individual_temp_key :: "individual_temp_row \<Rightarrow> which \<times> string" where
  "individual_temp_key r = (it_which r, it_value r)"

definition individual_state_init :: "individual_temp_row \<Rightarrow> individual_row" where
  "individual_state_init r =
     \<lparr>i_which = it_which r, i_value = it_value r,
      i_first = it_first r, i_last = it_last r, i_count = it_count r\<rparr>"

definition individual_state_add :: "individual_row \<Rightarrow> individual_temp_row \<Rightarrow> individual_row" where
  "individual_state_add s r =
     s\<lparr>i_first := min (i_first s) (it_first r),
       i_last := max (i_last s) (it_last r),
       i_count := i_count s + it_count r\<rparr>"

definition select_individual_states :: "individual_temp_row list \<Rightarrow> individual_row list" where
  "select_individual_states staged =
     GROUP_BY individual_temp_key individual_state_init individual_state_add staged"

text \<open>The row of a permanent table as the values a statement has to deliver for it.\<close>

definition tuples_values :: "tuples_row \<Rightarrow> sql_value list" where
  "tuples_values s =
     [VString (t_query s), VString (t_type s), VString (t_answer s),
      VState Agg_anyLast (VUInt16 (t_ttl s)), VState Agg_min (VDateTime (t_first s)),
      VState Agg_max (VDateTime (t_last s)), VState Agg_sum (VUInt64 (t_count s))]"

definition individual_values :: "individual_row \<Rightarrow> sql_value list" where
  "individual_values s =
     [VEnum8 (i_which s), VString (i_value s), VState Agg_min (VDateTime (i_first s)),
      VState Agg_max (VDateTime (i_last s)), VState Agg_sum (VUInt64 (i_count s))]"

text \<open>The staged rows that belong to the group of a row of the permanent table.\<close>

definition tuples_group :: "tuples_temp_row list \<Rightarrow> tuples_row \<Rightarrow> tuples_temp_row list" where
  "tuples_group staged row = filter (\<lambda>r. tuples_temp_key r = tuples_key row) staged"

definition individual_group ::
  "individual_temp_row list \<Rightarrow> individual_row \<Rightarrow> individual_temp_row list"
where
  "individual_group staged row = filter (\<lambda>r. individual_temp_key r = individual_key row) staged"

text \<open>
  What the merge of a staged batch is, in the words of the specification: the rows
  \<open>ins\<close> have one row for every key among the staged rows, and the row of a key holds,
  over the staged rows of that key, the last \<open>ttl\<close>, the least \<open>first\<close>, the greatest
  \<open>last\<close> and the sum of \<open>count\<close>; for individuals the same without \<open>ttl\<close>.
\<close>

definition is_tuples_merge :: "tuples_temp_row list \<Rightarrow> tuples_row list \<Rightarrow> bool" where
  "is_tuples_merge staged ins \<longleftrightarrow>
     distinct (map tuples_key ins) \<and>
     tuples_key ` set ins = tuples_temp_key ` set staged \<and>
     (\<forall>row\<in>set ins.
        tuples_group staged row \<noteq> [] \<and>
        t_ttl row = tt_ttl (last (tuples_group staged row)) \<and>
        t_first row = Min (tt_first ` set (tuples_group staged row)) \<and>
        t_last row = Max (tt_last ` set (tuples_group staged row)) \<and>
        t_count row = sum_list (map tt_count (tuples_group staged row)))"

definition is_individual_merge :: "individual_temp_row list \<Rightarrow> individual_row list \<Rightarrow> bool" where
  "is_individual_merge staged ins \<longleftrightarrow>
     distinct (map individual_key ins) \<and>
     individual_key ` set ins = individual_temp_key ` set staged \<and>
     (\<forall>row\<in>set ins.
        individual_group staged row \<noteq> [] \<and>
        i_first row = Min (it_first ` set (individual_group staged row)) \<and>
        i_last row = Max (it_last ` set (individual_group staged row)) \<and>
        i_count row = sum_list (map it_count (individual_group staged row)))"

text \<open>
  The key under which a returned row is stored: the lookups hand the query name (and the
  value of a \<open>Q\<close> row) back reversed.
\<close>

definition stored_tuple_key :: "tupleResult \<Rightarrow> string \<times> string \<times> string" where
  "stored_tuple_key r = (Reverse (Query r), Type r, Answer r)"

definition stored_value :: "individualResult \<Rightarrow> string" where
  "stored_value r = (if Which r = Q then Reverse (Value r) else Value r)"

subsection \<open>Concrete stores, batches and worlds\<close>

definition store_ex :: CHStore where
  "store_ex = \<lparr>host = ''localhost''\<rparr>"

text \<open>
  A server after \<open>Init\<close> and some earlier batches: \<open>b.com\<close> has a mail exchanger,
  \<open>ba.com\<close> and \<open>b.com\<close> both answered \<open>1.2.3.4\<close> (\<open>b.com\<close> in two batches, so its state
  is still split over two rows); the name \<open>example.com\<close> was seen as an answer and as a
  query, and \<open>moc.elpmaxe\<close> was seen as a query. There are no staging tables.
\<close>

definition server_ex :: clickhouse where
  "server_ex =
     \<lparr>tuples = Some
        [\<lparr>t_query = ''moc.b'', t_type = ''MX'', t_answer = ''mail.b.com'',
          t_ttl = 300, t_first = 1, t_last = 2, t_count = 1\<rparr>,
         \<lparr>t_query = ''moc.b'', t_type = ''A'', t_answer = ''1.2.3.4'',
          t_ttl = 300, t_first = 5, t_last = 30, t_count = 2\<rparr>,
         \<lparr>t_query = ''moc.ab'', t_type = ''A'', t_answer = ''1.2.3.4'',
          t_ttl = 300, t_first = 10, t_last = 20, t_count = 1\<rparr>,
         \<lparr>t_query = ''moc.b'', t_type = ''A'', t_answer = ''1.2.3.4'',
          t_ttl = 60, t_first = 40, t_last = 50, t_count = 4\<rparr>],
      individual = Some
        [\<lparr>i_which = A, i_value = ''example.com'', i_first = 1, i_last = 2, i_count = 1\<rparr>,
         \<lparr>i_which = Q, i_value = ''moc.elpmaxe'', i_first = 3, i_last = 4, i_count = 1\<rparr>,
         \<lparr>i_which = Q, i_value = ''example.com'', i_first = 5, i_last = 6, i_count = 1\<rparr>],
      filenames = Some [\<lparr>filename = ''dns.log''\<rparr>],
      tuples_temp = None,
      individual_temp = None\<rparr>"

definition world_ex :: world where
  "world_ex = \<lparr>server = server_ex, faults = [], posts = [], clock = [1000, 5000], calls = []\<rparr>"

text \<open>A batch of three tuple rows, two of them with the same key, and one individual row.\<close>

definition staged_ex :: "tuples_temp_row list" where
  "staged_ex =
     [\<lparr>tt_query = ''moc.elpmaxe'', tt_type = ''A'', tt_answer = ''1.2.3.4'',
       tt_ttl = 300, tt_first = 100, tt_last = 200, tt_count = 2\<rparr>,
      \<lparr>tt_query = ''gro.elpmaxe'', tt_type = ''A'', tt_answer = ''5.6.7.8'',
       tt_ttl = 10, tt_first = 7, tt_last = 9, tt_count = 1\<rparr>,
      \<lparr>tt_query = ''moc.elpmaxe'', tt_type = ''A'', tt_answer = ''1.2.3.4'',
       tt_ttl = 60, tt_first = 50, tt_last = 150, tt_count = 3\<rparr>]"

definition staged_individual_ex :: "individual_temp_row list" where
  "staged_individual_ex =
     [\<lparr>it_which = Q, it_value = ''moc.elpmaxe'', it_first = 100, it_last = 200, it_count = 2\<rparr>,
      \<lparr>it_which = A, it_value = ''1.2.3.4'', it_first = 50, it_last = 150, it_count = 3\<rparr>,
      \<lparr>it_which = Q, it_value = ''moc.elpmaxe'', it_first = 50, it_last = 150, it_count = 3\<rparr>]"

definition batch_ex :: aggregationResult where
  "batch_ex =
     \<lparr>TupleJSONReader = (\<lambda>_. map TupleJSON staged_ex),
      IndividualJSONReader = (\<lambda>_. map IndividualJSON staged_individual_ex)\<rparr>"

text \<open>
  The same server with both staging tables in place and loaded, as between the bulk
  loads and the merge inserts.
\<close>

definition world_staged :: world where
  "world_staged =
     world_ex\<lparr>server := server_ex\<lparr>tuples_temp := Some staged_ex,
                                    individual_temp := Some staged_individual_ex\<rparr>\<rparr>"

text \<open>
  Worlds in which one step of \<open>Update\<close> fails: the first \<open>CREATE TABLE\<close> times out; the
  second does; the server answers the first bulk load with status 500; it answers the
  second bulk load with status 500; the second bulk load gets no response at all.
\<close>

definition world_create_tuples_fails :: world where
  "world_create_tuples_fails = world_ex\<lparr>faults := [None, None, Some ''timeout'']\<rparr>"

definition world_create_individual_fails :: world where
  "world_create_individual_fails = world_ex\<lparr>faults := [None, None, None, Some ''timeout'']\<rparr>"

definition world_load_tuples_fails :: world where
  "world_load_tuples_fails =
     world_ex\<lparr>posts := [PostReply \<lparr>StatusCode = 500, Body = ''Memory limit exceeded'', BodyErr = None\<rparr> None]\<rparr>"

definition world_load_individual_fails :: world where
  "world_load_individual_fails =
     world_ex\<lparr>posts := [PostDeliver,
        PostReply \<lparr>StatusCode = 500, Body = ''Memory limit exceeded'', BodyErr = None\<rparr> None]\<rparr>"

definition world_post_refused :: world where
  "world_post_refused = world_ex\<lparr>posts := [PostFail ''connection refused'']\<rparr>"

definition world_conn_down :: world where
  "world_conn_down = world_ex\<lparr>faults := [Some ''connection reset'']\<rparr>"

text \<open>A server on which \<open>Init\<close> has not created the ledger table.\<close>

definition world_no_ledger :: world where
  "world_no_ledger = world_ex\<lparr>server := server_ex\<lparr>filenames := None\<rparr>\<rparr>"

section \<open>Properties\<close>

subsection \<open>Close and DeleteOld\<close>

lemma Close_returns_nothing: "Close s = Some y \<Longrightarrow> False"
  by (erule Close.raw_induct [where P = "\<lambda>_ _. False", rotated]) blast

text \<open>
  C9: \<open>Close\<close> calls itself unconditionally. For every store it recurses without bound
  and never returns a value: its result in the model is \<open>None\<close>, the absence of a
  return.
\<close>

theorem Close_never_returns: "Close s = None"
proof (cases "Close s")
  case None
  then show ?thesis .
next
  case (Some y)
  then show ?thesis using Close_returns_nothing by blast
qed

text \<open>
  C7: for every argument \<open>days\<close>, \<open>DeleteOld\<close> fails: the count it returns is zero, the
  error is the message that ClickHouse does not support delete, and the world (server
  tables, pending faults, clock and call log) is left as it was.
\<close>

theorem DeleteOld_always_fails:
  "DeleteOld s days w = ((0, Some (Errorf ''clickhouse doesn't support delete'')), w)"
  by (simp add: DeleteOld_def)

subsection \<open>Hash aggregation computes the state of every group\<close>

lemma map_of_group_update:
  "map_of (map (\<lambda>(k, s). if k = kx then (k, f s) else (k, s)) acc) k =
     (if k = kx then map_option f (map_of acc k) else map_of acc k)"
  by (induction acc) auto

lemma group_state_snoc:
  "group_state init add (g @ [x]) =
     (case group_state init add g of None \<Rightarrow> Some (init x) | Some s \<Rightarrow> Some (add s x))"
  by (cases g) simp_all

lemma group_step_inv:
  assumes "group_inv key init add rows acc"
  shows "group_inv key init add (rows @ [x]) (group_step key init add x acc)"
proof (cases "map_of acc (key x)")
  case None
  then have notin: "key x \<notin> fst ` set acc"
    by (simp add: map_of_eq_None_iff)
  have "map_of (acc @ [(key x, init x)]) k =
          group_state init add (filter (\<lambda>r. key r = k) (rows @ [x]))" for k
    using assms None
    by (auto simp: group_inv_def group_state_snoc map_add_def split: option.splits)
  with assms None notin show ?thesis
    by (simp add: group_inv_def group_step_def)
next
  case (Some s0)
  let ?acc' = "map (\<lambda>(k, s). if k = key x then (k, add s x) else (k, s)) acc"
  have "map fst ?acc' = map fst acc"
    by (induction acc) auto
  then have d: "distinct (map fst ?acc')"
    using assms by (simp only: group_inv_def)
  have m: "map_of ?acc' k = group_state init add (filter (\<lambda>r. key r = k) (rows @ [x]))" for k
    using assms Some
    by (auto simp: group_inv_def map_of_group_update group_state_snoc split: option.splits)
  have e: "group_step key init add x acc = ?acc'"
    using Some by (simp add: group_step_def)
  show ?thesis
    unfolding group_inv_def e by (intro conjI allI d m)
qed

lemma fold_group_inv:
  "group_inv key init add rows (fold (group_step key init add) rows [])"
proof (induction rows rule: rev_induct)
  case Nil
  show ?case by (simp add: group_inv_def)
next
  case (snoc x xs)
  then show ?case by (simp add: group_step_inv)
qed


lemma GROUP_BY_keys:
  "fst ` set (fold (group_step key init add) rows []) = key ` set rows"
proof -
  let ?G = "fold (group_step key init add) rows []"
  have inv: "group_inv key init add rows ?G" by (rule fold_group_inv)
  have "k \<in> fst ` set ?G \<longleftrightarrow> k \<in> key ` set rows" for k
  proof -
    have "k \<in> fst ` set ?G \<longleftrightarrow> map_of ?G k \<noteq> None"
      by (simp add: map_of_eq_None_iff)
    also have "\<dots> \<longleftrightarrow> filter (\<lambda>r. key r = k) rows \<noteq> []"
      using inv by (cases "filter (\<lambda>r. key r = k) rows") (simp_all add: group_inv_def)
    also have "\<dots> \<longleftrightarrow> k \<in> key ` set rows"
      by (auto simp: filter_empty_conv)
    finally show ?thesis .
  qed
  then show ?thesis by blast
qed

lemma GROUP_BY_state:
  assumes "(k, s) \<in> set (fold (group_step key init add) rows [])"
  shows "group_state init add (filter (\<lambda>r. key r = k) rows) = Some s"
proof -
  let ?G = "fold (group_step key init add) rows []"
  have inv: "group_inv key init add rows ?G" by (rule fold_group_inv)
  then have "distinct (map fst ?G)" by (simp add: group_inv_def)
  with assms have "map_of ?G k = Some s" by simp
  with inv show ?thesis by (simp add: group_inv_def)
qed

lemma fold_add_key:
  assumes "\<And>s r. kof (add s r) = kof s"
  shows "kof (fold (\<lambda>x s. add s x) rs s0) = kof s0"
  by (induction rs arbitrary: s0) (simp_all add: assms)

lemma GROUP_BY_spec:
  assumes init: "\<And>r. kof (init r) = key r" and add: "\<And>s r. kof (add s r) = kof s"
  shows "distinct (map kof (GROUP_BY key init add rows)) \<and>
         kof ` set (GROUP_BY key init add rows) = key ` set rows \<and>
         (\<forall>s\<in>set (GROUP_BY key init add rows).
            group_state init add (filter (\<lambda>r. key r = kof s) rows) = Some s)"
proof -
  let ?G = "fold (group_step key init add) rows []"
  have kof: "kof s = k" if "(k, s) \<in> set ?G" for k s
  proof -
    from that have st: "group_state init add (filter (\<lambda>r. key r = k) rows) = Some s"
      by (rule GROUP_BY_state)
    then obtain r rs where g: "filter (\<lambda>r. key r = k) rows = r # rs"
      by (cases "filter (\<lambda>r. key r = k) rows") simp_all
    then have "r \<in> set (filter (\<lambda>r. key r = k) rows)" by simp
    then have "key r = k" by simp
    moreover from st g have "s = fold (\<lambda>x s. add s x) rs (init r)" by simp
    ultimately show ?thesis by (simp add: fold_add_key [of kof add, OF add] init)
  qed
  then have "map kof (map snd ?G) = map fst ?G" by auto
  then have keys: "map kof (GROUP_BY key init add rows) = map fst ?G"
    by (simp only: GROUP_BY_def)
  have "distinct (map fst ?G)"
    using fold_group_inv [of key init add rows] by (simp add: group_inv_def)
  with keys have 1: "distinct (map kof (GROUP_BY key init add rows))" by simp
  have "set (map kof (GROUP_BY key init add rows)) = fst ` set ?G"
    by (simp only: keys set_map)
  then have 2: "kof ` set (GROUP_BY key init add rows) = key ` set rows"
    by (simp add: GROUP_BY_keys)
  have 3: "group_state init add (filter (\<lambda>r. key r = kof s) rows) = Some s"
    if "s \<in> set (GROUP_BY key init add rows)" for s
  proof -
    from that obtain k where in_G: "(k, s) \<in> set ?G"
      by (auto simp: GROUP_BY_def)
    with kof have "kof s = k" by blast
    with in_G show ?thesis by (simp add: GROUP_BY_state)
  qed
  from 1 2 3 show ?thesis by blast
qed

lemma Min_image_snoc:
  fixes f :: "'a \<Rightarrow> 'b::linorder"
  shows "Min (f ` set (r # xs @ [x])) = min (Min (f ` set (r # xs))) (f x)"
proof -
  have "f ` set (r # xs @ [x]) = insert (f x) (f ` set (r # xs))" by auto
  moreover have "Min (insert (f x) (f ` set (r # xs))) = min (f x) (Min (f ` set (r # xs)))"
    by (rule Min_insert) simp_all
  ultimately show ?thesis by (simp only: min.commute)
qed

lemma Max_image_snoc:
  fixes f :: "'a \<Rightarrow> 'b::linorder"
  shows "Max (f ` set (r # xs @ [x])) = max (Max (f ` set (r # xs))) (f x)"
proof -
  have "f ` set (r # xs @ [x]) = insert (f x) (f ` set (r # xs))" by auto
  moreover have "Max (insert (f x) (f ` set (r # xs))) = max (f x) (Max (f ` set (r # xs)))"
    by (rule Max_insert) simp_all
  ultimately show ?thesis by (simp only: max.commute)
qed

lemma tuples_fold_state:
  "fold (\<lambda>x s. tuples_state_add s x) rs (tuples_state_init r) =
     \<lparr>t_query = tt_query r, t_type = tt_type r, t_answer = tt_answer r,
      t_ttl = tt_ttl (last (r # rs)),
      t_first = Min (tt_first ` set (r # rs)),
      t_last = Max (tt_last ` set (r # rs)),
      t_count = sum_list (map tt_count (r # rs))\<rparr>"
proof (induction rs rule: rev_induct)
  case Nil
  show ?case by (simp add: tuples_state_init_def)
next
  case (snoc x xs)
  have "fold (\<lambda>x s. tuples_state_add s x) (xs @ [x]) (tuples_state_init r) =
          tuples_state_add (fold (\<lambda>x s. tuples_state_add s x) xs (tuples_state_init r)) x"
    by simp
  also have "\<dots> =
     \<lparr>t_query = tt_query r, t_type = tt_type r, t_answer = tt_answer r,
      t_ttl = tt_ttl x,
      t_first = min (Min (tt_first ` set (r # xs))) (tt_first x),
      t_last = max (Max (tt_last ` set (r # xs))) (tt_last x),
      t_count = sum_list (map tt_count (r # xs)) + tt_count x\<rparr>"
    by (simp only: snoc.IH) (simp add: tuples_state_add_def)
  also have "\<dots> =
     \<lparr>t_query = tt_query r, t_type = tt_type r, t_answer = tt_answer r,
      t_ttl = tt_ttl (last (r # xs @ [x])),
      t_first = Min (tt_first ` set (r # xs @ [x])),
      t_last = Max (tt_last ` set (r # xs @ [x])),
      t_count = sum_list (map tt_count (r # xs @ [x]))\<rparr>"
    by (simp only: Min_image_snoc Max_image_snoc) simp
  finally show ?case .
qed

lemma individual_fold_state:
  "fold (\<lambda>x s. individual_state_add s x) rs (individual_state_init r) =
     \<lparr>i_which = it_which r, i_value = it_value r,
      i_first = Min (it_first ` set (r # rs)),
      i_last = Max (it_last ` set (r # rs)),
      i_count = sum_list (map it_count (r # rs))\<rparr>"
proof (induction rs rule: rev_induct)
  case Nil
  show ?case by (simp add: individual_state_init_def)
next
  case (snoc x xs)
  have "fold (\<lambda>x s. individual_state_add s x) (xs @ [x]) (individual_state_init r) =
          individual_state_add (fold (\<lambda>x s. individual_state_add s x) xs (individual_state_init r)) x"
    by simp
  also have "\<dots> =
     \<lparr>i_which = it_which r, i_value = it_value r,
      i_first = min (Min (it_first ` set (r # xs))) (it_first x),
      i_last = max (Max (it_last ` set (r # xs))) (it_last x),
      i_count = sum_list (map it_count (r # xs)) + it_count x\<rparr>"
    by (simp only: snoc.IH) (simp add: individual_state_add_def)
  also have "\<dots> =
     \<lparr>i_which = it_which r, i_value = it_value r,
      i_first = Min (it_first ` set (r # xs @ [x])),
      i_last = Max (it_last ` set (r # xs @ [x])),
      i_count = sum_list (map it_count (r # xs @ [x]))\<rparr>"
    by (simp only: Min_image_snoc Max_image_snoc) simp
  finally show ?case .
qed

subsection \<open>The merge statements, read and executed\<close>

text \<open>
  Aggregation over named values refines aggregation over typed rows when keys, opening
  states and updates correspond.
\<close>

lemma map_of_refine:
  assumes "inj kenc"
  shows "map_of (map (\<lambda>(k, s). (kenc k, f s)) acc) (kenc k) = map_option f (map_of acc k)"
  using assms by (induction acc) (auto simp: inj_eq)

lemma group_step_refine:
  assumes key: "\<And>r. key' (enc r) = kenc (key r)" and inj: "inj kenc"
    and init: "\<And>r. init' (enc r) = f (init r)"
    and add: "\<And>s r. add' (f s) (enc r) = f (add s r)"
  shows "group_step key' init' add' (enc x) (map (\<lambda>(k, s). (kenc k, f s)) acc) =
         map (\<lambda>(k, s). (kenc k, f s)) (group_step key init add x acc)"
proof (cases "map_of acc (key x)")
  case None
  then show ?thesis
    by (simp add: group_step_def key init map_of_refine [OF inj])
next
  case (Some s0)
  then show ?thesis
    by (auto simp: group_step_def key add map_of_refine [OF inj] inj_eq [OF inj])
qed

lemma GROUP_BY_refine:
  assumes key: "\<And>r. key' (enc r) = kenc (key r)" and inj: "inj kenc"
    and init: "\<And>r. init' (enc r) = f (init r)"
    and add: "\<And>s r. add' (f s) (enc r) = f (add s r)"
  shows "GROUP_BY key' init' add' (map enc rows) = map f (GROUP_BY key init add rows)"
proof -
  have "fold (group_step key' init' add') (map enc rows) [] =
        map (\<lambda>(k, s). (kenc k, f s)) (fold (group_step key init add) rows [])"
  proof (induction rows rule: rev_induct)
    case Nil
    show ?case by simp
  next
    case (snoc x xs)
    then show ?case
      by (simp add: group_step_refine [of key' enc kenc key init' f init add' add, OF key inj init add])
  qed
  then show ?thesis
    by (simp add: GROUP_BY_def case_prod_beta)
qed

lemma those_map_Some: "those (map Some xs) = Some xs"
  by (induction xs) simp_all

text \<open>What the server reads in the two merge statements of \<open>Update\<close>.\<close>

lemma parse_tuples_insert:
  "parse_insert_select (tokens [] tuples_insert_stmt) =
     Some \<lparr>target = ''tuples'',
           columns = [''query'', ''type'', ''answer'', ''ttl'', ''first'', ''last'', ''count''],
           items = [Column ''query'', Column ''type'', Column ''answer'',
                    Apply ''anyLastState'' ''ttl'', Apply ''minState'' ''first'',
                    Apply ''maxState'' ''last'', Apply ''sumState'' ''count''],
           source = ''tuples_temp'',
           group_by = [''query'', ''type'', ''answer'']\<rparr>"
  by (simp add: tuples_insert_stmt_def parse_insert_select_def flush_def keyword_def upper_char_def)

lemma parse_individual_insert:
  "parse_insert_select (tokens [] individual_insert_stmt) =
     Some \<lparr>target = ''individual'',
           columns = [''which'', ''value'', ''first'', ''last'', ''count''],
           items = [Column ''which'', Column ''value'', Apply ''minState'' ''first'',
                    Apply ''maxState'' ''last'', Apply ''sumState'' ''count''],
           source = ''individual_temp'',
           group_by = [''which'', ''value'']\<rparr>"
  by (simp add: individual_insert_stmt_def parse_insert_select_def flush_def keyword_def upper_char_def)

text \<open>
  The select parts of the two statements compute the typed aggregation of the staging
  rows, and the values they deliver fit the columns of the permanent tables.
\<close>

lemma select_group_by_tuples:
  "select_group_by
     [Column ''query'', Column ''type'', Column ''answer'',
      Apply ''anyLastState'' ''ttl'', Apply ''minState'' ''first'',
      Apply ''maxState'' ''last'', Apply ''sumState'' ''count'']
     [''query'', ''type'', ''answer''] (map tuples_temp_sql staged) =
   map tuples_values (select_tuples_states staged)"
  unfolding select_group_by_def select_tuples_states_def
proof (rule GROUP_BY_refine [where kenc = "\<lambda>(q, t, a). [VString q, VString t, VString a]"])
  show "inj (\<lambda>(q, t, a). [VString q, VString t, VString a])"
    by (auto simp: inj_on_def)
qed (simp_all add: col_def tuples_temp_sql_def tuples_temp_key_def tuples_values_def
      tuples_state_init_def tuples_state_add_def state_function_def)

lemma select_group_by_individual:
  "select_group_by
     [Column ''which'', Column ''value'', Apply ''minState'' ''first'',
      Apply ''maxState'' ''last'', Apply ''sumState'' ''count'']
     [''which'', ''value''] (map individual_temp_sql staged) =
   map individual_values (select_individual_states staged)"
  unfolding select_group_by_def select_individual_states_def
proof (rule GROUP_BY_refine [where kenc = "\<lambda>(w, v). [VEnum8 w, VString v]"])
  show "inj (\<lambda>(w, v). [VEnum8 w, VString v])"
    by (auto simp: inj_on_def)
qed (simp_all add: col_def individual_temp_sql_def individual_temp_key_def individual_values_def
      individual_state_init_def individual_state_add_def state_function_def)

lemma tuples_of_sql_values:
  "tuples_of_sql (zip [''query'', ''type'', ''answer'', ''ttl'', ''first'', ''last'', ''count'']
     (tuples_values s)) = Some s"
  by (simp add: tuples_of_sql_def tuples_values_def)

lemma individual_of_sql_values:
  "individual_of_sql (zip [''which'', ''value'', ''first'', ''last'', ''count'']
     (individual_values s)) = Some s"
  by (simp add: individual_of_sql_def individual_values_def)

lemma ch_exec_tuples_insert:
  "ch_exec tuples_insert_stmt db =
     (case tuples_temp db of
        None \<Rightarrow> Inl ''Table default.tuples_temp doesn't exist''
      | Some staged \<Rightarrow>
          (case tuples db of
             None \<Rightarrow> Inl ''Table default.tuples doesn't exist''
           | Some rows \<Rightarrow> Inr (db\<lparr>tuples := Some (rows @ select_tuples_states staged)\<rparr>)))"
proof -
  have not_ddl: "tuples_insert_stmt \<noteq> ''DROP TABLE tuples_temp''"
    "tuples_insert_stmt \<noteq> ''DROP TABLE individual_temp''"
    "tuples_insert_stmt \<noteq> tuples_temp_stmt" "tuples_insert_stmt \<noteq> individual_temp_stmt"
    by (simp_all add: tuples_insert_stmt_def tuples_temp_stmt_def individual_temp_stmt_def)
  have "tuples_of_sql \<circ>
      (zip [''query'', ''type'', ''answer'', ''ttl'', ''first'', ''last'', ''count''] \<circ> tuples_values) = Some"
    by (rule ext) (simp add: tuples_of_sql_values)
  then have ins: "those (map (tuples_of_sql \<circ>
      (zip [''query'', ''type'', ''answer'', ''ttl'', ''first'', ''last'', ''count''] \<circ> tuples_values))
        states) = Some states" for states
    by (simp only: those_map_Some)
  show ?thesis
    by (simp add: ch_exec_def not_ddl parse_tuples_insert insert_select_exec_def source_table_def
        tuples_temp_columns_def state_function_def insert_rows_def select_group_by_tuples ins
        split: option.splits)
qed

lemma ch_exec_individual_insert:
  "ch_exec individual_insert_stmt db =
     (case individual_temp db of
        None \<Rightarrow> Inl ''Table default.individual_temp doesn't exist''
      | Some staged \<Rightarrow>
          (case individual db of
             None \<Rightarrow> Inl ''Table default.individual doesn't exist''
           | Some rows \<Rightarrow> Inr (db\<lparr>individual := Some (rows @ select_individual_states staged)\<rparr>)))"
proof -
  have not_ddl: "individual_insert_stmt \<noteq> ''DROP TABLE tuples_temp''"
    "individual_insert_stmt \<noteq> ''DROP TABLE individual_temp''"
    "individual_insert_stmt \<noteq> tuples_temp_stmt" "individual_insert_stmt \<noteq> individual_temp_stmt"
    by (simp_all add: individual_insert_stmt_def tuples_temp_stmt_def individual_temp_stmt_def)
  have "individual_of_sql \<circ>
      (zip [''which'', ''value'', ''first'', ''last'', ''count''] \<circ> individual_values) = Some"
    by (rule ext) (simp add: individual_of_sql_values)
  then have ins: "those (map (individual_of_sql \<circ>
      (zip [''which'', ''value'', ''first'', ''last'', ''count''] \<circ> individual_values))
        states) = Some states" for states
    by (simp only: those_map_Some)
  show ?thesis
    by (simp add: ch_exec_def not_ddl parse_individual_insert insert_select_exec_def source_table_def
        individual_temp_columns_def state_function_def insert_rows_def select_group_by_individual ins
        split: option.splits)
qed

text \<open>The four staging statements, as the server executes them.\<close>

lemma ch_exec_staging:
  "ch_exec ''DROP TABLE tuples_temp'' db =
     (case tuples_temp db of
        None \<Rightarrow> Inl ''Table default.tuples_temp doesn't exist''
      | Some _ \<Rightarrow> Inr (db\<lparr>tuples_temp := None\<rparr>))"
  "ch_exec ''DROP TABLE individual_temp'' db =
     (case individual_temp db of
        None \<Rightarrow> Inl ''Table default.individual_temp doesn't exist''
      | Some _ \<Rightarrow> Inr (db\<lparr>individual_temp := None\<rparr>))"
  "ch_exec tuples_temp_stmt db =
     (case tuples_temp db of
        Some _ \<Rightarrow> Inl ''Table default.tuples_temp already exists''
      | None \<Rightarrow> Inr (db\<lparr>tuples_temp := Some []\<rparr>))"
  "ch_exec individual_temp_stmt db =
     (case individual_temp db of
        Some _ \<Rightarrow> Inl ''Table default.individual_temp already exists''
      | None \<Rightarrow> Inr (db\<lparr>individual_temp := Some []\<rparr>))"
  by (simp_all add: ch_exec_def tuples_temp_stmt_def individual_temp_stmt_def)

lemmas ch_exec_stmts = ch_exec_staging ch_exec_tuples_insert ch_exec_individual_insert

lemma insert_select_exec_frame:
  assumes "insert_select_exec stmt db = Inr db'"
  shows "tuples_temp db' = tuples_temp db \<and> individual_temp db' = individual_temp db \<and>
         filenames db' = filenames db"
  using assms
  by (auto simp: insert_select_exec_def insert_rows_def
      split: sum.splits prod.splits if_splits option.splits)

subsection \<open>The calls of a run\<close>

lemma time_Now_calls: "time_Now w = (t, w') \<Longrightarrow> calls w' = calls w \<and> server w' = server w"
  by (auto simp: time_Now_def split: list.splits)

lemma time_Since_calls: "time_Since t0 w = (d, w') \<Longrightarrow> calls w' = calls w \<and> server w' = server w"
  by (auto simp: time_Since_def Let_def dest: time_Now_calls split: prod.splits)

lemma next_fault_calls: "next_fault w = (f, w') \<Longrightarrow> calls w' = calls w \<and> server w' = server w"
  by (auto simp: next_fault_def split: list.splits)

lemma next_post_calls: "next_post w = (f, w') \<Longrightarrow> calls w' = calls w \<and> server w' = server w"
  by (auto simp: next_post_def split: list.splits)

lemma Exec_calls: "Exec s q w = (e, w') \<Longrightarrow> calls w' = calls w @ [HttpExec q e]"
  by (auto simp: Exec_def Query_Exec_def Let_def dest: next_fault_calls
      split: prod.splits option.splits sum.splits)

lemma SendJSON_calls:
  assumes "SendJSON s t r w = (out, w')"
  shows "\<exists>resp pe. calls w' = calls w @ [HttpPost (host s) (''INSERT INTO '' @ t @ '' FORMAT JSONEachRow'') r resp pe] \<and>
           out = (case resp of None \<Rightarrow> Panic | Some rsp \<Rightarrow> Returns (response_error rsp))"
  using assms
  by (auto simp: SendJSON_def Client_Post_def Let_def response_error_def ioutil_ReadAll_def
      dest!: next_post_calls
      split: prod.splits option.splits sum.splits post_event.splits if_splits)


lemma stmts_distinct:
  "tuples_temp_stmt \<noteq> ''DROP TABLE tuples_temp''"
  "tuples_temp_stmt \<noteq> ''DROP TABLE individual_temp''"
  "individual_temp_stmt \<noteq> ''DROP TABLE tuples_temp''"
  "individual_temp_stmt \<noteq> ''DROP TABLE individual_temp''"
  "tuples_insert_stmt \<noteq> ''DROP TABLE tuples_temp''"
  "tuples_insert_stmt \<noteq> ''DROP TABLE individual_temp''"
  "individual_insert_stmt \<noteq> ''DROP TABLE tuples_temp''"
  "individual_insert_stmt \<noteq> ''DROP TABLE individual_temp''"
  "tuples_temp_stmt \<noteq> individual_temp_stmt"
  "tuples_temp_stmt \<noteq> tuples_insert_stmt"
  "tuples_temp_stmt \<noteq> individual_insert_stmt"
  "individual_temp_stmt \<noteq> tuples_temp_stmt"
  "individual_temp_stmt \<noteq> tuples_insert_stmt"
  "individual_temp_stmt \<noteq> individual_insert_stmt"
  "tuples_insert_stmt \<noteq> tuples_temp_stmt"
  "tuples_insert_stmt \<noteq> individual_temp_stmt"
  "tuples_insert_stmt \<noteq> individual_insert_stmt"
  "individual_insert_stmt \<noteq> tuples_temp_stmt"
  "individual_insert_stmt \<noteq> individual_temp_stmt"
  "individual_insert_stmt \<noteq> tuples_insert_stmt"
  "''DROP TABLE tuples_temp'' \<noteq> tuples_insert_stmt"
  "''DROP TABLE individual_temp'' \<noteq> tuples_insert_stmt"
  "''DROP TABLE tuples_temp'' \<noteq> individual_insert_stmt"
  "''DROP TABLE individual_temp'' \<noteq> individual_insert_stmt"
  by (simp_all add: tuples_temp_stmt_def individual_temp_stmt_def tuples_insert_stmt_def
      individual_insert_stmt_def)

lemma ch_exec_keeps_staging:
  assumes "ch_exec q db = Inr db'"
    and "q \<noteq> ''DROP TABLE tuples_temp''" and "q \<noteq> ''DROP TABLE individual_temp''"
  shows "(tuples_temp db \<noteq> None \<longrightarrow> tuples_temp db' \<noteq> None) \<and>
         (individual_temp db \<noteq> None \<longrightarrow> individual_temp db' \<noteq> None)"
  using assms
  by (auto simp: ch_exec_def dest: insert_select_exec_frame split: if_splits option.splits)

lemma ch_exec_creates:
  "ch_exec tuples_temp_stmt db = Inr db' \<Longrightarrow> tuples_temp db' = Some []"
  "ch_exec individual_temp_stmt db = Inr db' \<Longrightarrow> individual_temp db' = Some []"
  by (auto simp: ch_exec_def tuples_temp_stmt_def individual_temp_stmt_def split: option.splits)

lemma Exec_server:
  assumes "Exec s q w = (e, w')"
  shows "(e = None \<and> ch_exec q (server w) = Inr (server w')) \<or> (e \<noteq> None \<and> server w' = server w)"
  using assms
  by (auto simp: Exec_def Query_Exec_def Let_def dest!: next_fault_calls
      split: prod.splits option.splits sum.splits)

lemma Exec_keeps_staging:
  assumes "Exec s q w = (e, w')"
    and "q \<noteq> ''DROP TABLE tuples_temp''" and "q \<noteq> ''DROP TABLE individual_temp''"
  shows "(tuples_temp (server w) \<noteq> None \<longrightarrow> tuples_temp (server w') \<noteq> None) \<and>
         (individual_temp (server w) \<noteq> None \<longrightarrow> individual_temp (server w') \<noteq> None)"
  using Exec_server [OF assms(1)] ch_exec_keeps_staging [OF _ assms(2,3)] by metis

lemma ch_insert_json_keeps_staging:
  assumes "ch_insert_json q r db = Inr db'"
  shows "(tuples_temp db \<noteq> None \<longrightarrow> tuples_temp db' \<noteq> None) \<and>
         (individual_temp db \<noteq> None \<longrightarrow> individual_temp db' \<noteq> None)"
  using assms by (auto simp: ch_insert_json_def split: if_splits option.splits)

lemma SendJSON_keeps_staging:
  assumes "SendJSON s t r w = (out, w')"
  shows "(tuples_temp (server w) \<noteq> None \<longrightarrow> tuples_temp (server w') \<noteq> None) \<and>
         (individual_temp (server w) \<noteq> None \<longrightarrow> individual_temp (server w') \<noteq> None)"
proof -
  obtain p w1 where np: "next_post w = (p, w1)" by (cases "next_post w")
  then have s1: "server w1 = server w" by (simp add: next_post_calls)
  have "server w' = server w \<or>
      (\<exists>q. ch_insert_json q r (server w) = Inr (server w'))"
    using assms np s1
    by (auto simp: SendJSON_def Client_Post_def Let_def
        split: prod.splits option.splits sum.splits post_event.splits if_splits)
  then show ?thesis
    using ch_insert_json_keeps_staging by metis
qed

lemma new_calls_append: "calls w' = calls w @ cs \<Longrightarrow> new_calls w w' = cs"
  by (simp add: new_calls_def)

lemma ch_exec_staging_frame:
  assumes "ch_exec q db = Inr db'"
    and "q = ''DROP TABLE tuples_temp'' \<or> q = ''DROP TABLE individual_temp'' \<or>
         q = tuples_temp_stmt \<or> q = individual_temp_stmt"
  shows "tuples db' = tuples db \<and> individual db' = individual db"
  using assms by (auto simp: ch_exec_staging split: option.splits)

lemma Exec_staging_frame:
  assumes "Exec s q w = (e, w')"
    and "q = ''DROP TABLE tuples_temp'' \<or> q = ''DROP TABLE individual_temp'' \<or>
         q = tuples_temp_stmt \<or> q = individual_temp_stmt"
  shows "tuples (server w') = tuples (server w) \<and> individual (server w') = individual (server w)"
  using Exec_server [OF assms(1)] ch_exec_staging_frame [OF _ assms(2)] by metis

lemma ch_insert_json_frame:
  assumes "ch_insert_json q r db = Inr db'"
  shows "tuples db' = tuples db \<and> individual db' = individual db \<and>
         (q = ''INSERT INTO individual_temp FORMAT JSONEachRow'' \<longrightarrow> tuples_temp db' = tuples_temp db)"
  using assms by (auto simp: ch_insert_json_def split: if_splits option.splits)

lemma SendJSON_server:
  assumes "SendJSON s t r w = (out, w')"
  shows "server w' = server w \<or>
         ch_insert_json (''INSERT INTO '' @ t @ '' FORMAT JSONEachRow'') r (server w) = Inr (server w')"
proof -
  obtain p w1 where np: "next_post w = (p, w1)" by (cases "next_post w")
  then have "server w1 = server w" by (simp add: next_post_calls)
  with assms np show ?thesis
    by (auto simp: SendJSON_def Client_Post_def Let_def
        split: prod.splits option.splits sum.splits post_event.splits if_splits)
qed

lemma SendJSON_frame:
  assumes "SendJSON s t r w = (out, w')"
  shows "tuples (server w') = tuples (server w) \<and> individual (server w') = individual (server w)"
  using SendJSON_server [OF assms] ch_insert_json_frame by metis

lemma SendJSON_individual_frame:
  assumes "SendJSON s ''individual_temp'' r w = (out, w')"
  shows "tuples_temp (server w') = tuples_temp (server w)"
  using SendJSON_server [OF assms] ch_insert_json_frame [of "''INSERT INTO individual_temp FORMAT JSONEachRow''"]
  by auto

lemma ch_exec_tuples_insert_ok:
  assumes "ch_exec tuples_insert_stmt db = Inr db'"
  shows "\<exists>old staged. tuples db = Some old \<and> tuples_temp db = Some staged \<and>
           db' = db\<lparr>tuples := Some (old @ select_tuples_states staged)\<rparr>"
  using assms by (auto simp: ch_exec_tuples_insert split: option.splits)

lemma ch_exec_individual_insert_ok:
  assumes "ch_exec individual_insert_stmt db = Inr db'"
  shows "\<exists>old staged. individual db = Some old \<and> individual_temp db = Some staged \<and>
           db' = db\<lparr>individual := Some (old @ select_individual_states staged)\<rparr>"
  using assms by (auto simp: ch_exec_individual_insert split: option.splits)

lemma Exec_tuples_insert_ok:
  assumes "Exec s tuples_insert_stmt w = (None, w')"
  shows "\<exists>old staged. tuples (server w) = Some old \<and> tuples_temp (server w) = Some staged \<and>
           server w' = (server w)\<lparr>tuples := Some (old @ select_tuples_states staged)\<rparr>"
  using Exec_server [OF assms] ch_exec_tuples_insert_ok by simp

lemma Exec_individual_insert_ok:
  assumes "Exec s individual_insert_stmt w = (None, w')"
  shows "\<exists>old staged. individual (server w) = Some old \<and> individual_temp (server w) = Some staged \<and>
           server w' = (server w)\<lparr>individual := Some (old @ select_individual_states staged)\<rparr>"
  using Exec_server [OF assms] ch_exec_individual_insert_ok by simp

lemma Exec_individual_insert_frame:
  assumes "Exec s individual_insert_stmt w = (e, w')"
  shows "tuples (server w') = tuples (server w) \<and> tuples_temp (server w') = tuples_temp (server w)"
proof (cases e)
  case None
  with assms Exec_individual_insert_ok [of s w w'] show ?thesis by auto
next
  case (Some a)
  with Exec_server [OF assms] show ?thesis by simp
qed

lemma Update_steps [consumes 1, case_names create_tuples create_individual
    load_tuples_panic load_tuples insert_tuples load_individual_panic load_individual
    insert_individual success]:
  assumes run: "Update s ar w = (out, w')"
  obtains
    (create_tuples) start w1 w2 w3 e1 e2 e where
      "time_Now w = (start, w1)"
      "Exec s ''DROP TABLE tuples_temp'' w1 = (e1, w2)"
      "Exec s ''DROP TABLE individual_temp'' w2 = (e2, w3)"
      "Exec s tuples_temp_stmt w3 = (Some e, w')"
      "new_calls w w' =
         [HttpExec ''DROP TABLE tuples_temp'' e1, HttpExec ''DROP TABLE individual_temp'' e2,
          HttpExec tuples_temp_stmt (Some e)]"
      "out = Returns (\<lparr>Inserted = 0, Updated = 0, Duration = 0\<rparr>,
               Some (Wrap e ''CHStore.Update failed to create temporary tuples table''))"
  | (create_individual) start w1 w2 w3 w4 e1 e2 e where
      "time_Now w = (start, w1)"
      "Exec s ''DROP TABLE tuples_temp'' w1 = (e1, w2)"
      "Exec s ''DROP TABLE individual_temp'' w2 = (e2, w3)"
      "Exec s tuples_temp_stmt w3 = (None, w4)"
      "Exec s individual_temp_stmt w4 = (Some e, w')"
      "new_calls w w' =
         [HttpExec ''DROP TABLE tuples_temp'' e1, HttpExec ''DROP TABLE individual_temp'' e2,
          HttpExec tuples_temp_stmt None, HttpExec individual_temp_stmt (Some e)]"
      "out = Returns (\<lparr>Inserted = 0, Updated = 0, Duration = 0\<rparr>,
               Some (Wrap e ''CHStore.Update failed to create temporary individual table''))"
  | (load_tuples_panic) start w1 w2 w3 w4 w5 e1 e2 pe where
      "time_Now w = (start, w1)"
      "Exec s ''DROP TABLE tuples_temp'' w1 = (e1, w2)"
      "Exec s ''DROP TABLE individual_temp'' w2 = (e2, w3)"
      "Exec s tuples_temp_stmt w3 = (None, w4)"
      "Exec s individual_temp_stmt w4 = (None, w5)"
      "SendJSON s ''tuples_temp'' (TupleJSONReader ar True) w5 = (Panic, w')"
      "new_calls w w' =
         [HttpExec ''DROP TABLE tuples_temp'' e1, HttpExec ''DROP TABLE individual_temp'' e2,
          HttpExec tuples_temp_stmt None, HttpExec individual_temp_stmt None,
          HttpPost (host s) ''INSERT INTO tuples_temp FORMAT JSONEachRow'' (TupleJSONReader ar True) None pe]"
      "out = Panic"
  | (load_tuples) start w1 w2 w3 w4 w5 e1 e2 rsp pe e where
      "time_Now w = (start, w1)"
      "Exec s ''DROP TABLE tuples_temp'' w1 = (e1, w2)"
      "Exec s ''DROP TABLE individual_temp'' w2 = (e2, w3)"
      "Exec s tuples_temp_stmt w3 = (None, w4)"
      "Exec s individual_temp_stmt w4 = (None, w5)"
      "SendJSON s ''tuples_temp'' (TupleJSONReader ar True) w5 = (Returns (Some e), w')"
      "new_calls w w' =
         [HttpExec ''DROP TABLE tuples_temp'' e1, HttpExec ''DROP TABLE individual_temp'' e2,
          HttpExec tuples_temp_stmt None, HttpExec individual_temp_stmt None,
          HttpPost (host s) ''INSERT INTO tuples_temp FORMAT JSONEachRow'' (TupleJSONReader ar True) (Some rsp) pe]"
      "response_error rsp = Some e"
      "out = Returns (\<lparr>Inserted = 0, Updated = 0, Duration = 0\<rparr>,
               Some (Wrap e ''CHStore.Update tuples failed''))"
  | (insert_tuples) start w1 w2 w3 w4 w5 w6 e1 e2 rsp pe e where
      "time_Now w = (start, w1)"
      "Exec s ''DROP TABLE tuples_temp'' w1 = (e1, w2)"
      "Exec s ''DROP TABLE individual_temp'' w2 = (e2, w3)"
      "Exec s tuples_temp_stmt w3 = (None, w4)"
      "Exec s individual_temp_stmt w4 = (None, w5)"
      "SendJSON s ''tuples_temp'' (TupleJSONReader ar True) w5 = (Returns None, w6)"
      "Exec s tuples_insert_stmt w6 = (Some e, w')"
      "new_calls w w' =
         [HttpExec ''DROP TABLE tuples_temp'' e1, HttpExec ''DROP TABLE individual_temp'' e2,
          HttpExec tuples_temp_stmt None, HttpExec individual_temp_stmt None,
          HttpPost (host s) ''INSERT INTO tuples_temp FORMAT JSONEachRow'' (TupleJSONReader ar True) (Some rsp) pe,
          HttpExec tuples_insert_stmt (Some e)]"
      "response_error rsp = None"
      "out = Returns (\<lparr>Inserted = 0, Updated = 0, Duration = 0\<rparr>,
               Some (Wrap e ''CHStore.Update failed to insert into tuples''))"
  | (load_individual_panic) start w1 w2 w3 w4 w5 w6 w7 e1 e2 rsp pe pe' where
      "time_Now w = (start, w1)"
      "Exec s ''DROP TABLE tuples_temp'' w1 = (e1, w2)"
      "Exec s ''DROP TABLE individual_temp'' w2 = (e2, w3)"
      "Exec s tuples_temp_stmt w3 = (None, w4)"
      "Exec s individual_temp_stmt w4 = (None, w5)"
      "SendJSON s ''tuples_temp'' (TupleJSONReader ar True) w5 = (Returns None, w6)"
      "Exec s tuples_insert_stmt w6 = (None, w7)"
      "SendJSON s ''individual_temp'' (IndividualJSONReader ar True) w7 = (Panic, w')"
      "new_calls w w' =
         [HttpExec ''DROP TABLE tuples_temp'' e1, HttpExec ''DROP TABLE individual_temp'' e2,
          HttpExec tuples_temp_stmt None, HttpExec individual_temp_stmt None,
          HttpPost (host s) ''INSERT INTO tuples_temp FORMAT JSONEachRow'' (TupleJSONReader ar True) (Some rsp) pe,
          HttpExec tuples_insert_stmt None,
          HttpPost (host s) ''INSERT INTO individual_temp FORMAT JSONEachRow'' (IndividualJSONReader ar True) None pe']"
      "response_error rsp = None"
      "out = Panic"
  | (load_individual) start w1 w2 w3 w4 w5 w6 w7 e1 e2 rsp pe rsp' pe' e where
      "time_Now w = (start, w1)"
      "Exec s ''DROP TABLE tuples_temp'' w1 = (e1, w2)"
      "Exec s ''DROP TABLE individual_temp'' w2 = (e2, w3)"
      "Exec s tuples_temp_stmt w3 = (None, w4)"
      "Exec s individual_temp_stmt w4 = (None, w5)"
      "SendJSON s ''tuples_temp'' (TupleJSONReader ar True) w5 = (Returns None, w6)"
      "Exec s tuples_insert_stmt w6 = (None, w7)"
      "SendJSON s ''individual_temp'' (IndividualJSONReader ar True) w7 = (Returns (Some e), w')"
      "new_calls w w' =
         [HttpExec ''DROP TABLE tuples_temp'' e1, HttpExec ''DROP TABLE individual_temp'' e2,
          HttpExec tuples_temp_stmt None, HttpExec individual_temp_stmt None,
          HttpPost (host s) ''INSERT INTO tuples_temp FORMAT JSONEachRow'' (TupleJSONReader ar True) (Some rsp) pe,
          HttpExec tuples_insert_stmt None,
          HttpPost (host s) ''INSERT INTO individual_temp FORMAT JSONEachRow'' (IndividualJSONReader ar True) (Some rsp') pe']"
      "response_error rsp = None" "response_error rsp' = Some e"
      "out = Returns (\<lparr>Inserted = 0, Updated = 0, Duration = 0\<rparr>,
               Some (Wrap e ''CHStore.Update individual failed''))"
  | (insert_individual) start w1 w2 w3 w4 w5 w6 w7 w8 e1 e2 rsp pe rsp' pe' e where
      "time_Now w = (start, w1)"
      "Exec s ''DROP TABLE tuples_temp'' w1 = (e1, w2)"
      "Exec s ''DROP TABLE individual_temp'' w2 = (e2, w3)"
      "Exec s tuples_temp_stmt w3 = (None, w4)"
      "Exec s individual_temp_stmt w4 = (None, w5)"
      "SendJSON s ''tuples_temp'' (TupleJSONReader ar True) w5 = (Returns None, w6)"
      "Exec s tuples_insert_stmt w6 = (None, w7)"
      "SendJSON s ''individual_temp'' (IndividualJSONReader ar True) w7 = (Returns None, w8)"
      "Exec s individual_insert_stmt w8 = (Some e, w')"
      "new_calls w w' =
         [HttpExec ''DROP TABLE tuples_temp'' e1, HttpExec ''DROP TABLE individual_temp'' e2,
          HttpExec tuples_temp_stmt None, HttpExec individual_temp_stmt None,
          HttpPost (host s) ''INSERT INTO tuples_temp FORMAT JSONEachRow'' (TupleJSONReader ar True) (Some rsp) pe,
          HttpExec tuples_insert_stmt None,
          HttpPost (host s) ''INSERT INTO individual_temp FORMAT JSONEachRow'' (IndividualJSONReader ar True) (Some rsp') pe',
          HttpExec individual_insert_stmt (Some e)]"
      "response_error rsp = None" "response_error rsp' = None"
      "out = Returns (\<lparr>Inserted = 0, Updated = 0, Duration = 0\<rparr>,
               Some (Wrap e ''CHStore.Update failed to insert into individual''))"
  | (success) start w1 w2 w3 w4 w5 w6 w7 w8 w9 e1 e2 rsp pe rsp' pe' d where
      "time_Now w = (start, w1)"
      "Exec s ''DROP TABLE tuples_temp'' w1 = (e1, w2)"
      "Exec s ''DROP TABLE individual_temp'' w2 = (e2, w3)"
      "Exec s tuples_temp_stmt w3 = (None, w4)"
      "Exec s individual_temp_stmt w4 = (None, w5)"
      "SendJSON s ''tuples_temp'' (TupleJSONReader ar True) w5 = (Returns None, w6)"
      "Exec s tuples_insert_stmt w6 = (None, w7)"
      "SendJSON s ''individual_temp'' (IndividualJSONReader ar True) w7 = (Returns None, w8)"
      "Exec s individual_insert_stmt w8 = (None, w9)"
      "time_Since start w9 = (d, w')"
      "new_calls w w' =
         [HttpExec ''DROP TABLE tuples_temp'' e1, HttpExec ''DROP TABLE individual_temp'' e2,
          HttpExec tuples_temp_stmt None, HttpExec individual_temp_stmt None,
          HttpPost (host s) ''INSERT INTO tuples_temp FORMAT JSONEachRow'' (TupleJSONReader ar True) (Some rsp) pe,
          HttpExec tuples_insert_stmt None,
          HttpPost (host s) ''INSERT INTO individual_temp FORMAT JSONEachRow'' (IndividualJSONReader ar True) (Some rsp') pe',
          HttpExec individual_insert_stmt None]"
      "response_error rsp = None" "response_error rsp' = None"
      "out = Returns (\<lparr>Inserted = 0, Updated = 0, Duration = d\<rparr>, None)"
proof -
  obtain start w1 where 1: "time_Now w = (start, w1)" by (cases "time_Now w")
  obtain e1 w2 where 2: "Exec s ''DROP TABLE tuples_temp'' w1 = (e1, w2)" by fastforce
  obtain e2 w3 where 3: "Exec s ''DROP TABLE individual_temp'' w2 = (e2, w3)" by fastforce
  obtain e3 w4 where 4: "Exec s tuples_temp_stmt w3 = (e3, w4)" by fastforce
  obtain e4 w5 where 5: "Exec s individual_temp_stmt w4 = (e4, w5)" by fastforce
  obtain o5 w6 where 6: "SendJSON s ''tuples_temp'' (TupleJSONReader ar True) w5 = (o5, w6)"
    by fastforce
  obtain e6 w7 where 7: "Exec s tuples_insert_stmt w6 = (e6, w7)" by fastforce
  obtain o7 w8 where 8: "SendJSON s ''individual_temp'' (IndividualJSONReader ar True) w7 = (o7, w8)"
    by fastforce
  obtain e8 w9 where 9: "Exec s individual_insert_stmt w8 = (e8, w9)" by fastforce
  obtain d w10 where 10: "time_Since start w9 = (d, w10)" by fastforce
  note c1 = time_Now_calls [OF 1, THEN conjunct1]
  note c2 = Exec_calls [OF 2] and c3 = Exec_calls [OF 3] and c4 = Exec_calls [OF 4]
    and c5 = Exec_calls [OF 5] and c7 = Exec_calls [OF 7] and c9 = Exec_calls [OF 9]
  note c10 = time_Since_calls [OF 10, THEN conjunct1]
  from SendJSON_calls [OF 6] obtain resp pe where
    c6: "calls w6 = calls w5 @ [HttpPost (host s) ''INSERT INTO tuples_temp FORMAT JSONEachRow'' (TupleJSONReader ar True) resp pe]"
    and o5: "o5 = (case resp of None \<Rightarrow> Panic | Some rsp \<Rightarrow> Returns (response_error rsp))"
    by auto
  from SendJSON_calls [OF 8] obtain resp' pe' where
    c8: "calls w8 = calls w7 @ [HttpPost (host s) ''INSERT INTO individual_temp FORMAT JSONEachRow'' (IndividualJSONReader ar True) resp' pe']"
    and o7: "o7 = (case resp' of None \<Rightarrow> Panic | Some rsp \<Rightarrow> Returns (response_error rsp))"
    by auto
  note steps = 1 2 3 4 5 6 7 [unfolded tuples_insert_stmt_def] 8
    9 [unfolded individual_insert_stmt_def] 10
  have k4: "calls w4 = calls w @ [HttpExec ''DROP TABLE tuples_temp'' e1,
      HttpExec ''DROP TABLE individual_temp'' e2, HttpExec tuples_temp_stmt e3]"
    by (simp add: c1 c2 c3 c4)
  have k5: "calls w5 = calls w @ [HttpExec ''DROP TABLE tuples_temp'' e1,
      HttpExec ''DROP TABLE individual_temp'' e2, HttpExec tuples_temp_stmt e3,
      HttpExec individual_temp_stmt e4]"
    by (simp add: k4 c5)
  have k6: "calls w6 = calls w @ [HttpExec ''DROP TABLE tuples_temp'' e1,
      HttpExec ''DROP TABLE individual_temp'' e2, HttpExec tuples_temp_stmt e3,
      HttpExec individual_temp_stmt e4,
      HttpPost (host s) ''INSERT INTO tuples_temp FORMAT JSONEachRow'' (TupleJSONReader ar True) resp pe]"
    by (simp add: k5 c6)
  have k7: "calls w7 = calls w @ [HttpExec ''DROP TABLE tuples_temp'' e1,
      HttpExec ''DROP TABLE individual_temp'' e2, HttpExec tuples_temp_stmt e3,
      HttpExec individual_temp_stmt e4,
      HttpPost (host s) ''INSERT INTO tuples_temp FORMAT JSONEachRow'' (TupleJSONReader ar True) resp pe,
      HttpExec tuples_insert_stmt e6]"
    by (simp add: k6 c7)
  have k8: "calls w8 = calls w @ [HttpExec ''DROP TABLE tuples_temp'' e1,
      HttpExec ''DROP TABLE individual_temp'' e2, HttpExec tuples_temp_stmt e3,
      HttpExec individual_temp_stmt e4,
      HttpPost (host s) ''INSERT INTO tuples_temp FORMAT JSONEachRow'' (TupleJSONReader ar True) resp pe,
      HttpExec tuples_insert_stmt e6,
      HttpPost (host s) ''INSERT INTO individual_temp FORMAT JSONEachRow'' (IndividualJSONReader ar True) resp' pe']"
    by (simp add: k7 c8)
  have k9: "calls w9 = calls w @ [HttpExec ''DROP TABLE tuples_temp'' e1,
      HttpExec ''DROP TABLE individual_temp'' e2, HttpExec tuples_temp_stmt e3,
      HttpExec individual_temp_stmt e4,
      HttpPost (host s) ''INSERT INTO tuples_temp FORMAT JSONEachRow'' (TupleJSONReader ar True) resp pe,
      HttpExec tuples_insert_stmt e6,
      HttpPost (host s) ''INSERT INTO individual_temp FORMAT JSONEachRow'' (IndividualJSONReader ar True) resp' pe',
      HttpExec individual_insert_stmt e8]"
    by (simp add: k8 c9)
  show thesis
  proof (cases e3)
    case (Some e)
    with run steps have "out = Returns (\<lparr>Inserted = 0, Updated = 0, Duration = 0\<rparr>,
        Some (Wrap e ''CHStore.Update failed to create temporary tuples table''))" and "w' = w4"
      by (simp_all add: Update_def)
    with Some show thesis
      using create_tuples [of start w1 e1 w2 e2 w3 e] 1 2 3 4
        by (simp add: new_calls_append [OF k4])
  next
    case None
    note e3 = None
    show thesis
    proof (cases e4)
      case (Some e)
      with run steps e3 have "out = Returns (\<lparr>Inserted = 0, Updated = 0, Duration = 0\<rparr>,
          Some (Wrap e ''CHStore.Update failed to create temporary individual table''))"
        and "w' = w5"
        by (simp_all add: Update_def)
      with Some e3 show thesis
        using create_individual [of start w1 e1 w2 e2 w3 w4 e] 1 2 3 4 5
          by (simp add: new_calls_append [OF k5])
    next
      case None
      note e4 = None
      show thesis
      proof (cases resp)
        case None
        with run steps e3 e4 o5 have "out = Panic" and "w' = w6"
          by (simp_all add: Update_def)
        with None e3 e4 show thesis
          using load_tuples_panic [of start w1 e1 w2 e2 w3 w4 w5 pe] 1 2 3 4 5 6 o5
            by (simp add: new_calls_append [OF k6])
      next
        case (Some rsp)
        note resp = Some
        show thesis
        proof (cases "response_error rsp")
          case (Some e)
          with run steps e3 e4 o5 resp
          have "out = Returns (\<lparr>Inserted = 0, Updated = 0, Duration = 0\<rparr>,
              Some (Wrap e ''CHStore.Update tuples failed''))" and "w' = w6"
            by (simp_all add: Update_def)
          with Some resp e3 e4 show thesis
            using load_tuples [of start w1 e1 w2 e2 w3 w4 w5 e rsp pe] 1 2 3 4 5 6 o5
              by (simp add: new_calls_append [OF k6])
        next
          case None
          note ok5 = None
          show thesis
          proof (cases e6)
            case (Some e)
            with run steps e3 e4 o5 resp ok5
            have "out = Returns (\<lparr>Inserted = 0, Updated = 0, Duration = 0\<rparr>,
                Some (Wrap e ''CHStore.Update failed to insert into tuples''))" and "w' = w7"
              by (simp_all add: Update_def)
            with Some resp ok5 e3 e4 show thesis
              using insert_tuples [of start w1 e1 w2 e2 w3 w4 w5 w6 e rsp pe] 1 2 3 4 5 6 7 o5
                by (simp add: new_calls_append [OF k7])
          next
            case None
            note e6 = None
            show thesis
            proof (cases resp')
              case None
              with run steps e3 e4 o5 resp ok5 e6 o7 have "out = Panic" and "w' = w8"
                by (simp_all add: Update_def)
              with None resp ok5 e3 e4 e6 show thesis
                using load_individual_panic [of start w1 e1 w2 e2 w3 w4 w5 w6 w7 rsp pe pe']
                  1 2 3 4 5 6 7 8 o5 o7
                by (simp add: new_calls_append [OF k8])
            next
              case (Some rsp')
              note resp' = Some
              show thesis
              proof (cases "response_error rsp'")
                case (Some e)
                with run steps e3 e4 o5 resp ok5 e6 o7 resp'
                have "out = Returns (\<lparr>Inserted = 0, Updated = 0, Duration = 0\<rparr>,
                    Some (Wrap e ''CHStore.Update individual failed''))" and "w' = w8"
                  by (simp_all add: Update_def)
                with Some resp resp' ok5 e3 e4 e6 show thesis
                  using load_individual [of start w1 e1 w2 e2 w3 w4 w5 w6 w7 e rsp pe rsp' pe']
                    1 2 3 4 5 6 7 8 o5 o7
                  by (simp add: new_calls_append [OF k8])
              next
                case None
                note ok7 = None
                show thesis
                proof (cases e8)
                  case (Some e)
                  with run steps e3 e4 o5 resp ok5 e6 o7 resp' ok7
                  have "out = Returns (\<lparr>Inserted = 0, Updated = 0, Duration = 0\<rparr>,
                      Some (Wrap e ''CHStore.Update failed to insert into individual''))"
                    and "w' = w9"
                    by (simp_all add: Update_def)
                  with Some resp resp' ok5 ok7 e3 e4 e6 show thesis
                    using insert_individual [of start w1 e1 w2 e2 w3 w4 w5 w6 w7 w8 e rsp pe rsp' pe']
                      1 2 3 4 5 6 7 8 9 o5 o7
                    by (simp add: new_calls_append [OF k9])
                next
                  case None
                  with run steps e3 e4 o5 resp ok5 e6 o7 resp' ok7
                  have "out = Returns (\<lparr>Inserted = 0, Updated = 0, Duration = d\<rparr>, None)"
                    and "w' = w10"
                    by (simp_all add: Update_def)
                  then show thesis
                    using None resp resp' ok5 ok7 e3 e4 e6
                      success [of start w1 e1 w2 e2 w3 w4 w5 w6 w7 w8 w9 d rsp pe rsp' pe']
                      1 2 3 4 5 6 7 8 9 10 o5 o7
                    by (simp add: new_calls_append [OF k9 [folded c10]])
                qed
              qed
            qed
          qed
        qed
      qed
    qed
  qed
qed

lemma Update_cases [consumes 1, case_names create_tuples create_individual
    load_tuples_panic load_tuples insert_tuples load_individual_panic load_individual
    insert_individual success]:
  assumes run: "Update s ar w = (out, w')"
  obtains
    (create_tuples) e1 e2 e where
      "new_calls w w' =
         [HttpExec ''DROP TABLE tuples_temp'' e1, HttpExec ''DROP TABLE individual_temp'' e2,
          HttpExec tuples_temp_stmt (Some e)]"
      "out = Returns (\<lparr>Inserted = 0, Updated = 0, Duration = 0\<rparr>,
               Some (Wrap e ''CHStore.Update failed to create temporary tuples table''))"
  | (create_individual) e1 e2 e where
      "new_calls w w' =
         [HttpExec ''DROP TABLE tuples_temp'' e1, HttpExec ''DROP TABLE individual_temp'' e2,
          HttpExec tuples_temp_stmt None, HttpExec individual_temp_stmt (Some e)]"
      "out = Returns (\<lparr>Inserted = 0, Updated = 0, Duration = 0\<rparr>,
               Some (Wrap e ''CHStore.Update failed to create temporary individual table''))"
  | (load_tuples_panic) e1 e2 pe where
      "new_calls w w' =
         [HttpExec ''DROP TABLE tuples_temp'' e1, HttpExec ''DROP TABLE individual_temp'' e2,
          HttpExec tuples_temp_stmt None, HttpExec individual_temp_stmt None,
          HttpPost (host s) ''INSERT INTO tuples_temp FORMAT JSONEachRow'' (TupleJSONReader ar True) None pe]"
      "out = Panic"
  | (load_tuples) e1 e2 rsp pe e where
      "new_calls w w' =
         [HttpExec ''DROP TABLE tuples_temp'' e1, HttpExec ''DROP TABLE individual_temp'' e2,
          HttpExec tuples_temp_stmt None, HttpExec individual_temp_stmt None,
          HttpPost (host s) ''INSERT INTO tuples_temp FORMAT JSONEachRow'' (TupleJSONReader ar True) (Some rsp) pe]"
      "response_error rsp = Some e"
      "out = Returns (\<lparr>Inserted = 0, Updated = 0, Duration = 0\<rparr>,
               Some (Wrap e ''CHStore.Update tuples failed''))"
  | (insert_tuples) e1 e2 rsp pe e where
      "new_calls w w' =
         [HttpExec ''DROP TABLE tuples_temp'' e1, HttpExec ''DROP TABLE individual_temp'' e2,
          HttpExec tuples_temp_stmt None, HttpExec individual_temp_stmt None,
          HttpPost (host s) ''INSERT INTO tuples_temp FORMAT JSONEachRow'' (TupleJSONReader ar True) (Some rsp) pe,
          HttpExec tuples_insert_stmt (Some e)]"
      "response_error rsp = None"
      "out = Returns (\<lparr>Inserted = 0, Updated = 0, Duration = 0\<rparr>,
               Some (Wrap e ''CHStore.Update failed to insert into tuples''))"
  | (load_individual_panic) e1 e2 rsp pe pe' where
      "new_calls w w' =
         [HttpExec ''DROP TABLE tuples_temp'' e1, HttpExec ''DROP TABLE individual_temp'' e2,
          HttpExec tuples_temp_stmt None, HttpExec individual_temp_stmt None,
          HttpPost (host s) ''INSERT INTO tuples_temp FORMAT JSONEachRow'' (TupleJSONReader ar True) (Some rsp) pe,
          HttpExec tuples_insert_stmt None,
          HttpPost (host s) ''INSERT INTO individual_temp FORMAT JSONEachRow'' (IndividualJSONReader ar True) None pe']"
      "response_error rsp = None"
      "out = Panic"
  | (load_individual) e1 e2 rsp pe rsp' pe' e where
      "new_calls w w' =
         [HttpExec ''DROP TABLE tuples_temp'' e1, HttpExec ''DROP TABLE individual_temp'' e2,
          HttpExec tuples_temp_stmt None, HttpExec individual_temp_stmt None,
          HttpPost (host s) ''INSERT INTO tuples_temp FORMAT JSONEachRow'' (TupleJSONReader ar True) (Some rsp) pe,
          HttpExec tuples_insert_stmt None,
          HttpPost (host s) ''INSERT INTO individual_temp FORMAT JSONEachRow'' (IndividualJSONReader ar True) (Some rsp') pe']"
      "response_error rsp = None" "response_error rsp' = Some e"
      "out = Returns (\<lparr>Inserted = 0, Updated = 0, Duration = 0\<rparr>,
               Some (Wrap e ''CHStore.Update individual failed''))"
  | (insert_individual) e1 e2 rsp pe rsp' pe' e where
      "new_calls w w' =
         [HttpExec ''DROP TABLE tuples_temp'' e1, HttpExec ''DROP TABLE individual_temp'' e2,
          HttpExec tuples_temp_stmt None, HttpExec individual_temp_stmt None,
          HttpPost (host s) ''INSERT INTO tuples_temp FORMAT JSONEachRow'' (TupleJSONReader ar True) (Some rsp) pe,
          HttpExec tuples_insert_stmt None,
          HttpPost (host s) ''INSERT INTO individual_temp FORMAT JSONEachRow'' (IndividualJSONReader ar True) (Some rsp') pe',
          HttpExec individual_insert_stmt (Some e)]"
      "response_error rsp = None" "response_error rsp' = None"
      "out = Returns (\<lparr>Inserted = 0, Updated = 0, Duration = 0\<rparr>,
               Some (Wrap e ''CHStore.Update failed to insert into individual''))"
  | (success) e1 e2 rsp pe rsp' pe' d where
      "new_calls w w' =
         [HttpExec ''DROP TABLE tuples_temp'' e1, HttpExec ''DROP TABLE individual_temp'' e2,
          HttpExec tuples_temp_stmt None, HttpExec individual_temp_stmt None,
          HttpPost (host s) ''INSERT INTO tuples_temp FORMAT JSONEachRow'' (TupleJSONReader ar True) (Some rsp) pe,
          HttpExec tuples_insert_stmt None,
          HttpPost (host s) ''INSERT INTO individual_temp FORMAT JSONEachRow'' (IndividualJSONReader ar True) (Some rsp') pe',
          HttpExec individual_insert_stmt None]"
      "response_error rsp = None" "response_error rsp' = None"
      "out = Returns (\<lparr>Inserted = 0, Updated = 0, Duration = d\<rparr>, None)"
      "tuples_temp (server w') \<noteq> None" "individual_temp (server w') \<noteq> None"
  using run
proof (cases rule: Update_steps)
  case (create_tuples start w1 w2 w3 e1 e2 e)
  then show thesis using that(1) by blast
next
  case (create_individual start w1 w2 w3 w4 e1 e2 e)
  then show thesis using that(2) by blast
next
  case (load_tuples_panic start w1 w2 w3 w4 w5 e1 e2 pe)
  then show thesis using that(3) by blast
next
  case (load_tuples start w1 w2 w3 w4 w5 e1 e2 rsp pe e)
  then show thesis using that(4) by blast
next
  case (insert_tuples start w1 w2 w3 w4 w5 w6 e1 e2 rsp pe e)
  then show thesis using that(5) by blast
next
  case (load_individual_panic start w1 w2 w3 w4 w5 w6 w7 e1 e2 rsp pe pe')
  then show thesis using that(6) by blast
next
  case (load_individual start w1 w2 w3 w4 w5 w6 w7 e1 e2 rsp pe rsp' pe' e)
  then show thesis using that(7) by blast
next
  case (insert_individual start w1 w2 w3 w4 w5 w6 w7 w8 e1 e2 rsp pe rsp' pe' e)
  then show thesis using that(8) by blast
next
  case (success start w1 w2 w3 w4 w5 w6 w7 w8 w9 e1 e2 rsp pe rsp' pe' d)
  from success(4) have "tuples_temp (server w4) \<noteq> None"
    using Exec_server ch_exec_creates(1) by fastforce
  with Exec_keeps_staging [OF success(5)] have "tuples_temp (server w5) \<noteq> None"
    by (simp add: stmts_distinct)
  moreover from success(5) have "individual_temp (server w5) \<noteq> None"
    using Exec_server ch_exec_creates(2) by fastforce
  ultimately have "tuples_temp (server w') \<noteq> None" and "individual_temp (server w') \<noteq> None"
    using SendJSON_keeps_staging [OF success(6)] Exec_keeps_staging [OF success(7)]
      SendJSON_keeps_staging [OF success(8)] Exec_keeps_staging [OF success(9)]
      time_Since_calls [OF success(10)]
    by (simp_all add: stmts_distinct)
  with success show thesis using that(9) by blast
qed

subsection \<open>The bulk load\<close>

text \<open>
  C10: let \<open>Post\<close> inside \<open>SendJSON\<close> return the response \<open>resp\<close> and the error \<open>err\<close>.
  When there is no response (a failure of the transport: an error and a nil response),
  \<open>SendJSON\<close> panics on \<open>resp.Body\<close> instead of returning \<open>err\<close>. When there is a
  response, the result is decided by the response alone: below status 400 it is the
  error of reading the body, from 400 on it is the error that carries the body. So the
  value of \<open>err\<close> is never returned, and the error that carries the body is returned only
  when a response with status 400 or more has arrived.
\<close>

theorem SendJSON_ignores_post_error:
  assumes "Client_Post (host s) (''INSERT INTO '' @ table @ '' FORMAT JSONEachRow'') r w = ((resp, err), w')"
  shows "(resp = None \<longrightarrow> SendJSON s table r w = (Panic, w')) \<and>
         (\<forall>rsp. resp = Some rsp \<and> StatusCode rsp < 400 \<longrightarrow>
            SendJSON s table r w = (Returns (map_option Foreign (BodyErr rsp)), w')) \<and>
         (\<forall>rsp. resp = Some rsp \<and> 400 \<le> StatusCode rsp \<longrightarrow>
            SendJSON s table r w = (Returns (Some (Errorf (''Clickhouse error: '' @ Body rsp))), w')) \<and>
         (\<forall>m. fst (SendJSON s table r w) = Returns (Some (Errorf m)) \<longrightarrow>
            (\<exists>rsp. resp = Some rsp \<and> 400 \<le> StatusCode rsp)) \<and>
         (\<forall>m ps. posts w = PostFail m # ps \<longrightarrow>
            resp = None \<and> err = Some (Foreign m) \<and> fst (SendJSON s table r w) = Panic)"
proof -
  have run: "SendJSON s table r w =
      (case resp of None \<Rightarrow> Panic | Some rsp \<Rightarrow> Returns (response_error rsp), w')"
    using assms
    by (simp add: SendJSON_def Let_def response_error_def ioutil_ReadAll_def split: option.splits)
  have a: "resp = None \<longrightarrow> SendJSON s table r w = (Panic, w')"
    by (simp add: run)
  have b: "\<forall>rsp. resp = Some rsp \<and> StatusCode rsp < 400 \<longrightarrow>
      SendJSON s table r w = (Returns (map_option Foreign (BodyErr rsp)), w')"
    by (simp add: run response_error_def)
  have c: "\<forall>rsp. resp = Some rsp \<and> 400 \<le> StatusCode rsp \<longrightarrow>
      SendJSON s table r w = (Returns (Some (Errorf (''Clickhouse error: '' @ Body rsp))), w')"
    by (simp add: run response_error_def)
  have d: "\<forall>m. fst (SendJSON s table r w) = Returns (Some (Errorf m)) \<longrightarrow>
      (\<exists>rsp. resp = Some rsp \<and> 400 \<le> StatusCode rsp)"
    by (cases resp) (auto simp: run response_error_def split: if_splits)
  have e: "\<forall>m ps. posts w = PostFail m # ps \<longrightarrow>
      resp = None \<and> err = Some (Foreign m) \<and> fst (SendJSON s table r w) = Panic"
    using assms by (auto simp: run Client_Post_def next_post_def Let_def)
  from a b c d e show ?thesis by (intro conjI)
qed

text \<open>
  The theorem at four worlds: the connection is refused (panic), the server answers
  with status 500 (the error carries the body), the staging table is missing (status
  500 from the server itself), and the load goes through (status 200, no error).
\<close>

theorem SendJSON_ignores_post_error_witness:
  "posts world_post_refused = [PostFail ''connection refused''] \<and>
   fst (Client_Post (host store_ex) (''INSERT INTO '' @ ''tuples_temp'' @ '' FORMAT JSONEachRow'')
          (map TupleJSON staged_ex) world_post_refused) = (None, Some (Foreign ''connection refused'')) \<and>
   fst (SendJSON store_ex ''tuples_temp'' (map TupleJSON staged_ex) world_post_refused) = Panic \<and>
   fst (SendJSON store_ex ''tuples_temp'' (map TupleJSON staged_ex) world_load_tuples_fails) =
     Returns (Some (Errorf ''Clickhouse error: Memory limit exceeded'')) \<and>
   fst (SendJSON store_ex ''tuples_temp'' (map TupleJSON staged_ex) world_ex) =
     Returns (Some (Errorf ''Clickhouse error: Table default.tuples_temp doesn't exist'')) \<and>
   fst (SendJSON store_ex ''tuples_temp'' (map TupleJSON staged_ex) world_staged) = Returns None"
proof -
  let ?post = "\<lambda>w. Client_Post (host store_ex)
      (''INSERT INTO '' @ ''tuples_temp'' @ '' FORMAT JSONEachRow'') (map TupleJSON staged_ex) w"
  have p: "posts world_post_refused = [PostFail ''connection refused'']"
    by (simp add: world_post_refused_def world_ex_def)
  let ?sent = "\<lambda>w. Client_Post (host store_ex)
      ''INSERT INTO tuples_temp FORMAT JSONEachRow'' (map TupleJSON staged_ex) w"
  have f1: "fst (?sent world_post_refused) = (None, Some (Foreign ''connection refused''))"
    by (simp add: Client_Post_def next_post_def p)
  have f2: "fst (?sent world_load_tuples_fails) =
      (Some \<lparr>StatusCode = 500, Body = ''Memory limit exceeded'', BodyErr = None\<rparr>, None)"
    by (simp add: Client_Post_def next_post_def world_load_tuples_fails_def world_ex_def)
  have f3: "fst (?sent world_ex) =
      (Some \<lparr>StatusCode = 500, Body = ''Table default.tuples_temp doesn't exist'', BodyErr = None\<rparr>, None)"
    by (simp add: Client_Post_def next_post_def ch_insert_json_def world_ex_def server_ex_def)
  have f4: "fst (?sent world_staged) =
      (Some \<lparr>StatusCode = 200, Body = [], BodyErr = None\<rparr>, None)"
    by (simp add: Client_Post_def next_post_def ch_insert_json_def world_staged_def world_ex_def
        server_ex_def staged_ex_def)
  have 4: "?post world_staged =
      ((Some \<lparr>StatusCode = 200, Body = [], BodyErr = None\<rparr>, None), snd (?post world_staged))"
    by (simp add: prod_eq_iff f4)
  have 1: "?post world_post_refused =
      ((None, Some (Foreign ''connection refused'')), snd (?post world_post_refused))"
    by (simp add: prod_eq_iff f1)
  have 2: "?post world_load_tuples_fails =
      ((Some \<lparr>StatusCode = 500, Body = ''Memory limit exceeded'', BodyErr = None\<rparr>, None),
       snd (?post world_load_tuples_fails))"
    by (simp add: prod_eq_iff f2)
  have 3: "?post world_ex =
      ((Some \<lparr>StatusCode = 500, Body = ''Table default.tuples_temp doesn't exist'', BodyErr = None\<rparr>, None),
       snd (?post world_ex))"
    by (simp add: prod_eq_iff f3)
  show ?thesis
    using SendJSON_ignores_post_error [OF 1] SendJSON_ignores_post_error [OF 2]
      SendJSON_ignores_post_error [OF 3] SendJSON_ignores_post_error [OF 4] p f1
    by simp
qed

subsection \<open>The ledger\<close>

text \<open>
  C6: \<open>IsLogIndexed\<close> returns \<open>(false, nil)\<close> exactly when the lookup ran and the ledger
  holds no row with exactly that file name, and \<open>(true, nil)\<close> exactly when the lookup
  ran and found such a row. A lookup that fails for another reason (the connection
  fails, or the table is missing) returns \<open>false\<close> together with that error, which is
  a result different from the one for absence.
\<close>

theorem IsLogIndexed_ledger_lookup:
  "(fst (IsLogIndexed s f w) = (False, None) \<longleftrightarrow>
      fst (next_fault w) = None \<and>
      (\<exists>rows. filenames (server w) = Some rows \<and> f \<notin> filename ` set rows)) \<and>
   (fst (IsLogIndexed s f w) = (True, None) \<longleftrightarrow>
      fst (next_fault w) = None \<and>
      (\<exists>rows. filenames (server w) = Some rows \<and> f \<in> filename ` set rows)) \<and>
   (\<forall>m. fst (next_fault w) = Some m \<longrightarrow> fst (IsLogIndexed s f w) = (False, Some (Foreign m))) \<and>
   (fst (next_fault w) = None \<and> filenames (server w) = None \<longrightarrow>
      fst (IsLogIndexed s f w) = (False, Some (Foreign ''Table default.filenames doesn't exist'')))"
proof -
  obtain fl w1 where nf: "next_fault w = (fl, w1)" by (cases "next_fault w")
  then have srv: "server w1 = server w" by (simp add: next_fault_calls)
  show ?thesis
  proof (cases fl)
    case (Some m)
    with nf show ?thesis
      by (simp add: IsLogIndexed_def DB_QueryRow_Scan_def)
  next
    case None
    note fl = None
    show ?thesis
    proof (cases "filenames (server w)")
      case None
      with nf fl srv show ?thesis
        by (simp add: IsLogIndexed_def DB_QueryRow_Scan_def ch_select_filenames_def)
    next
      case (Some rows)
      show ?thesis
      proof (cases "filter (\<lambda>r. filename r = f) rows")
        case Nil
        then have "f \<notin> filename ` set rows"
          by (auto simp: filter_empty_conv)
        with nf fl srv Some Nil show ?thesis
          by (simp add: IsLogIndexed_def DB_QueryRow_Scan_def ch_select_filenames_def)
      next
        case (Cons x xs)
        then have "x \<in> set (filter (\<lambda>r. filename r = f) rows)" by simp
        then have "f \<in> filename ` set rows" by auto
        with nf fl srv Some Cons show ?thesis
          by (simp add: IsLogIndexed_def DB_QueryRow_Scan_def ch_select_filenames_def)
      qed
    qed
  qed
qed

text \<open>
  The theorem on a ledger that holds \<open>dns.log\<close>: that file is indexed, \<open>conn.log\<close> is
  not; with the connection down, or without the ledger table, the answer is \<open>false\<close>
  with the error of the lookup.
\<close>

theorem IsLogIndexed_ledger_lookup_witness:
  "fst (IsLogIndexed store_ex ''dns.log'' world_ex) = (True, None) \<and>
   fst (IsLogIndexed store_ex ''conn.log'' world_ex) = (False, None) \<and>
   fst (IsLogIndexed store_ex ''dns.log'' world_conn_down) = (False, Some (Foreign ''connection reset'')) \<and>
   fst (IsLogIndexed store_ex ''dns.log'' world_no_ledger) =
     (False, Some (Foreign ''Table default.filenames doesn't exist''))"
  using IsLogIndexed_ledger_lookup [of store_ex "''dns.log''" world_ex]
    IsLogIndexed_ledger_lookup [of store_ex "''conn.log''" world_ex]
    IsLogIndexed_ledger_lookup [of store_ex "''dns.log''" world_conn_down]
    IsLogIndexed_ledger_lookup [of store_ex "''dns.log''" world_no_ledger]
  by (simp add: next_fault_def world_ex_def world_conn_down_def world_no_ledger_def server_ex_def)

subsection \<open>The merge step\<close>

lemma tuples_group_state:
  assumes "group_state tuples_state_init tuples_state_add g = Some row"
  shows "g \<noteq> [] \<and>
         t_ttl row = tt_ttl (last g) \<and>
         t_first row = Min (tt_first ` set g) \<and>
         t_last row = Max (tt_last ` set g) \<and>
         t_count row = sum_list (map tt_count g)"
proof (cases g)
  case Nil
  with assms show ?thesis by simp
next
  case (Cons r rs)
  with assms have "row = fold (\<lambda>x s. tuples_state_add s x) rs (tuples_state_init r)"
    by simp
  with Cons show ?thesis
    by (simp add: tuples_fold_state)
qed

lemma individual_group_state:
  assumes "group_state individual_state_init individual_state_add g = Some row"
  shows "g \<noteq> [] \<and>
         i_first row = Min (it_first ` set g) \<and>
         i_last row = Max (it_last ` set g) \<and>
         i_count row = sum_list (map it_count g)"
proof (cases g)
  case Nil
  with assms show ?thesis by simp
next
  case (Cons r rs)
  with assms have "row = fold (\<lambda>x s. individual_state_add s x) rs (individual_state_init r)"
    by simp
  with Cons show ?thesis
    by (simp add: individual_fold_state)
qed

lemma tuples_states_spec:
  "distinct (map tuples_key (select_tuples_states staged)) \<and>
   tuples_key ` set (select_tuples_states staged) = tuples_temp_key ` set staged \<and>
   (\<forall>row\<in>set (select_tuples_states staged).
      tuples_group staged row \<noteq> [] \<and>
      t_ttl row = tt_ttl (last (tuples_group staged row)) \<and>
      t_first row = Min (tt_first ` set (tuples_group staged row)) \<and>
      t_last row = Max (tt_last ` set (tuples_group staged row)) \<and>
      t_count row = sum_list (map tt_count (tuples_group staged row)))"
proof -
  have init: "tuples_key (tuples_state_init r) = tuples_temp_key r" for r
    by (simp add: tuples_key_def tuples_state_init_def tuples_temp_key_def)
  have add: "tuples_key (tuples_state_add st r) = tuples_key st" for st r
    by (simp add: tuples_key_def tuples_state_add_def)
  note spec = GROUP_BY_spec [of tuples_key tuples_state_init tuples_temp_key tuples_state_add staged,
      OF init add, folded select_tuples_states_def]
  have "tuples_group staged row \<noteq> [] \<and>
      t_ttl row = tt_ttl (last (tuples_group staged row)) \<and>
      t_first row = Min (tt_first ` set (tuples_group staged row)) \<and>
      t_last row = Max (tt_last ` set (tuples_group staged row)) \<and>
      t_count row = sum_list (map tt_count (tuples_group staged row))"
    if "row \<in> set (select_tuples_states staged)" for row
  proof -
    from spec that
    have "group_state tuples_state_init tuples_state_add (tuples_group staged row) = Some row"
      by (simp add: tuples_group_def)
    then show ?thesis by (rule tuples_group_state)
  qed
  with spec show ?thesis by blast
qed

lemma individual_states_spec:
  "distinct (map individual_key (select_individual_states staged)) \<and>
   individual_key ` set (select_individual_states staged) = individual_temp_key ` set staged \<and>
   (\<forall>row\<in>set (select_individual_states staged).
      individual_group staged row \<noteq> [] \<and>
      i_first row = Min (it_first ` set (individual_group staged row)) \<and>
      i_last row = Max (it_last ` set (individual_group staged row)) \<and>
      i_count row = sum_list (map it_count (individual_group staged row)))"
proof -
  have init: "individual_key (individual_state_init r) = individual_temp_key r" for r
    by (simp add: individual_key_def individual_state_init_def individual_temp_key_def)
  have add: "individual_key (individual_state_add st r) = individual_key st" for st r
    by (simp add: individual_key_def individual_state_add_def)
  note spec = GROUP_BY_spec [of individual_key individual_state_init individual_temp_key
      individual_state_add staged, OF init add, folded select_individual_states_def]
  have "individual_group staged row \<noteq> [] \<and>
      i_first row = Min (it_first ` set (individual_group staged row)) \<and>
      i_last row = Max (it_last ` set (individual_group staged row)) \<and>
      i_count row = sum_list (map it_count (individual_group staged row))"
    if "row \<in> set (select_individual_states staged)" for row
  proof -
    from spec that
    have "group_state individual_state_init individual_state_add (individual_group staged row) = Some row"
      by (simp add: individual_group_def)
    then show ?thesis by (rule individual_group_state)
  qed
  with spec show ?thesis by blast
qed

lemma time_Now_quiet: "time_Now w = (t, w') \<Longrightarrow> faults w' = faults w \<and> posts w' = posts w"
  by (auto simp: time_Now_def split: list.splits)

lemma time_Since_quiet:
  "time_Since t0 w = (d, w') \<Longrightarrow> faults w' = faults w \<and> posts w' = posts w"
  by (auto simp: time_Since_def Let_def dest: time_Now_quiet split: prod.splits)

lemma Exec_quiet:
  assumes "Exec s q w = (e, w')" and "faults w = []"
  shows "faults w' = [] \<and> posts w' = posts w \<and>
         (case ch_exec q (server w) of
            Inl m \<Rightarrow> e = Some (Foreign m) \<and> server w' = server w
          | Inr db \<Rightarrow> e = None \<and> server w' = db)"
  using assms
  by (auto simp: Exec_def Query_Exec_def next_fault_def Let_def split: sum.splits)

lemma SendJSON_quiet:
  assumes "SendJSON s t r w = (out, w')" and "posts w = []"
    and "ch_insert_json (''INSERT INTO '' @ t @ '' FORMAT JSONEachRow'') r (server w) = Inr db"
  shows "faults w' = faults w \<and> posts w' = [] \<and> out = Returns None \<and> server w' = db"
  using assms
  by (auto simp: SendJSON_def Client_Post_def next_post_def Let_def ioutil_ReadAll_def)

lemma drop_absent:
  "tuples_temp db = None \<Longrightarrow> db\<lparr>tuples_temp := None\<rparr> = db"
  "individual_temp db = None \<Longrightarrow> db\<lparr>individual_temp := None\<rparr> = db"
  by simp_all

lemma Exec_drop_quiet:
  assumes "faults w = []"
  shows "Exec s ''DROP TABLE tuples_temp'' w = (e, w') \<Longrightarrow>
           faults w' = [] \<and> posts w' = posts w \<and> server w' = (server w)\<lparr>tuples_temp := None\<rparr>"
    and "Exec s ''DROP TABLE individual_temp'' w = (e, w') \<Longrightarrow>
           faults w' = [] \<and> posts w' = posts w \<and> server w' = (server w)\<lparr>individual_temp := None\<rparr>"
  using assms
  by (auto dest!: Exec_quiet simp: ch_exec_staging drop_absent split: option.splits)


lemma Update_quiet:
  assumes run: "Update s ar w = (out, w')"
    and quiet: "faults w = []" "posts w = []"
    and tabs: "tuples (server w) = Some old_t" "individual (server w) = Some old_i"
    and rows: "tuple_rows (TupleJSONReader ar True) = Some bt"
      "individual_rows (IndividualJSONReader ar True) = Some bi"
  shows "(\<exists>d. out = Returns (\<lparr>Inserted = 0, Updated = 0, Duration = d\<rparr>, None)) \<and>
         server w' = (server w)\<lparr>tuples := Some (old_t @ select_tuples_states bt),
                                 individual := Some (old_i @ select_individual_states bi),
                                 tuples_temp := Some bt, individual_temp := Some bi\<rparr>"
proof -
  obtain start w1 where 1: "time_Now w = (start, w1)" by (cases "time_Now w")
  obtain e1 w2 where 2: "Exec s ''DROP TABLE tuples_temp'' w1 = (e1, w2)" by fastforce
  obtain e2 w3 where 3: "Exec s ''DROP TABLE individual_temp'' w2 = (e2, w3)" by fastforce
  obtain e3 w4 where 4: "Exec s tuples_temp_stmt w3 = (e3, w4)" by fastforce
  obtain e4 w5 where 5: "Exec s individual_temp_stmt w4 = (e4, w5)" by fastforce
  obtain o5 w6 where 6: "SendJSON s ''tuples_temp'' (TupleJSONReader ar True) w5 = (o5, w6)"
    by fastforce
  obtain e6 w7 where 7: "Exec s tuples_insert_stmt w6 = (e6, w7)" by fastforce
  obtain o7 w8 where 8: "SendJSON s ''individual_temp'' (IndividualJSONReader ar True) w7 = (o7, w8)"
    by fastforce
  obtain e8 w9 where 9: "Exec s individual_insert_stmt w8 = (e8, w9)" by fastforce
  obtain d w10 where 10: "time_Since start w9 = (d, w10)" by fastforce
  note steps = 1 2 3 4 5 6 7 [unfolded tuples_insert_stmt_def] 8
    9 [unfolded individual_insert_stmt_def] 10
  have q1: "faults w1 = []" "posts w1 = []" "server w1 = server w"
    using time_Now_quiet [OF 1] time_Now_calls [OF 1] quiet by simp_all
  have q2: "faults w2 = []" "posts w2 = []" "server w2 = (server w)\<lparr>tuples_temp := None\<rparr>"
    using Exec_drop_quiet(1) [OF q1(1) 2] q1 by simp_all
  have q3: "faults w3 = []" "posts w3 = []"
    "server w3 = (server w)\<lparr>tuples_temp := None, individual_temp := None\<rparr>"
    using Exec_drop_quiet(2) [OF q2(1) 3] q2 by simp_all
  have q4: "e3 = None" "faults w4 = []" "posts w4 = []"
    "server w4 = (server w)\<lparr>tuples_temp := Some [], individual_temp := None\<rparr>"
    using Exec_quiet [OF 4 q3(1)] q3 by (simp_all add: ch_exec_staging)
  have q5: "e4 = None" "faults w5 = []" "posts w5 = []"
    "server w5 = (server w)\<lparr>tuples_temp := Some [], individual_temp := Some []\<rparr>"
    using Exec_quiet [OF 5 q4(2)] q4 by (simp_all add: ch_exec_staging)
  have "ch_insert_json (''INSERT INTO '' @ ''tuples_temp'' @ '' FORMAT JSONEachRow'')
      (TupleJSONReader ar True) (server w5) =
      Inr ((server w)\<lparr>tuples_temp := Some bt, individual_temp := Some []\<rparr>)"
    using q5 rows by (simp add: ch_insert_json_def)
  from SendJSON_quiet [OF 6 q5(3) this]
  have q6: "o5 = Returns None" "faults w6 = []" "posts w6 = []"
    "server w6 = (server w)\<lparr>tuples_temp := Some bt, individual_temp := Some []\<rparr>"
    using q5 by simp_all
  have q7: "e6 = None" "faults w7 = []" "posts w7 = []"
    "server w7 = (server w)\<lparr>tuples := Some (old_t @ select_tuples_states bt),
       tuples_temp := Some bt, individual_temp := Some []\<rparr>"
    using Exec_quiet [OF 7 q6(2)] q6 tabs by (simp_all add: ch_exec_tuples_insert)
  have "ch_insert_json (''INSERT INTO '' @ ''individual_temp'' @ '' FORMAT JSONEachRow'')
      (IndividualJSONReader ar True) (server w7) =
      Inr ((server w)\<lparr>tuples := Some (old_t @ select_tuples_states bt),
         tuples_temp := Some bt, individual_temp := Some bi\<rparr>)"
    using q7 rows by (simp add: ch_insert_json_def)
  from SendJSON_quiet [OF 8 q7(3) this]
  have q8: "o7 = Returns None" "faults w8 = []" "posts w8 = []"
    "server w8 = (server w)\<lparr>tuples := Some (old_t @ select_tuples_states bt),
       tuples_temp := Some bt, individual_temp := Some bi\<rparr>"
    using q7 by simp_all
  have q9: "e8 = None"
    "server w9 = (server w)\<lparr>tuples := Some (old_t @ select_tuples_states bt),
       individual := Some (old_i @ select_individual_states bi),
       tuples_temp := Some bt, individual_temp := Some bi\<rparr>"
    using Exec_quiet [OF 9 q8(2)] q8 tabs by (simp_all add: ch_exec_individual_insert)
  have q10: "server w10 = server w9"
    using time_Since_calls [OF 10] by simp
  from run steps q4(1) q5(1) q6(1) q7(1) q8(1) q9(1)
  have "out = Returns (\<lparr>Inserted = 0, Updated = 0, Duration = d\<rparr>, None)" and "w' = w10"
    by (simp_all add: Update_def)
  with q9 q10 show ?thesis by simp
qed


lemma Update_tuples_merged:
  assumes "time_Now w = (start, w1)"
    and "Exec s ''DROP TABLE tuples_temp'' w1 = (e1, w2)"
    and "Exec s ''DROP TABLE individual_temp'' w2 = (e2, w3)"
    and "Exec s tuples_temp_stmt w3 = (e3, w4)"
    and "Exec s individual_temp_stmt w4 = (e4, w5)"
    and "SendJSON s ''tuples_temp'' r w5 = (o5, w6)"
    and "Exec s tuples_insert_stmt w6 = (None, w7)"
  shows "\<exists>old staged. tuples (server w) = Some old \<and> tuples_temp (server w7) = Some staged \<and>
           tuples (server w7) = Some (old @ select_tuples_states staged) \<and>
           individual (server w7) = individual (server w)"
proof -
  have "tuples (server w6) = tuples (server w) \<and> individual (server w6) = individual (server w)"
    using time_Now_calls [OF assms(1)] Exec_staging_frame [OF assms(2)]
      Exec_staging_frame [OF assms(3)] Exec_staging_frame [OF assms(4)]
      Exec_staging_frame [OF assms(5)] SendJSON_frame [OF assms(6)]
    by simp
  with Exec_tuples_insert_ok [OF assms(7)] show ?thesis by auto
qed

lemma is_tuples_merge_states: "is_tuples_merge staged (select_tuples_states staged)"
  unfolding is_tuples_merge_def by (rule tuples_states_spec)

lemma is_individual_merge_states: "is_individual_merge staged (select_individual_states staged)"
  unfolding is_individual_merge_def by (rule individual_states_spec)

text \<open>
  C2: in every run of \<open>Update\<close>, a tuple merge insert that the server has executed (the
  call \<open>HttpExec tuples_insert_stmt None\<close> of the run) has appended rows \<open>ins\<close> to the
  permanent tuple table, and \<open>ins\<close> is the merge of the rows staged in \<open>tuples_temp\<close>:
  exactly one row for every key (query, type, answer) among the staged rows, and the row
  of a key holds, over the staged rows of that key, the last \<open>ttl\<close>, the least \<open>first\<close>,
  the greatest \<open>last\<close> and the sum of \<open>count\<close> (a \<open>UInt64\<close> sum). An executed individual
  merge insert has done the same for the keys (which, value), with no \<open>ttl\<close>. The server
  takes the target table, the columns, the aggregate functions and the grouping columns
  from the text of the statement that \<open>Update\<close> sends. When nothing fails (no fault on the
  connection, both permanent tables exist, the rows of the batch are of the right kind),
  the run returns without error, the staging tables hold exactly the rows of the batch,
  and the merge of those rows has been appended to each permanent table.
\<close>

theorem Update_merges_staged_rows:
  assumes "Update s ar w = (out, w')"
  shows
    "(HttpExec tuples_insert_stmt None \<in> set (new_calls w w') \<longrightarrow>
        (\<exists>old staged ins.
           tuples (server w) = Some old \<and> tuples_temp (server w') = Some staged \<and>
           tuples (server w') = Some (old @ ins) \<and> is_tuples_merge staged ins)) \<and>
     (HttpExec individual_insert_stmt None \<in> set (new_calls w w') \<longrightarrow>
        (\<exists>old staged ins.
           individual (server w) = Some old \<and> individual_temp (server w') = Some staged \<and>
           individual (server w') = Some (old @ ins) \<and> is_individual_merge staged ins)) \<and>
     (\<forall>old_t old_i bt bi.
        faults w = [] \<and> posts w = [] \<and>
        tuples (server w) = Some old_t \<and> individual (server w) = Some old_i \<and>
        tuple_rows (TupleJSONReader ar True) = Some bt \<and>
        individual_rows (IndividualJSONReader ar True) = Some bi \<longrightarrow>
        (\<exists>d ins_t ins_i.
           out = Returns (\<lparr>Inserted = 0, Updated = 0, Duration = d\<rparr>, None) \<and>
           server w' = (server w)\<lparr>tuples := Some (old_t @ ins_t),
                                   individual := Some (old_i @ ins_i),
                                   tuples_temp := Some bt, individual_temp := Some bi\<rparr> \<and>
           is_tuples_merge bt ins_t \<and> is_individual_merge bi ins_i))"
proof (intro conjI allI impI)
  assume sent: "HttpExec tuples_insert_stmt None \<in> set (new_calls w w')"
  from assms have "\<exists>old staged. tuples (server w) = Some old \<and>
      tuples_temp (server w') = Some staged \<and>
      tuples (server w') = Some (old @ select_tuples_states staged)"
  proof (cases rule: Update_steps)
    case (create_tuples start w1 w2 w3 e1 e2 e)
    with sent show ?thesis by (simp add: stmts_distinct)
  next
    case (create_individual start w1 w2 w3 w4 e1 e2 e)
    with sent show ?thesis by (simp add: stmts_distinct)
  next
    case (load_tuples_panic start w1 w2 w3 w4 w5 e1 e2 pe)
    with sent show ?thesis by (simp add: stmts_distinct)
  next
    case (load_tuples start w1 w2 w3 w4 w5 e1 e2 rsp pe e)
    with sent show ?thesis by (simp add: stmts_distinct)
  next
    case (insert_tuples start w1 w2 w3 w4 w5 w6 e1 e2 rsp pe e)
    with sent show ?thesis by (simp add: stmts_distinct)
  next
    case (load_individual_panic start w1 w2 w3 w4 w5 w6 w7 e1 e2 rsp pe pe')
    from Update_tuples_merged [OF load_individual_panic(1-7)]
      SendJSON_frame [OF load_individual_panic(8)]
      SendJSON_individual_frame [OF load_individual_panic(8)]
    show ?thesis by auto
  next
    case (load_individual start w1 w2 w3 w4 w5 w6 w7 e1 e2 rsp pe rsp' pe' e)
    from Update_tuples_merged [OF load_individual(1-7)]
      SendJSON_frame [OF load_individual(8)] SendJSON_individual_frame [OF load_individual(8)]
    show ?thesis by auto
  next
    case (insert_individual start w1 w2 w3 w4 w5 w6 w7 w8 e1 e2 rsp pe rsp' pe' e)
    from Update_tuples_merged [OF insert_individual(1-7)]
      SendJSON_frame [OF insert_individual(8)] SendJSON_individual_frame [OF insert_individual(8)]
      Exec_individual_insert_frame [OF insert_individual(9)]
    show ?thesis by auto
  next
    case (success start w1 w2 w3 w4 w5 w6 w7 w8 w9 e1 e2 rsp pe rsp' pe' d)
    from Update_tuples_merged [OF success(1-7)]
      SendJSON_frame [OF success(8)] SendJSON_individual_frame [OF success(8)]
      Exec_individual_insert_frame [OF success(9)] time_Since_calls [OF success(10)]
    show ?thesis by auto
  qed
  then show "\<exists>old staged ins.
      tuples (server w) = Some old \<and> tuples_temp (server w') = Some staged \<and>
      tuples (server w') = Some (old @ ins) \<and> is_tuples_merge staged ins"
    using is_tuples_merge_states by blast
next
  assume sent: "HttpExec individual_insert_stmt None \<in> set (new_calls w w')"
  from assms have "\<exists>old staged. individual (server w) = Some old \<and>
      individual_temp (server w') = Some staged \<and>
      individual (server w') = Some (old @ select_individual_states staged)"
  proof (cases rule: Update_steps)
    case (create_tuples start w1 w2 w3 e1 e2 e)
    with sent show ?thesis by (simp add: stmts_distinct)
  next
    case (create_individual start w1 w2 w3 w4 e1 e2 e)
    with sent show ?thesis by (simp add: stmts_distinct)
  next
    case (load_tuples_panic start w1 w2 w3 w4 w5 e1 e2 pe)
    with sent show ?thesis by (simp add: stmts_distinct)
  next
    case (load_tuples start w1 w2 w3 w4 w5 e1 e2 rsp pe e)
    with sent show ?thesis by (simp add: stmts_distinct)
  next
    case (insert_tuples start w1 w2 w3 w4 w5 w6 e1 e2 rsp pe e)
    with sent show ?thesis by (simp add: stmts_distinct)
  next
    case (load_individual_panic start w1 w2 w3 w4 w5 w6 w7 e1 e2 rsp pe pe')
    with sent show ?thesis by (simp add: stmts_distinct)
  next
    case (load_individual start w1 w2 w3 w4 w5 w6 w7 e1 e2 rsp pe rsp' pe' e)
    with sent show ?thesis by (simp add: stmts_distinct)
  next
    case (insert_individual start w1 w2 w3 w4 w5 w6 w7 w8 e1 e2 rsp pe rsp' pe' e)
    with sent show ?thesis by (simp add: stmts_distinct)
  next
    case (success start w1 w2 w3 w4 w5 w6 w7 w8 w9 e1 e2 rsp pe rsp' pe' d)
    from Update_tuples_merged [OF success(1-7)] SendJSON_frame [OF success(8)]
    have "individual (server w8) = individual (server w)" by auto
    with Exec_individual_insert_ok [OF success(9)] time_Since_calls [OF success(10)]
    show ?thesis by auto
  qed
  then show "\<exists>old staged ins.
      individual (server w) = Some old \<and> individual_temp (server w') = Some staged \<and>
      individual (server w') = Some (old @ ins) \<and> is_individual_merge staged ins"
    using is_individual_merge_states by blast
next
  fix old_t old_i bt bi
  assume "faults w = [] \<and> posts w = [] \<and>
      tuples (server w) = Some old_t \<and> individual (server w) = Some old_i \<and>
      tuple_rows (TupleJSONReader ar True) = Some bt \<and>
      individual_rows (IndividualJSONReader ar True) = Some bi"
  then have "(\<exists>d. out = Returns (\<lparr>Inserted = 0, Updated = 0, Duration = d\<rparr>, None)) \<and>
      server w' = (server w)\<lparr>tuples := Some (old_t @ select_tuples_states bt),
        individual := Some (old_i @ select_individual_states bi),
        tuples_temp := Some bt, individual_temp := Some bi\<rparr>"
    using Update_quiet [OF assms] by blast
  then show "\<exists>d ins_t ins_i.
      out = Returns (\<lparr>Inserted = 0, Updated = 0, Duration = d\<rparr>, None) \<and>
      server w' = (server w)\<lparr>tuples := Some (old_t @ ins_t),
        individual := Some (old_i @ ins_i),
        tuples_temp := Some bt, individual_temp := Some bi\<rparr> \<and>
      is_tuples_merge bt ins_t \<and> is_individual_merge bi ins_i"
    using is_tuples_merge_states is_individual_merge_states by blast
qed

text \<open>
  The theorem on the example batch, in a world without faults: two of the three staged
  tuple rows share a key and are merged into one row, and so are two of the three
  staged individual rows.
\<close>

lemma staged_ex_states:
  "select_tuples_states staged_ex =
     [\<lparr>t_query = ''moc.elpmaxe'', t_type = ''A'', t_answer = ''1.2.3.4'',
       t_ttl = 60, t_first = 50, t_last = 200, t_count = 5\<rparr>,
      \<lparr>t_query = ''gro.elpmaxe'', t_type = ''A'', t_answer = ''5.6.7.8'',
       t_ttl = 10, t_first = 7, t_last = 9, t_count = 1\<rparr>]"
  by (simp add: select_tuples_states_def GROUP_BY_def group_step_def staged_ex_def
      tuples_temp_key_def tuples_state_init_def tuples_state_add_def)

lemma staged_individual_ex_states:
  "select_individual_states staged_individual_ex =
     [\<lparr>i_which = Q, i_value = ''moc.elpmaxe'', i_first = 50, i_last = 200, i_count = 5\<rparr>,
      \<lparr>i_which = A, i_value = ''1.2.3.4'', i_first = 50, i_last = 150, i_count = 3\<rparr>]"
  by (simp add: select_individual_states_def GROUP_BY_def group_step_def staged_individual_ex_def
      individual_temp_key_def individual_state_init_def individual_state_add_def)

text \<open>
  The two merge statements executed on the staged example by reading their text, with
  no use of the aggregation written over the typed rows: the server appends the same
  rows.
\<close>

lemma tuples_insert_stmt_on_example:
  "ch_exec tuples_insert_stmt (server world_staged) =
     Inr ((server world_staged)\<lparr>tuples := Some (the (tuples server_ex) @
       [\<lparr>t_query = ''moc.elpmaxe'', t_type = ''A'', t_answer = ''1.2.3.4'',
         t_ttl = 60, t_first = 50, t_last = 200, t_count = 5\<rparr>,
        \<lparr>t_query = ''gro.elpmaxe'', t_type = ''A'', t_answer = ''5.6.7.8'',
         t_ttl = 10, t_first = 7, t_last = 9, t_count = 1\<rparr>])\<rparr>)"
proof -
  have "tuples_insert_stmt \<noteq> ''DROP TABLE tuples_temp''"
    "tuples_insert_stmt \<noteq> ''DROP TABLE individual_temp''"
    "tuples_insert_stmt \<noteq> tuples_temp_stmt" "tuples_insert_stmt \<noteq> individual_temp_stmt"
    by (simp_all add: stmts_distinct)
  then show ?thesis
    by (simp add: ch_exec_def parse_tuples_insert insert_select_exec_def source_table_def
        insert_rows_def select_group_by_def GROUP_BY_def group_step_def col_def
        state_function_def tuples_temp_columns_def tuples_temp_sql_def tuples_of_sql_def
        world_staged_def world_ex_def server_ex_def staged_ex_def)
qed

lemma individual_insert_stmt_on_example:
  "ch_exec individual_insert_stmt (server world_staged) =
     Inr ((server world_staged)\<lparr>individual := Some (the (individual server_ex) @
       [\<lparr>i_which = Q, i_value = ''moc.elpmaxe'', i_first = 50, i_last = 200, i_count = 5\<rparr>,
        \<lparr>i_which = A, i_value = ''1.2.3.4'', i_first = 50, i_last = 150, i_count = 3\<rparr>])\<rparr>)"
proof -
  have "individual_insert_stmt \<noteq> ''DROP TABLE tuples_temp''"
    "individual_insert_stmt \<noteq> ''DROP TABLE individual_temp''"
    "individual_insert_stmt \<noteq> tuples_temp_stmt" "individual_insert_stmt \<noteq> individual_temp_stmt"
    by (simp_all add: stmts_distinct)
  then show ?thesis
    by (simp add: ch_exec_def parse_individual_insert insert_select_exec_def source_table_def
        insert_rows_def select_group_by_def GROUP_BY_def group_step_def col_def
        state_function_def individual_temp_columns_def individual_temp_sql_def
        individual_of_sql_def world_staged_def world_ex_def server_ex_def staged_individual_ex_def)
qed

text \<open>Runs of \<open>Update\<close> on the example batch, evaluated.\<close>

lemmas run_simps =
  Update_def Exec_def Query_Exec_def SendJSON_def Client_Post_def ioutil_ReadAll_def
  next_fault_def next_post_def time_Now_def time_Since_def ch_insert_json_def
  ch_exec_stmts [unfolded tuples_temp_stmt_def individual_temp_stmt_def tuples_insert_stmt_def
    individual_insert_stmt_def]
  new_calls_def tuples_temp_stmt_def individual_temp_stmt_def tuples_insert_stmt_def
  individual_insert_stmt_def
  world_ex_def server_ex_def store_ex_def batch_ex_def staged_ex_def staged_individual_ex_def

lemma run_success:
  "fst (Update store_ex batch_ex world_ex) =
     Returns (\<lparr>Inserted = 0, Updated = 0, Duration = 4000\<rparr>, None)"
  "new_calls world_ex (snd (Update store_ex batch_ex world_ex)) =
     [HttpExec ''DROP TABLE tuples_temp'' (Some (Foreign ''Table default.tuples_temp doesn't exist'')),
      HttpExec ''DROP TABLE individual_temp'' (Some (Foreign ''Table default.individual_temp doesn't exist'')),
      HttpExec tuples_temp_stmt None,
      HttpExec individual_temp_stmt None,
      HttpPost ''localhost'' ''INSERT INTO tuples_temp FORMAT JSONEachRow''
        (TupleJSONReader batch_ex True) (Some \<lparr>StatusCode = 200, Body = [], BodyErr = None\<rparr>) None,
      HttpExec tuples_insert_stmt None,
      HttpPost ''localhost'' ''INSERT INTO individual_temp FORMAT JSONEachRow''
        (IndividualJSONReader batch_ex True) (Some \<lparr>StatusCode = 200, Body = [], BodyErr = None\<rparr>) None,
      HttpExec individual_insert_stmt None]"
  "tuples_temp (server (snd (Update store_ex batch_ex world_ex))) = Some staged_ex"
  "individual_temp (server (snd (Update store_ex batch_ex world_ex))) = Some staged_individual_ex"
  by (simp_all add: run_simps)

lemma world_ex_quiet:
  "faults world_ex = []" "posts world_ex = []" "server world_ex = server_ex"
  "tuples (server world_ex) = Some (the (tuples server_ex))"
  "individual (server world_ex) = Some (the (individual server_ex))"
  by (simp_all add: world_ex_def server_ex_def)

lemma batch_ex_rows:
  "tuple_rows (TupleJSONReader batch_ex True) = Some staged_ex"
  "individual_rows (IndividualJSONReader batch_ex True) = Some staged_individual_ex"
  by (simp_all add: batch_ex_def staged_ex_def staged_individual_ex_def)

theorem Update_merges_staged_rows_witness:
  "faults world_ex = [] \<and> posts world_ex = [] \<and>
   tuple_rows (TupleJSONReader batch_ex True) = Some staged_ex \<and>
   individual_rows (IndividualJSONReader batch_ex True) = Some staged_individual_ex \<and>
   HttpExec tuples_insert_stmt None \<in>
     set (new_calls world_ex (snd (Update store_ex batch_ex world_ex))) \<and>
   HttpExec individual_insert_stmt None \<in>
     set (new_calls world_ex (snd (Update store_ex batch_ex world_ex))) \<and>
   fst (Update store_ex batch_ex world_ex) =
     Returns (\<lparr>Inserted = 0, Updated = 0, Duration = 4000\<rparr>, None) \<and>
   server (snd (Update store_ex batch_ex world_ex)) =
     server_ex\<lparr>tuples := Some (the (tuples server_ex) @
         [\<lparr>t_query = ''moc.elpmaxe'', t_type = ''A'', t_answer = ''1.2.3.4'',
           t_ttl = 60, t_first = 50, t_last = 200, t_count = 5\<rparr>,
          \<lparr>t_query = ''gro.elpmaxe'', t_type = ''A'', t_answer = ''5.6.7.8'',
           t_ttl = 10, t_first = 7, t_last = 9, t_count = 1\<rparr>]),
       individual := Some (the (individual server_ex) @
         [\<lparr>i_which = Q, i_value = ''moc.elpmaxe'', i_first = 50, i_last = 200, i_count = 5\<rparr>,
          \<lparr>i_which = A, i_value = ''1.2.3.4'', i_first = 50, i_last = 150, i_count = 3\<rparr>]),
       tuples_temp := Some staged_ex, individual_temp := Some staged_individual_ex\<rparr> \<and>
   is_tuples_merge staged_ex
     [\<lparr>t_query = ''moc.elpmaxe'', t_type = ''A'', t_answer = ''1.2.3.4'',
       t_ttl = 60, t_first = 50, t_last = 200, t_count = 5\<rparr>,
      \<lparr>t_query = ''gro.elpmaxe'', t_type = ''A'', t_answer = ''5.6.7.8'',
       t_ttl = 10, t_first = 7, t_last = 9, t_count = 1\<rparr>] \<and>
   is_individual_merge staged_individual_ex
     [\<lparr>i_which = Q, i_value = ''moc.elpmaxe'', i_first = 50, i_last = 200, i_count = 5\<rparr>,
      \<lparr>i_which = A, i_value = ''1.2.3.4'', i_first = 50, i_last = 150, i_count = 3\<rparr>]"
proof -
  let ?out = "fst (Update store_ex batch_ex world_ex)"
  let ?w' = "snd (Update store_ex batch_ex world_ex)"
  note merged = Update_merges_staged_rows [where s = store_ex and ar = batch_ex
      and w = world_ex, OF surjective_pairing]
  have hyp: "faults world_ex = [] \<and> posts world_ex = [] \<and>
      tuples (server world_ex) = Some (the (tuples server_ex)) \<and>
      individual (server world_ex) = Some (the (individual server_ex)) \<and>
      tuple_rows (TupleJSONReader batch_ex True) = Some staged_ex \<and>
      individual_rows (IndividualJSONReader batch_ex True) = Some staged_individual_ex"
    by (simp add: world_ex_quiet(1,2,4,5) batch_ex_rows)
  from merged [THEN conjunct2, THEN conjunct2, rule_format, OF hyp]
  obtain d ins_t ins_i where
    srv: "server ?w' = (server world_ex)\<lparr>tuples := Some (the (tuples server_ex) @ ins_t),
        individual := Some (the (individual server_ex) @ ins_i),
        tuples_temp := Some staged_ex, individual_temp := Some staged_individual_ex\<rparr>"
    and mt: "is_tuples_merge staged_ex ins_t"
    and mi: "is_individual_merge staged_individual_ex ins_i"
    by blast
  from Update_quiet [OF surjective_pairing world_ex_quiet(1,2,4,5) batch_ex_rows, of store_ex]
  have "tuples (server ?w') = Some (the (tuples server_ex) @ select_tuples_states staged_ex)"
    and "individual (server ?w') =
      Some (the (individual server_ex) @ select_individual_states staged_individual_ex)"
    by simp_all
  with srv have "ins_t = select_tuples_states staged_ex"
    and "ins_i = select_individual_states staged_individual_ex"
    by simp_all
  with srv mt mi show ?thesis
    by (simp add: world_ex_quiet batch_ex_rows run_success staged_ex_states
        staged_individual_ex_states)
qed

subsection \<open>Failures of the staging steps\<close>

text \<open>
  C3, as the code has it: \<open>Update\<close> loads and merges the tuples before it loads the
  individuals. In every run, a failed \<open>CREATE TABLE\<close> of either staging table, or a
  tuple bulk load for which \<open>SendJSON\<close> returns an error, ends the run before any merge
  insert is sent, and \<open>Update\<close> returns that error wrapped with the message of that
  stage. When the individual bulk load returns an error, \<open>Update\<close> returns it wrapped
  with the message of that stage and the individual merge insert is not sent, but the
  tuple merge insert has already been executed, without error, earlier in the same run.
  (A bulk load that gets no response at all makes \<open>Update\<close> panic; that case has no
  returned error and is not part of this statement.)
\<close>

theorem Update_staging_failure:
  assumes "Update s ar w = (out, w')"
  shows
    "(\<forall>e. HttpExec tuples_temp_stmt (Some e) \<in> set (new_calls w w') \<longrightarrow>
        out = Returns (\<lparr>Inserted = 0, Updated = 0, Duration = 0\<rparr>,
                Some (Wrap e ''CHStore.Update failed to create temporary tuples table'')) \<and>
        filter is_merge_insert (new_calls w w') = []) \<and>
     (\<forall>e. HttpExec individual_temp_stmt (Some e) \<in> set (new_calls w w') \<longrightarrow>
        out = Returns (\<lparr>Inserted = 0, Updated = 0, Duration = 0\<rparr>,
                Some (Wrap e ''CHStore.Update failed to create temporary individual table'')) \<and>
        filter is_merge_insert (new_calls w w') = []) \<and>
     (\<forall>rsp pe e.
        HttpPost (host s) ''INSERT INTO tuples_temp FORMAT JSONEachRow''
          (TupleJSONReader ar True) (Some rsp) pe \<in> set (new_calls w w') \<and>
        response_error rsp = Some e \<longrightarrow>
        out = Returns (\<lparr>Inserted = 0, Updated = 0, Duration = 0\<rparr>,
                Some (Wrap e ''CHStore.Update tuples failed'')) \<and>
        filter is_merge_insert (new_calls w w') = []) \<and>
     (\<forall>rsp pe e.
        HttpPost (host s) ''INSERT INTO individual_temp FORMAT JSONEachRow''
          (IndividualJSONReader ar True) (Some rsp) pe \<in> set (new_calls w w') \<and>
        response_error rsp = Some e \<longrightarrow>
        out = Returns (\<lparr>Inserted = 0, Updated = 0, Duration = 0\<rparr>,
                Some (Wrap e ''CHStore.Update individual failed'')) \<and>
        filter is_merge_insert (new_calls w w') = [HttpExec tuples_insert_stmt None])"
  using assms
proof (cases rule: Update_cases)
  case (create_tuples e1 e2 e)
  then show ?thesis by (simp add: stmts_distinct)
next
  case (create_individual e1 e2 e)
  then show ?thesis by (simp add: stmts_distinct)
next
  case (load_tuples_panic e1 e2 pe)
  then show ?thesis by (simp add: stmts_distinct)
next
  case (load_tuples e1 e2 rsp pe e)
  then show ?thesis by (auto simp: stmts_distinct)
next
  case (insert_tuples e1 e2 rsp pe e)
  then show ?thesis by (auto simp: stmts_distinct)
next
  case (load_individual_panic e1 e2 rsp pe pe')
  then show ?thesis by (auto simp: stmts_distinct)
next
  case (load_individual e1 e2 rsp pe rsp' pe' e)
  then show ?thesis by (auto simp: stmts_distinct)
next
  case (insert_individual e1 e2 rsp pe rsp' pe' e)
  then show ?thesis by (auto simp: stmts_distinct)
next
  case (success e1 e2 rsp pe rsp' pe' d)
  then show ?thesis by (auto simp: stmts_distinct)
qed

text \<open>Runs of \<open>Update\<close> that fail at one stage, evaluated.\<close>

lemma run_load_individual_fails:
  "fst (Update store_ex batch_ex world_load_individual_fails) =
     Returns (\<lparr>Inserted = 0, Updated = 0, Duration = 0\<rparr>,
       Some (Wrap (Errorf ''Clickhouse error: Memory limit exceeded'')
               ''CHStore.Update individual failed''))"
  "new_calls world_load_individual_fails (snd (Update store_ex batch_ex world_load_individual_fails)) =
     [HttpExec ''DROP TABLE tuples_temp'' (Some (Foreign ''Table default.tuples_temp doesn't exist'')),
      HttpExec ''DROP TABLE individual_temp'' (Some (Foreign ''Table default.individual_temp doesn't exist'')),
      HttpExec tuples_temp_stmt None,
      HttpExec individual_temp_stmt None,
      HttpPost ''localhost'' ''INSERT INTO tuples_temp FORMAT JSONEachRow''
        (TupleJSONReader batch_ex True) (Some \<lparr>StatusCode = 200, Body = [], BodyErr = None\<rparr>) None,
      HttpExec tuples_insert_stmt None,
      HttpPost ''localhost'' ''INSERT INTO individual_temp FORMAT JSONEachRow''
        (IndividualJSONReader batch_ex True)
        (Some \<lparr>StatusCode = 500, Body = ''Memory limit exceeded'', BodyErr = None\<rparr>) None]"
  "tuples (server (snd (Update store_ex batch_ex world_load_individual_fails))) =
     Some (the (tuples server_ex) @ select_tuples_states staged_ex)"
  by (simp_all add: run_simps world_load_individual_fails_def)


lemma run_create_tuples_fails:
  "fst (Update store_ex batch_ex world_create_tuples_fails) =
     Returns (\<lparr>Inserted = 0, Updated = 0, Duration = 0\<rparr>,
       Some (Wrap (Foreign ''timeout'') ''CHStore.Update failed to create temporary tuples table''))"
  "new_calls world_create_tuples_fails (snd (Update store_ex batch_ex world_create_tuples_fails)) =
     [HttpExec ''DROP TABLE tuples_temp'' (Some (Foreign ''Table default.tuples_temp doesn't exist'')),
      HttpExec ''DROP TABLE individual_temp'' (Some (Foreign ''Table default.individual_temp doesn't exist'')),
      HttpExec tuples_temp_stmt (Some (Foreign ''timeout''))]"
  by (simp_all add: run_simps world_create_tuples_fails_def)

lemma run_create_individual_fails:
  "fst (Update store_ex batch_ex world_create_individual_fails) =
     Returns (\<lparr>Inserted = 0, Updated = 0, Duration = 0\<rparr>,
       Some (Wrap (Foreign ''timeout'') ''CHStore.Update failed to create temporary individual table''))"
  "new_calls world_create_individual_fails (snd (Update store_ex batch_ex world_create_individual_fails)) =
     [HttpExec ''DROP TABLE tuples_temp'' (Some (Foreign ''Table default.tuples_temp doesn't exist'')),
      HttpExec ''DROP TABLE individual_temp'' (Some (Foreign ''Table default.individual_temp doesn't exist'')),
      HttpExec tuples_temp_stmt None,
      HttpExec individual_temp_stmt (Some (Foreign ''timeout''))]"
  by (simp_all add: run_simps world_create_individual_fails_def)

lemma run_load_tuples_fails:
  "fst (Update store_ex batch_ex world_load_tuples_fails) =
     Returns (\<lparr>Inserted = 0, Updated = 0, Duration = 0\<rparr>,
       Some (Wrap (Errorf ''Clickhouse error: Memory limit exceeded'') ''CHStore.Update tuples failed''))"
  "new_calls world_load_tuples_fails (snd (Update store_ex batch_ex world_load_tuples_fails)) =
     [HttpExec ''DROP TABLE tuples_temp'' (Some (Foreign ''Table default.tuples_temp doesn't exist'')),
      HttpExec ''DROP TABLE individual_temp'' (Some (Foreign ''Table default.individual_temp doesn't exist'')),
      HttpExec tuples_temp_stmt None,
      HttpExec individual_temp_stmt None,
      HttpPost ''localhost'' ''INSERT INTO tuples_temp FORMAT JSONEachRow''
        (TupleJSONReader batch_ex True)
        (Some \<lparr>StatusCode = 500, Body = ''Memory limit exceeded'', BodyErr = None\<rparr>) None]"
  by (simp_all add: run_simps world_load_tuples_fails_def)

lemma host_store_ex: "host store_ex = ''localhost''"
  by (simp add: store_ex_def)

lemma response_500:
  "response_error \<lparr>StatusCode = 500, Body = ''Memory limit exceeded'', BodyErr = None\<rparr> =
     Some (Errorf ''Clickhouse error: Memory limit exceeded'')"
  by (simp add: response_error_def)

text \<open>
  The theorem at four worlds, one for every stage: each run stops at the failing call,
  returns the error of that stage, and has sent the merge inserts the theorem names.
\<close>

theorem Update_staging_failure_witness:
  "HttpExec tuples_temp_stmt (Some (Foreign ''timeout'')) \<in>
     set (new_calls world_create_tuples_fails (snd (Update store_ex batch_ex world_create_tuples_fails))) \<and>
   fst (Update store_ex batch_ex world_create_tuples_fails) =
     Returns (\<lparr>Inserted = 0, Updated = 0, Duration = 0\<rparr>,
       Some (Wrap (Foreign ''timeout'') ''CHStore.Update failed to create temporary tuples table'')) \<and>
   filter is_merge_insert
     (new_calls world_create_tuples_fails (snd (Update store_ex batch_ex world_create_tuples_fails))) = [] \<and>
   HttpExec individual_temp_stmt (Some (Foreign ''timeout'')) \<in>
     set (new_calls world_create_individual_fails (snd (Update store_ex batch_ex world_create_individual_fails))) \<and>
   fst (Update store_ex batch_ex world_create_individual_fails) =
     Returns (\<lparr>Inserted = 0, Updated = 0, Duration = 0\<rparr>,
       Some (Wrap (Foreign ''timeout'') ''CHStore.Update failed to create temporary individual table'')) \<and>
   filter is_merge_insert
     (new_calls world_create_individual_fails (snd (Update store_ex batch_ex world_create_individual_fails))) = [] \<and>
   HttpPost (host store_ex) ''INSERT INTO tuples_temp FORMAT JSONEachRow'' (TupleJSONReader batch_ex True)
       (Some \<lparr>StatusCode = 500, Body = ''Memory limit exceeded'', BodyErr = None\<rparr>) None \<in>
     set (new_calls world_load_tuples_fails (snd (Update store_ex batch_ex world_load_tuples_fails))) \<and>
   fst (Update store_ex batch_ex world_load_tuples_fails) =
     Returns (\<lparr>Inserted = 0, Updated = 0, Duration = 0\<rparr>,
       Some (Wrap (Errorf ''Clickhouse error: Memory limit exceeded'') ''CHStore.Update tuples failed'')) \<and>
   filter is_merge_insert
     (new_calls world_load_tuples_fails (snd (Update store_ex batch_ex world_load_tuples_fails))) = [] \<and>
   HttpPost (host store_ex) ''INSERT INTO individual_temp FORMAT JSONEachRow''
       (IndividualJSONReader batch_ex True)
       (Some \<lparr>StatusCode = 500, Body = ''Memory limit exceeded'', BodyErr = None\<rparr>) None \<in>
     set (new_calls world_load_individual_fails (snd (Update store_ex batch_ex world_load_individual_fails))) \<and>
   fst (Update store_ex batch_ex world_load_individual_fails) =
     Returns (\<lparr>Inserted = 0, Updated = 0, Duration = 0\<rparr>,
       Some (Wrap (Errorf ''Clickhouse error: Memory limit exceeded'') ''CHStore.Update individual failed'')) \<and>
   filter is_merge_insert
     (new_calls world_load_individual_fails (snd (Update store_ex batch_ex world_load_individual_fails))) =
     [HttpExec tuples_insert_stmt None]"
proof -
  have m1: "HttpExec tuples_temp_stmt (Some (Foreign ''timeout'')) \<in>
     set (new_calls world_create_tuples_fails (snd (Update store_ex batch_ex world_create_tuples_fails)))"
    by (simp add: run_create_tuples_fails)
  have m2: "HttpExec individual_temp_stmt (Some (Foreign ''timeout'')) \<in>
     set (new_calls world_create_individual_fails (snd (Update store_ex batch_ex world_create_individual_fails)))"
    by (simp add: run_create_individual_fails)
  have m3: "HttpPost (host store_ex) ''INSERT INTO tuples_temp FORMAT JSONEachRow'' (TupleJSONReader batch_ex True)
       (Some \<lparr>StatusCode = 500, Body = ''Memory limit exceeded'', BodyErr = None\<rparr>) None \<in>
     set (new_calls world_load_tuples_fails (snd (Update store_ex batch_ex world_load_tuples_fails)))"
    by (simp add: run_load_tuples_fails host_store_ex)
  have m4: "HttpPost (host store_ex) ''INSERT INTO individual_temp FORMAT JSONEachRow''
       (IndividualJSONReader batch_ex True)
       (Some \<lparr>StatusCode = 500, Body = ''Memory limit exceeded'', BodyErr = None\<rparr>) None \<in>
     set (new_calls world_load_individual_fails (snd (Update store_ex batch_ex world_load_individual_fails)))"
    by (simp add: run_load_individual_fails host_store_ex)
  note t1 = Update_staging_failure [where s = store_ex and ar = batch_ex and w = world_create_tuples_fails, OF surjective_pairing]
  note t2 = Update_staging_failure [where s = store_ex and ar = batch_ex and w = world_create_individual_fails, OF surjective_pairing]
  note t3 = Update_staging_failure [where s = store_ex and ar = batch_ex and w = world_load_tuples_fails, OF surjective_pairing]
  note t4 = Update_staging_failure [where s = store_ex and ar = batch_ex and w = world_load_individual_fails, OF surjective_pairing]
  from t1 m1 have c1: "fst (Update store_ex batch_ex world_create_tuples_fails) =
     Returns (\<lparr>Inserted = 0, Updated = 0, Duration = 0\<rparr>,
       Some (Wrap (Foreign ''timeout'') ''CHStore.Update failed to create temporary tuples table'')) \<and>
   filter is_merge_insert
     (new_calls world_create_tuples_fails (snd (Update store_ex batch_ex world_create_tuples_fails))) = []"
    by blast
  from t2 m2 have c2: "fst (Update store_ex batch_ex world_create_individual_fails) =
     Returns (\<lparr>Inserted = 0, Updated = 0, Duration = 0\<rparr>,
       Some (Wrap (Foreign ''timeout'') ''CHStore.Update failed to create temporary individual table'')) \<and>
   filter is_merge_insert
     (new_calls world_create_individual_fails (snd (Update store_ex batch_ex world_create_individual_fails))) = []"
    by blast
  from t3 m3 response_500 have c3: "fst (Update store_ex batch_ex world_load_tuples_fails) =
     Returns (\<lparr>Inserted = 0, Updated = 0, Duration = 0\<rparr>,
       Some (Wrap (Errorf ''Clickhouse error: Memory limit exceeded'') ''CHStore.Update tuples failed'')) \<and>
   filter is_merge_insert
     (new_calls world_load_tuples_fails (snd (Update store_ex batch_ex world_load_tuples_fails))) = []"
    by blast
  from t4 m4 response_500 have c4: "fst (Update store_ex batch_ex world_load_individual_fails) =
     Returns (\<lparr>Inserted = 0, Updated = 0, Duration = 0\<rparr>,
       Some (Wrap (Errorf ''Clickhouse error: Memory limit exceeded'') ''CHStore.Update individual failed'')) \<and>
   filter is_merge_insert
     (new_calls world_load_individual_fails (snd (Update store_ex batch_ex world_load_individual_fails))) =
     [HttpExec tuples_insert_stmt None]"
    by blast
  from m1 m2 m3 m4 c1 c2 c3 c4 show ?thesis by (intro conjI) (erule conjunct1 conjunct2 | assumption)+
qed

text \<open>
  C3 as stated fails: in the world where the server rejects the individual bulk load,
  the run returns the error of that stage, and yet the tuple merge insert is in the log
  of the run and the permanent tuple table has two more rows.
\<close>

theorem Update_individual_load_failure_counterexample:
  "HttpPost (host store_ex) ''INSERT INTO individual_temp FORMAT JSONEachRow''
       (IndividualJSONReader batch_ex True)
       (Some \<lparr>StatusCode = 500, Body = ''Memory limit exceeded'', BodyErr = None\<rparr>) None \<in>
     set (new_calls world_load_individual_fails (snd (Update store_ex batch_ex world_load_individual_fails))) \<and>
   fst (Update store_ex batch_ex world_load_individual_fails) =
     Returns (\<lparr>Inserted = 0, Updated = 0, Duration = 0\<rparr>,
       Some (Wrap (Errorf ''Clickhouse error: Memory limit exceeded'') ''CHStore.Update individual failed'')) \<and>
   HttpExec tuples_insert_stmt None \<in>
     set (new_calls world_load_individual_fails (snd (Update store_ex batch_ex world_load_individual_fails))) \<and>
   filter is_merge_insert
     (new_calls world_load_individual_fails (snd (Update store_ex batch_ex world_load_individual_fails))) \<noteq> [] \<and>
   tuples (server (snd (Update store_ex batch_ex world_load_individual_fails))) =
     Some (the (tuples server_ex) @
       [\<lparr>t_query = ''moc.elpmaxe'', t_type = ''A'', t_answer = ''1.2.3.4'',
         t_ttl = 60, t_first = 50, t_last = 200, t_count = 5\<rparr>,
        \<lparr>t_query = ''gro.elpmaxe'', t_type = ''A'', t_answer = ''5.6.7.8'',
         t_ttl = 10, t_first = 7, t_last = 9, t_count = 1\<rparr>])"
  by (simp add: run_load_individual_fails staged_ex_states host_store_ex stmts_distinct)

subsection \<open>The staging tables after a run\<close>

text \<open>
  C8: every run of \<open>Update\<close> starts with the two \<open>DROP TABLE\<close> statements for the
  staging tables and sends no other \<open>DROP TABLE\<close>, so a successful run ends with both
  staging tables still on the server, and they are dropped by the first two calls of
  the next run. What the two drops return plays no part in the result: whenever every
  call after them goes through, the run succeeds.
\<close>

theorem Update_drops_only_first:
  assumes "Update s ar w = (out, w')"
  shows
    "(\<exists>e1 e2. take 2 (new_calls w w') =
        [HttpExec ''DROP TABLE tuples_temp'' e1, HttpExec ''DROP TABLE individual_temp'' e2]) \<and>
     (\<forall>c\<in>set (drop 2 (new_calls w w')). \<not> is_drop c) \<and>
     ((\<forall>c\<in>set (drop 2 (new_calls w w')). call_ok c) \<longrightarrow> (\<exists>res. out = Returns (res, None))) \<and>
     ((\<exists>res. out = Returns (res, None)) \<longrightarrow>
        tuples_temp (server w') \<noteq> None \<and> individual_temp (server w') \<noteq> None)"
  using assms
proof (cases rule: Update_cases)
  case (create_tuples e1 e2 e)
  then show ?thesis by (simp add: stmts_distinct)
next
  case (create_individual e1 e2 e)
  then show ?thesis by (simp add: stmts_distinct)
next
  case (load_tuples_panic e1 e2 pe)
  then show ?thesis by (simp add: stmts_distinct)
next
  case (load_tuples e1 e2 rsp pe e)
  then show ?thesis by (simp add: stmts_distinct)
next
  case (insert_tuples e1 e2 rsp pe e)
  then show ?thesis by (simp add: stmts_distinct)
next
  case (load_individual_panic e1 e2 rsp pe pe')
  then show ?thesis by (simp add: stmts_distinct)
next
  case (load_individual e1 e2 rsp pe rsp' pe' e)
  then show ?thesis by (simp add: stmts_distinct)
next
  case (insert_individual e1 e2 rsp pe rsp' pe' e)
  then show ?thesis by (simp add: stmts_distinct)
next
  case (success e1 e2 rsp pe rsp' pe' d)
  then show ?thesis by (simp add: stmts_distinct)
qed

text \<open>
  The theorem on a server without staging tables: both drops fail, the run succeeds,
  the staging tables are left holding the batch, and the next run drops them.
\<close>

lemma run_again:
  "take 2 (new_calls (snd (Update store_ex batch_ex world_ex))
      (snd (Update store_ex batch_ex (snd (Update store_ex batch_ex world_ex))))) =
     [HttpExec ''DROP TABLE tuples_temp'' None, HttpExec ''DROP TABLE individual_temp'' None]"
  by (simp add: run_simps Let_def)

theorem Update_drops_only_first_witness:
  "take 2 (new_calls world_ex (snd (Update store_ex batch_ex world_ex))) =
     [HttpExec ''DROP TABLE tuples_temp'' (Some (Foreign ''Table default.tuples_temp doesn't exist'')),
      HttpExec ''DROP TABLE individual_temp'' (Some (Foreign ''Table default.individual_temp doesn't exist''))] \<and>
   list_all call_ok (drop 2 (new_calls world_ex (snd (Update store_ex batch_ex world_ex)))) \<and>
   list_all (\<lambda>c. \<not> is_drop c) (drop 2 (new_calls world_ex (snd (Update store_ex batch_ex world_ex)))) \<and>
   fst (Update store_ex batch_ex world_ex) =
     Returns (\<lparr>Inserted = 0, Updated = 0, Duration = 4000\<rparr>, None) \<and>
   tuples_temp (server (snd (Update store_ex batch_ex world_ex))) \<noteq> None \<and>
   individual_temp (server (snd (Update store_ex batch_ex world_ex))) \<noteq> None \<and>
   tuples_temp (server (snd (Update store_ex batch_ex world_ex))) = Some staged_ex \<and>
   individual_temp (server (snd (Update store_ex batch_ex world_ex))) = Some staged_individual_ex \<and>
   take 2 (new_calls (snd (Update store_ex batch_ex world_ex))
      (snd (Update store_ex batch_ex (snd (Update store_ex batch_ex world_ex))))) =
     [HttpExec ''DROP TABLE tuples_temp'' None, HttpExec ''DROP TABLE individual_temp'' None]"
proof -
  note t = Update_drops_only_first [where s = store_ex and ar = batch_ex and w = world_ex,
      OF surjective_pairing]
  have ok: "list_all call_ok (drop 2 (new_calls world_ex (snd (Update store_ex batch_ex world_ex))))"
    by (simp add: run_success response_error_def)
  then have "\<forall>c\<in>set (drop 2 (new_calls world_ex (snd (Update store_ex batch_ex world_ex)))). call_ok c"
    by (simp only: list_all_iff)
  with t have "\<exists>res. fst (Update store_ex batch_ex world_ex) = Returns (res, None)"
    by blast
  with t have kept: "tuples_temp (server (snd (Update store_ex batch_ex world_ex))) \<noteq> None \<and>
      individual_temp (server (snd (Update store_ex batch_ex world_ex))) \<noteq> None"
    by blast
  from t have nd: "list_all (\<lambda>c. \<not> is_drop c)
      (drop 2 (new_calls world_ex (snd (Update store_ex batch_ex world_ex))))"
    unfolding list_all_iff by blast
  from ok nd kept show ?thesis
    by (simp add: run_success run_again)
qed

subsection \<open>The lookups\<close>

lemma Reverse_Reverse: "Reverse (Reverse x) = x"
  by (simp add: Reverse_def)

text \<open>
  The patterns the lookups build end in \<open>%\<close>. When the input itself has none of the
  characters that are special in a pattern, such a pattern matches exactly the strings
  that start with the input.
\<close>

lemma sql_like_percent: "sql_like ''%'' s"
  by (induction s) simp_all

lemma sql_like_prefix:
  assumes "CHR ''%'' \<notin> set q" and "CHR ''_'' \<notin> set q" and "CHR 0x5C \<notin> set q"
  shows "sql_like (q @ ''%'') s \<longleftrightarrow> (\<exists>t. s = q @ t)"
  using assms
proof (induction q arbitrary: s)
  case Nil
  show ?case by (simp add: sql_like_percent del: sql_like.simps)
next
  case (Cons c q)
  then show ?case by (cases s) auto
qed

lemma select_tuples_merged_sorted:
  "sorted (map (\<lambda>r. (Query r, Answer r)) (select_tuples_merged cond rows))"
  by (simp add: select_tuples_merged_def)

lemma select_individual_merged_sorted:
  "sorted (map Value (select_individual_merged cond rows))"
  by (simp add: select_individual_merged_def)

lemma select_tuples_merged_keys:
  "(\<lambda>r. (Query r, Type r, Answer r)) ` set (select_tuples_merged cond rows) =
     tuples_key ` {r \<in> set rows. cond r}"
proof -
  have init: "(\<lambda>r. (Query r, Type r, Answer r)) (tuples_merge_init r) = tuples_key r" for r
    by (simp add: tuples_merge_init_def tuples_key_def)
  have add: "(\<lambda>r. (Query r, Type r, Answer r)) (tuples_merge_add st r) =
      (\<lambda>r. (Query r, Type r, Answer r)) st" for st r
    by (simp add: tuples_merge_add_def)
  from GROUP_BY_spec [of "\<lambda>r. (Query r, Type r, Answer r)" tuples_merge_init tuples_key
      tuples_merge_add "filter cond rows", OF init add]
  show ?thesis by (simp add: select_tuples_merged_def)
qed

lemma select_individual_merged_keys:
  "(\<lambda>r. (Which r, Value r)) ` set (select_individual_merged cond rows) =
     individual_key ` {r \<in> set rows. cond r}"
proof -
  have init: "(\<lambda>r. (Which r, Value r)) (individual_merge_init r) = individual_key r" for r
    by (simp add: individual_merge_init_def individual_key_def)
  have add: "(\<lambda>r. (Which r, Value r)) (individual_merge_add st r) =
      (\<lambda>r. (Which r, Value r)) st" for st r
    by (simp add: individual_merge_add_def)
  from GROUP_BY_spec [of "\<lambda>r. (Which r, Value r)" individual_merge_init individual_key
      individual_merge_add "filter cond rows", OF init add]
  show ?thesis by (simp add: select_individual_merged_def)
qed

lemma stored_tuple_key_reverseQuery:
  "map stored_tuple_key (reverseQuery tr) = map (\<lambda>r. (Query r, Type r, Answer r)) tr"
  by (simp add: reverseQuery_def stored_tuple_key_def Reverse_Reverse)

lemma stored_value_reverseValue:
  "map stored_value (reverseValue tr) = map Value tr"
  "map Which (reverseValue tr) = map Which tr"
  by (simp_all add: reverseValue_def stored_value_def Reverse_Reverse)

lemma FindTuples_delivered:
  assumes "fst (next_fault w) = None" and "tuples (server w) = Some rows"
  shows "fst (FindTuples s q w) =
     (reverseQuery (select_tuples_merged (\<lambda>r. t_query r = Reverse q \<or> t_answer r = q) rows), None)"
  using assms
  by (auto simp: FindTuples_def DB_Select_tuples_def ch_select_tuples_def next_fault_def Let_def
      split: list.splits)

lemma LikeTuples_delivered:
  assumes "fst (next_fault w) = None" and "tuples (server w) = Some rows"
  shows "fst (LikeTuples s q w) =
     (reverseQuery (select_tuples_merged
        (\<lambda>r. sql_like (Reverse q @ ''%'') (t_query r) \<or> sql_like (q @ ''%'') (t_answer r)) rows), None)"
  using assms
  by (auto simp: LikeTuples_def DB_Select_tuples_def ch_select_tuples_def next_fault_def Let_def
      split: list.splits)

lemma FindIndividual_delivered:
  assumes "fst (next_fault w) = None" and "individual (server w) = Some rows"
  shows "fst (FindIndividual s v w) =
     (reverseValue (select_individual_merged
        (\<lambda>r. (i_which r = A \<and> i_value r = v) \<or> (i_which r = Q \<and> i_value r = Reverse v)) rows), None)"
  using assms
  by (auto simp: FindIndividual_def DB_Select_individual_def ch_select_individual_def next_fault_def
      Let_def split: list.splits)

lemma LikeIndividual_delivered:
  assumes "fst (next_fault w) = None" and "individual (server w) = Some rows"
  shows "fst (LikeIndividual s v w) =
     (reverseValue (select_individual_merged
        (\<lambda>r. (i_which r = A \<and> sql_like (v @ ''%'') (i_value r)) \<or>
             (i_which r = Q \<and> sql_like (Reverse v @ ''%'') (i_value r))) rows), None)"
  using assms
  by (auto simp: LikeIndividual_def DB_Select_individual_def ch_select_individual_def next_fault_def
      Let_def split: list.splits)

text \<open>
  C1, as the code has it: when the query is delivered and the tuple table exists,
  \<open>FindTuples\<close> returns exactly the groups of the stored rows whose query column equals
  \<open>Reverse q\<close> or whose answer column equals the literal \<open>q\<close>; \<open>LikeTuples\<close> returns
  exactly the groups of the stored rows whose query column matches the pattern
  \<open>Reverse q\<close> followed by \<open>%\<close> or whose answer column matches the pattern of the literal
  \<open>q\<close> followed by \<open>%\<close>. Only the query column is compared with the reversed input.
\<close>

theorem tuple_lookups_match:
  assumes "fst (next_fault w) = None" and "tuples (server w) = Some rows"
  shows
    "snd (fst (FindTuples s q w)) = None \<and>
     stored_tuple_key ` set (fst (fst (FindTuples s q w))) =
       tuples_key ` {r \<in> set rows. t_query r = Reverse q \<or> t_answer r = q} \<and>
     snd (fst (LikeTuples s q w)) = None \<and>
     stored_tuple_key ` set (fst (fst (LikeTuples s q w))) =
       tuples_key ` {r \<in> set rows.
          sql_like (Reverse q @ ''%'') (t_query r) \<or> sql_like (q @ ''%'') (t_answer r)}"
proof -
  have "stored_tuple_key ` set (reverseQuery tr) = (\<lambda>r. (Query r, Type r, Answer r)) ` set tr" for tr
    using stored_tuple_key_reverseQuery [of tr] by (metis set_map)
  then show ?thesis
    by (simp add: FindTuples_delivered [OF assms] LikeTuples_delivered [OF assms]
        select_tuples_merged_keys)
qed

text \<open>Lookups on the example server, evaluated.\<close>

lemmas lookup_simps =
  FindTuples_def LikeTuples_def FindIndividual_def LikeIndividual_def FindQueryTuples_def
  DB_Select_tuples_def DB_Select_individual_def ch_select_tuples_def ch_select_individual_def
  select_tuples_merged_def select_individual_merged_def GROUP_BY_def group_step_def
  tuples_key_def tuples_merge_init_def tuples_merge_add_def
  individual_key_def individual_merge_init_def individual_merge_add_def
  reverseQuery_def reverseValue_def Reverse_def next_fault_def Let_def
  world_ex_def server_ex_def

lemma FindTuples_ex:
  "fst (FindTuples store_ex ''1.2.3.4'' world_ex) =
     ([\<lparr>Query = ''ba.com'', Type = ''A'', Answer = ''1.2.3.4'', First = 10, Last = 20, Count = 1\<rparr>,
       \<lparr>Query = ''b.com'', Type = ''A'', Answer = ''1.2.3.4'', First = 5, Last = 50, Count = 6\<rparr>],
      None)"
  by (simp add: lookup_simps)

lemma LikeTuples_ex:
  "fst (LikeTuples store_ex ''1.2.3'' world_ex) =
     ([\<lparr>Query = ''ba.com'', Type = ''A'', Answer = ''1.2.3.4'', First = 10, Last = 20, Count = 1\<rparr>,
       \<lparr>Query = ''b.com'', Type = ''A'', Answer = ''1.2.3.4'', First = 5, Last = 50, Count = 6\<rparr>],
      None)"
  by (simp add: lookup_simps)

lemma FindIndividual_ex:
  "fst (FindIndividual store_ex ''example.com'' world_ex) =
     ([\<lparr>Which = A, Value = ''example.com'', IFirst = 1, ILast = 2, ICount = 1\<rparr>,
       \<lparr>Which = Q, Value = ''example.com'', IFirst = 3, ILast = 4, ICount = 1\<rparr>],
      None)"
  by (simp add: lookup_simps)

lemma LikeIndividual_ex:
  "fst (LikeIndividual store_ex ''example'' world_ex) =
     ([\<lparr>Which = A, Value = ''example.com'', IFirst = 1, ILast = 2, ICount = 1\<rparr>],
      None)"
  by (simp add: lookup_simps)

lemma world_ex_delivered:
  "fst (next_fault world_ex) = None"
  "tuples (server world_ex) = tuples server_ex"
  "individual (server world_ex) = individual server_ex"
  by (simp_all add: next_fault_def world_ex_def)

text \<open>
  The theorem on the example server: looking up \<open>1.2.3.4\<close> returns the groups of
  \<open>ba.com\<close> and \<open>b.com\<close>, found through their answer column.
\<close>

theorem tuple_lookups_match_witness:
  "fst (next_fault world_ex) = None \<and>
   tuples (server world_ex) = Some (the (tuples server_ex)) \<and>
   snd (fst (FindTuples store_ex ''1.2.3.4'' world_ex)) = None \<and>
   stored_tuple_key ` set (fst (fst (FindTuples store_ex ''1.2.3.4'' world_ex))) =
     {(''moc.ab'', ''A'', ''1.2.3.4''), (''moc.b'', ''A'', ''1.2.3.4'')} \<and>
   tuples_key ` {r \<in> set (the (tuples server_ex)).
       t_query r = Reverse ''1.2.3.4'' \<or> t_answer r = ''1.2.3.4''} =
     {(''moc.ab'', ''A'', ''1.2.3.4''), (''moc.b'', ''A'', ''1.2.3.4'')}"
proof -
  have h1: "fst (next_fault world_ex) = None"
    and h2: "tuples (server world_ex) = Some (the (tuples server_ex))"
    by (simp_all add: world_ex_delivered server_ex_def)
  have k: "stored_tuple_key ` set (fst (fst (FindTuples store_ex ''1.2.3.4'' world_ex))) =
     {(''moc.ab'', ''A'', ''1.2.3.4''), (''moc.b'', ''A'', ''1.2.3.4'')}"
    by (simp add: FindTuples_ex stored_tuple_key_def Reverse_def)
  from tuple_lookups_match [OF h1 h2, of store_ex "''1.2.3.4''"] k h1 h2
  show ?thesis by simp
qed

text \<open>
  C1 as stated fails: \<open>FindTuples\<close> for \<open>1.2.3.4\<close> returns two rows, although no stored
  row has \<open>4.3.2.1\<close>, the reversed input, in its query or in its answer column; the same
  holds for \<open>LikeTuples\<close> and the prefix \<open>1.2.3\<close>.
\<close>

theorem tuple_lookups_answer_literal_counterexample:
  "fst (fst (FindTuples store_ex ''1.2.3.4'' world_ex)) =
     [\<lparr>Query = ''ba.com'', Type = ''A'', Answer = ''1.2.3.4'', First = 10, Last = 20, Count = 1\<rparr>,
      \<lparr>Query = ''b.com'', Type = ''A'', Answer = ''1.2.3.4'', First = 5, Last = 50, Count = 6\<rparr>] \<and>
   Reverse ''1.2.3.4'' = ''4.3.2.1'' \<and>
   filter (\<lambda>r. t_query r = Reverse ''1.2.3.4'' \<or> t_answer r = Reverse ''1.2.3.4'')
     (the (tuples server_ex)) = [] \<and>
   fst (fst (LikeTuples store_ex ''1.2.3'' world_ex)) =
     [\<lparr>Query = ''ba.com'', Type = ''A'', Answer = ''1.2.3.4'', First = 10, Last = 20, Count = 1\<rparr>,
      \<lparr>Query = ''b.com'', Type = ''A'', Answer = ''1.2.3.4'', First = 5, Last = 50, Count = 6\<rparr>] \<and>
   filter (\<lambda>r. sql_like (Reverse ''1.2.3'' @ ''%'') (t_query r) \<or>
               sql_like (Reverse ''1.2.3'' @ ''%'') (t_answer r))
     (the (tuples server_ex)) = []"
  by (simp add: FindTuples_ex LikeTuples_ex Reverse_def server_ex_def)

text \<open>
  C4: when the query is delivered and the individual table exists, \<open>FindIndividual\<close>
  returns exactly the groups of the stored rows that are \<open>A\<close> rows with the literal \<open>v\<close>
  as value or \<open>Q\<close> rows with \<open>Reverse v\<close> as value. So a returned \<open>Q\<close> row always comes
  from a stored \<open>Q\<close> row with value \<open>Reverse v\<close>, and a returned \<open>A\<close> row from a stored \<open>A\<close>
  row with value \<open>v\<close>: a value stored only as an answer is never returned as a query,
  and the other way round. \<open>LikeIndividual\<close> does the same with the two patterns \<open>v\<close>
  and \<open>Reverse v\<close> followed by \<open>%\<close>.
\<close>

theorem individual_lookups_discriminate:
  assumes "fst (next_fault w) = None" and "individual (server w) = Some rows"
  shows
    "snd (fst (FindIndividual s v w)) = None \<and>
     (\<lambda>r. (Which r, stored_value r)) ` set (fst (fst (FindIndividual s v w))) =
       individual_key ` {r \<in> set rows.
          (i_which r = A \<and> i_value r = v) \<or> (i_which r = Q \<and> i_value r = Reverse v)} \<and>
     (\<forall>r\<in>set (fst (fst (FindIndividual s v w))).
        (Which r = A \<longrightarrow> (\<exists>x\<in>set rows. i_which x = A \<and> i_value x = v)) \<and>
        (Which r = Q \<longrightarrow> (\<exists>x\<in>set rows. i_which x = Q \<and> i_value x = Reverse v))) \<and>
     snd (fst (LikeIndividual s v w)) = None \<and>
     (\<lambda>r. (Which r, stored_value r)) ` set (fst (fst (LikeIndividual s v w))) =
       individual_key ` {r \<in> set rows.
          (i_which r = A \<and> sql_like (v @ ''%'') (i_value r)) \<or>
          (i_which r = Q \<and> sql_like (Reverse v @ ''%'') (i_value r))} \<and>
     (\<forall>r\<in>set (fst (fst (LikeIndividual s v w))).
        (Which r = A \<longrightarrow> (\<exists>x\<in>set rows. i_which x = A \<and> sql_like (v @ ''%'') (i_value x))) \<and>
        (Which r = Q \<longrightarrow> (\<exists>x\<in>set rows. i_which x = Q \<and> sql_like (Reverse v @ ''%'') (i_value x))))"
proof -
  have "map (\<lambda>r. (Which r, stored_value r)) (reverseValue tr) =
      map (\<lambda>r. (Which r, Value r)) tr" for tr
    by (simp add: reverseValue_def stored_value_def Reverse_Reverse)
  then have key: "(\<lambda>r. (Which r, stored_value r)) ` set (reverseValue tr) =
      (\<lambda>r. (Which r, Value r)) ` set tr" for tr
    by (metis set_map)
  have find: "(\<lambda>r. (Which r, stored_value r)) ` set (fst (fst (FindIndividual s v w))) =
       individual_key ` {r \<in> set rows.
          (i_which r = A \<and> i_value r = v) \<or> (i_which r = Q \<and> i_value r = Reverse v)}"
    by (simp add: FindIndividual_delivered [OF assms] key select_individual_merged_keys)
  have like: "(\<lambda>r. (Which r, stored_value r)) ` set (fst (fst (LikeIndividual s v w))) =
       individual_key ` {r \<in> set rows.
          (i_which r = A \<and> sql_like (v @ ''%'') (i_value r)) \<or>
          (i_which r = Q \<and> sql_like (Reverse v @ ''%'') (i_value r))}"
    by (simp add: LikeIndividual_delivered [OF assms] key select_individual_merged_keys)
  have find_rows: "(Which r = A \<longrightarrow> (\<exists>x\<in>set rows. i_which x = A \<and> i_value x = v)) \<and>
        (Which r = Q \<longrightarrow> (\<exists>x\<in>set rows. i_which x = Q \<and> i_value x = Reverse v))"
    if "r \<in> set (fst (fst (FindIndividual s v w)))" for r
  proof -
    from that have "(Which r, stored_value r) \<in> individual_key ` {r \<in> set rows.
          (i_which r = A \<and> i_value r = v) \<or> (i_which r = Q \<and> i_value r = Reverse v)}"
      unfolding find [symmetric] by (rule imageI)
    then show ?thesis by (auto simp: individual_key_def)
  qed
  have like_rows: "(Which r = A \<longrightarrow> (\<exists>x\<in>set rows. i_which x = A \<and> sql_like (v @ ''%'') (i_value x))) \<and>
        (Which r = Q \<longrightarrow> (\<exists>x\<in>set rows. i_which x = Q \<and> sql_like (Reverse v @ ''%'') (i_value x)))"
    if "r \<in> set (fst (fst (LikeIndividual s v w)))" for r
  proof -
    from that have "(Which r, stored_value r) \<in> individual_key ` {r \<in> set rows.
          (i_which r = A \<and> sql_like (v @ ''%'') (i_value r)) \<or>
          (i_which r = Q \<and> sql_like (Reverse v @ ''%'') (i_value r))}"
      unfolding like [symmetric] by (rule imageI)
    then show ?thesis by (auto simp: individual_key_def)
  qed
  have e1: "snd (fst (FindIndividual s v w)) = None"
    by (simp add: FindIndividual_delivered [OF assms])
  have e2: "snd (fst (LikeIndividual s v w)) = None"
    by (simp add: LikeIndividual_delivered [OF assms])
  from e1 find find_rows e2 like like_rows show ?thesis by blast
qed

text \<open>
  The theorem on the example server: looking up \<open>example.com\<close> returns the \<open>A\<close> row
  stored as \<open>example.com\<close> and the \<open>Q\<close> row stored as \<open>moc.elpmaxe\<close>, and not the \<open>Q\<close> row
  stored as \<open>example.com\<close>.
\<close>

theorem individual_lookups_discriminate_witness:
  "fst (next_fault world_ex) = None \<and>
   individual (server world_ex) = Some (the (individual server_ex)) \<and>
   fst (fst (FindIndividual store_ex ''example.com'' world_ex)) =
     [\<lparr>Which = A, Value = ''example.com'', IFirst = 1, ILast = 2, ICount = 1\<rparr>,
      \<lparr>Which = Q, Value = ''example.com'', IFirst = 3, ILast = 4, ICount = 1\<rparr>] \<and>
   (\<lambda>r. (Which r, stored_value r)) ` set (fst (fst (FindIndividual store_ex ''example.com'' world_ex))) =
     {(A, ''example.com''), (Q, ''moc.elpmaxe'')} \<and>
   individual_key ` {r \<in> set (the (individual server_ex)).
       (i_which r = A \<and> i_value r = ''example.com'') \<or>
       (i_which r = Q \<and> i_value r = Reverse ''example.com'')} =
     {(A, ''example.com''), (Q, ''moc.elpmaxe'')} \<and>
   fst (fst (LikeIndividual store_ex ''example'' world_ex)) =
     [\<lparr>Which = A, Value = ''example.com'', IFirst = 1, ILast = 2, ICount = 1\<rparr>]"
proof -
  have h1: "fst (next_fault world_ex) = None"
    and h2: "individual (server world_ex) = Some (the (individual server_ex))"
    by (simp_all add: world_ex_delivered server_ex_def)
  have k: "(\<lambda>r. (Which r, stored_value r)) ` set (fst (fst (FindIndividual store_ex ''example.com'' world_ex))) =
     {(A, ''example.com''), (Q, ''moc.elpmaxe'')}"
    by (simp add: FindIndividual_ex stored_value_def Reverse_def)
  from individual_lookups_discriminate [OF h1 h2, of store_ex "''example.com''"] k h1 h2
  show ?thesis by (simp add: FindIndividual_ex LikeIndividual_ex)
qed

lemma DB_Select_tuples_sorted:
  assumes "sql \<noteq> ''SELECT * FROM tuples WHERE query = ?''"
  shows "sorted (map (\<lambda>r. (Query r, Answer r)) (fst (fst (DB_Select_tuples sql args w))))"
  using assms
  by (auto simp: DB_Select_tuples_def ch_select_tuples_def Let_def select_tuples_merged_sorted
      split: prod.splits option.splits sum.splits list.splits if_splits)

lemma DB_Select_individual_sorted:
  "sorted (map Value (fst (fst (DB_Select_individual sql args w))))"
  by (auto simp: DB_Select_individual_def ch_select_individual_def Let_def
      select_individual_merged_sorted
      split: prod.splits option.splits sum.splits list.splits if_splits)

text \<open>
  C5, as the code has it: the rows \<open>FindTuples\<close> and \<open>LikeTuples\<close> return are in
  ascending order of (stored query, answer), where the stored query is the reverse of
  the query name that is returned; the rows \<open>FindIndividual\<close> and \<open>LikeIndividual\<close> return
  are in ascending order of the stored value, which for a \<open>Q\<close> row is the reverse of the
  value that is returned. This holds in every world, also when the query fails and no
  row is returned.
\<close>

theorem lookups_sorted_by_stored_key:
  "sorted (map (\<lambda>r. (Reverse (Query r), Answer r)) (fst (fst (FindTuples s q w)))) \<and>
   sorted (map (\<lambda>r. (Reverse (Query r), Answer r)) (fst (fst (LikeTuples s q w)))) \<and>
   sorted (map stored_value (fst (fst (FindIndividual s v w)))) \<and>
   sorted (map stored_value (fst (fst (LikeIndividual s v w))))"
proof -
  have rq: "map (\<lambda>r. (Reverse (Query r), Answer r)) (reverseQuery tr) =
      map (\<lambda>r. (Query r, Answer r)) tr" for tr
    by (simp add: reverseQuery_def Reverse_Reverse)
  have 1: "sorted (map (\<lambda>r. (Reverse (Query r), Answer r)) (fst (fst (FindTuples s q w))))"
    using DB_Select_tuples_sorted [of "''SELECT query, type, answer, minMerge(first) as first, maxMerge(last) as last, sumMerge(count) as count from tuples WHERE query = ? OR answer = ? group by query, type, answer ORDER BY query, answer''" "[Reverse q, q]" w]
    by (simp add: FindTuples_def Let_def rq case_prod_beta)
  have 2: "sorted (map (\<lambda>r. (Reverse (Query r), Answer r)) (fst (fst (LikeTuples s q w))))"
    using DB_Select_tuples_sorted [of "''SELECT query, type, answer, minMerge(first) as first, maxMerge(last) as last, sumMerge(count) as count from tuples WHERE query like ? OR answer like ? group by query, type, answer ORDER BY query, answer''" "[Reverse q @ ''%'', q @ ''%'']" w]
    by (simp add: LikeTuples_def Let_def rq case_prod_beta)
  have 3: "sorted (map stored_value (fst (fst (FindIndividual s v w))))"
    using DB_Select_individual_sorted [of "''SELECT which, value, minMerge(first) as first, maxMerge(last) as last, sumMerge(count) as count from individual WHERE (which='A' AND value = ?) OR (which='Q' AND value = ?) group by which, value ORDER BY value''" "[v, Reverse v]" w]
    by (simp add: FindIndividual_def Let_def stored_value_reverseValue case_prod_beta)
  have 4: "sorted (map stored_value (fst (fst (LikeIndividual s v w))))"
    using DB_Select_individual_sorted [of "''SELECT which, value, minMerge(first) as first, maxMerge(last) as last, sumMerge(count) as count from individual WHERE (which='A' AND value like ?) OR (which='Q' AND value like ?) group by which, value ORDER BY value''" "[v @ ''%'', Reverse v @ ''%'']" w]
    by (simp add: LikeIndividual_def Let_def stored_value_reverseValue case_prod_beta)
  from 1 2 3 4 show ?thesis by (intro conjI)
qed

text \<open>
  The theorem on the example server: the stored keys of the rows returned for
  \<open>1.2.3.4\<close> and for \<open>example.com\<close> are ascending.
\<close>

theorem lookups_sorted_by_stored_key_witness:
  "map (\<lambda>r. (Reverse (Query r), Answer r)) (fst (fst (FindTuples store_ex ''1.2.3.4'' world_ex))) =
     [(''moc.ab'', ''1.2.3.4''), (''moc.b'', ''1.2.3.4'')] \<and>
   sorted (map (\<lambda>r. (Reverse (Query r), Answer r)) (fst (fst (FindTuples store_ex ''1.2.3.4'' world_ex)))) \<and>
   map stored_value (fst (fst (FindIndividual store_ex ''example.com'' world_ex))) =
     [''example.com'', ''moc.elpmaxe''] \<and>
   sorted (map stored_value (fst (fst (FindIndividual store_ex ''example.com'' world_ex))))"
  using lookups_sorted_by_stored_key [of store_ex "''1.2.3.4''" world_ex "''example.com''"]
  by (simp add: FindTuples_ex FindIndividual_ex stored_value_def Reverse_def)

text \<open>
  C5 as stated fails: the rows \<open>FindTuples\<close> returns for \<open>1.2.3.4\<close> are \<open>ba.com\<close> then
  \<open>b.com\<close>, which is not ascending in the query names the caller sees.
\<close>

theorem lookups_visible_order_counterexample:
  "map (\<lambda>r. (Query r, Answer r)) (fst (fst (FindTuples store_ex ''1.2.3.4'' world_ex))) =
     [(''ba.com'', ''1.2.3.4''), (''b.com'', ''1.2.3.4'')] \<and>
   \<not> sorted (map (\<lambda>r. (Query r, Answer r)) (fst (fst (FindTuples store_ex ''1.2.3.4'' world_ex)))) \<and>
   map Value (fst (fst (FindIndividual store_ex ''example.com'' world_ex))) =
     [''example.com'', ''example.com'']"
  by (simp add: FindTuples_ex FindIndividual_ex)

text \<open>
  \<open>FindQueryTuples\<close> sends a statement with no \<open>group by\<close> and no \<open>ORDER BY\<close>. In the model
  it returns the stored rows of the name as they lie in the table: here the mail
  exchanger before the address, and the two rows of the address unmerged.
\<close>

lemma FindQueryTuples_storage_order:
  "fst (FindQueryTuples store_ex ''b.com'' world_ex) =
     ([\<lparr>Query = ''b.com'', Type = ''MX'', Answer = ''mail.b.com'', First = 1, Last = 2, Count = 1\<rparr>,
       \<lparr>Query = ''b.com'', Type = ''A'', Answer = ''1.2.3.4'', First = 5, Last = 30, Count = 2\<rparr>,
       \<lparr>Query = ''b.com'', Type = ''A'', Answer = ''1.2.3.4'', First = 40, Last = 50, Count = 4\<rparr>],
      None)"
  by (simp add: lookup_simps)

end
